theory Spec2Isabelle
  imports Complex_Main "HOL-Library.Sublist"
begin

section \<open>Freight quoting: the fulfillment services and controllers\<close>

text \<open>
  The repository holds two copies of the fulfillment code: the service
  \<^verbatim>\<open>src/api/fulfillment/services/fulfillment.ts\<close> with the controller beside it, and
  a second controller and service in one file whose name is not recorded. Constants that
  model the second copy carry the suffix \<open>_u\<close>; the others keep the source's names.

  JavaScript numbers are modelled as real numbers: every arithmetic operation is exact,
  and the values not-a-number and infinity appear only where the code can produce them
  from a string (\<open>parseFloat\<close>) or as the start value of a minimum search. The one
  exception is the price taken from the external rate service: there \<open>Math.floor\<close>
  makes the rounding of a product visible, and the operations are those of double
  precision numbers.
  Database reads (\<open>strapi.documents(...).findMany\<close>, \<open>findOne\<close>) are reads of lists
  held in a record; their filters are exact-match filters.
\<close>

subsection \<open>JavaScript library functions used by the code\<close>

text \<open>\<open>Math.round\<close>: the nearest integer, a tie going up.\<close>

definition Math_round :: "real \<Rightarrow> int" where
  "Math_round x = \<lfloor>x + 1 / 2\<rfloor>"

text \<open>
  \<open>parseFloat(x.toFixed(f))\<close> for a number \<open>x\<close>: \<open>toFixed\<close> prints the sign and then
  the nearest multiple of \<open>10^-f\<close> of the absolute value, the larger one on a tie; from
  \<open>10^21\<close> on it prints the number itself.
\<close>

definition toFixed :: "nat \<Rightarrow> real \<Rightarrow> real" where
  "toFixed f x =
     (if 10 ^ 21 \<le> \<bar>x\<bar> then x
      else if x < 0 then - (of_int \<lfloor>(- x) * 10 ^ f + 1 / 2\<rfloor> / 10 ^ f)
      else of_int \<lfloor>x * 10 ^ f + 1 / 2\<rfloor> / 10 ^ f)"

text \<open>\<open>x % 1 !== 0\<close> on a number: the number is not an integer.\<close>

definition fractional :: "real \<Rightarrow> bool" where
  "fractional x = (of_int \<lfloor>x\<rfloor> \<noteq> x)"

text \<open>Strings are ASCII strings. \<open>s.includes(t)\<close>:\<close>

fun includes_str :: "string \<Rightarrow> string \<Rightarrow> bool" where
  "includes_str [] t = (t = [])"
| "includes_str (c # cs) t = (prefix t (c # cs) \<or> includes_str cs t)"

text \<open>\<open>s.startsWith(t)\<close>:\<close>

definition startsWith :: "string \<Rightarrow> string \<Rightarrow> bool" where
  "startsWith s t = prefix t s"

text \<open>
  \<open>s.split(sep)\<close> for a separator that is not empty: the pieces between the
  occurrences of \<open>sep\<close>, found from the left. \<open>acc\<close> holds the current piece reversed.
\<close>

function split_from :: "string \<Rightarrow> string \<Rightarrow> string \<Rightarrow> string list" where
  "split_from sep acc [] = [rev acc]"
| "split_from sep acc (c # cs) =
     (if sep \<noteq> [] \<and> prefix sep (c # cs)
      then rev acc # split_from sep [] (drop (length sep - 1) cs)
      else split_from sep (c # acc) cs)"
  by pat_completeness auto
termination
  by (relation "measure (\<lambda>(sep, acc, s). length s)") auto

definition split_str :: "string \<Rightarrow> string \<Rightarrow> string list" where
  "split_str s sep = split_from sep [] s"

text \<open>\<open>s.trim()\<close>: white space is removed at both ends.\<close>

definition isWhiteSpace :: "char \<Rightarrow> bool" where
  "isWhiteSpace c = (of_char c \<in> {9, 10, 11, 12, 13, 32 :: nat})"

definition trim :: "string \<Rightarrow> string" where
  "trim s = rev (dropWhile isWhiteSpace (rev (dropWhile isWhiteSpace s)))"

text \<open>
  \<open>parseFloat(s)\<close> for a string: white space is skipped, then the longest prefix that is
  a decimal literal is read: a sign, then \<open>Infinity\<close> or digits with an optional
  fraction, then an optional exponent. Without such a prefix the result is not-a-number.
\<close>

datatype jsnum = NaN | Num real | PosInf | NegInf

definition isDigit :: "char \<Rightarrow> bool" where
  "isDigit c = (48 \<le> (of_char c :: nat) \<and> (of_char c :: nat) \<le> 57)"

definition digitsValue :: "string \<Rightarrow> nat" where
  "digitsValue ds = foldl (\<lambda>n c. 10 * n + (of_char c - 48)) 0 ds"

text \<open>The exponent part \<open>e\<close>, \<open>e+\<close> or \<open>e-\<close> with digits; anything else is no exponent.\<close>

definition exponentPart :: "string \<Rightarrow> int" where
  "exponentPart s =
     (case s of
        [] \<Rightarrow> 0
      | c # r \<Rightarrow>
          if c = CHR ''e'' \<or> c = CHR ''E'' then
            (case r of
               [] \<Rightarrow> 0
             | d # r' \<Rightarrow>
                 if d = CHR ''-'' then
                   (if takeWhile isDigit r' = [] then 0
                    else - int (digitsValue (takeWhile isDigit r')))
                 else if d = CHR ''+'' then int (digitsValue (takeWhile isDigit r'))
                 else int (digitsValue (takeWhile isDigit r)))
          else 0)"

definition scale10 :: "real \<Rightarrow> int \<Rightarrow> real" where
  "scale10 x e = (if 0 \<le> e then x * 10 ^ nat e else x / 10 ^ nat (- e))"

definition unsignedLiteral :: "string \<Rightarrow> real option" where
  "unsignedLiteral s =
     (let ip = takeWhile isDigit s;
          r1 = dropWhile isDigit s;
          hasDot = (r1 \<noteq> [] \<and> hd r1 = CHR ''.'');
          fp = (if hasDot then takeWhile isDigit (tl r1) else []);
          r2 = (if hasDot then dropWhile isDigit (tl r1) else r1)
      in if ip = [] \<and> fp = [] then None
         else Some (scale10
                (real (digitsValue ip) + real (digitsValue fp) / 10 ^ length fp)
                (exponentPart r2)))"

definition parseFloat :: "string \<Rightarrow> jsnum" where
  "parseFloat s =
     (let t = dropWhile isWhiteSpace s;
          neg = (t \<noteq> [] \<and> hd t = CHR ''-'');
          u = (if t \<noteq> [] \<and> (hd t = CHR ''-'' \<or> hd t = CHR ''+'') then tl t else t)
      in if prefix ''Infinity'' u then (if neg then NegInf else PosInf)
         else (case unsignedLiteral u of
                 None \<Rightarrow> NaN
               | Some v \<Rightarrow> Num (if neg then - v else v)))"

text \<open>The comparisons \<open>d >= y\<close> and \<open>d < y\<close> of a finite number \<open>d\<close> with a parsed one.\<close>

fun ge_num :: "real \<Rightarrow> jsnum \<Rightarrow> bool" where
  "ge_num d NaN = False"
| "ge_num d (Num y) = (y \<le> d)"
| "ge_num d PosInf = False"
| "ge_num d NegInf = True"

fun lt_num :: "real \<Rightarrow> jsnum \<Rightarrow> bool" where
  "lt_num d NaN = False"
| "lt_num d (Num y) = (d < y)"
| "lt_num d PosInf = True"
| "lt_num d NegInf = False"

subsection \<open>Distance bands\<close>

text \<open>\<open>mapDistanceToRange\<close> of the service: a chain of upper bounds.\<close>

definition mapDistanceToRange :: "real \<Rightarrow> string" where
  "mapDistanceToRange distanceKm =
     (if distanceKm < 100 then ''0-99km''
      else if distanceKm < 200 then ''100-199km''
      else if distanceKm < 300 then ''200-299km''
      else if distanceKm < 400 then ''300-399km''
      else if distanceKm < 500 then ''400-499km''
      else if distanceKm < 600 then ''500-599km''
      else if distanceKm < 700 then ''600-699km''
      else if distanceKm < 800 then ''700-799km''
      else if distanceKm < 900 then ''800-899km''
      else if distanceKm < 1000 then ''900-999km''
      else ''1000+km'')"

text \<open>
  \<open>mapDistanceToRange\<close> of the second copy: a table of \<open>[min, max, range]\<close> and a loop
  that returns the first range with \<open>distanceKm >= min && distanceKm < max\<close>.
\<close>

definition ranges :: "(real \<times> real \<times> string) list" where
  "ranges =
     [(0, 99, ''0-99km''), (100, 199, ''100-199km''), (200, 299, ''200-299km''),
      (300, 399, ''300-399km''), (400, 499, ''400-499km''), (500, 599, ''500-599km''),
      (600, 699, ''600-699km''), (700, 799, ''700-799km''), (800, 899, ''800-899km''),
      (900, 999, ''900-999km'')]"

fun firstRange :: "real \<Rightarrow> (real \<times> real \<times> string) list \<Rightarrow> string" where
  "firstRange distanceKm [] = ''1000+km''"
| "firstRange distanceKm ((mn, mx, label) # rest) =
     (if mn \<le> distanceKm \<and> distanceKm < mx then label else firstRange distanceKm rest)"

definition mapDistanceToRange_u :: "real \<Rightarrow> string" where
  "mapDistanceToRange_u distanceKm = firstRange distanceKm ranges"

subsection \<open>Reference tables\<close>

text \<open>
  The rows of the collections the services read. A field that the code tests for
  \<open>null\<close> is an option. \<open>freightClass\<close> of a price row is a number (the seeded
  tables hold integers there); \<open>price\<close> is the rate per hundredweight, a number, so
  that \<open>parseFloat(selectedPricing.price)\<close> is that number.
\<close>

record freight_calculation =
  sub :: int
  densityRange :: string
  assignedFreightClass :: real

record freight_class_pricing =
  freightClass :: real
  distance :: "string option"
  breakpointValue :: "real option"
  price :: real

record warehouse =
  documentId :: int
  name :: string
  postalCode :: "string option"
  salesChannelId :: "string option"

record discount_setting =
  isDiscountEnabled :: bool
  discountPercentage :: real

text \<open>\<open>null\<close> read as a number is 0 (\<open>weight >= null\<close>, \<open>a - null\<close>).\<close>

definition toNumber :: "real option \<Rightarrow> real" where
  "toNumber v = (case v of None \<Rightarrow> 0 | Some x \<Rightarrow> x)"

text \<open>The truth value of a string that may be \<open>null\<close>, and of a number that may be.\<close>

definition truthy :: "string option \<Rightarrow> bool" where
  "truthy v = (case v of None \<Rightarrow> False | Some s \<Rightarrow> s \<noteq> [])"

definition falsy :: "real option \<Rightarrow> bool" where
  "falsy v = (case v of None \<Rightarrow> True | Some x \<Rightarrow> x = 0)"

subsection \<open>Units and density\<close>

definition mmToInches :: "real \<Rightarrow> real" where
  "mmToInches mm = mm * 0.0393701"

definition gramsToPounds :: "real \<Rightarrow> real" where
  "gramsToPounds grams = grams * 0.00220462"

text \<open>
  The service takes millimetres and grams. The services compute a density only for
  a box whose dimensions are not 0, so the divisor is not 0.
\<close>

definition calculateCubicFeet :: "real \<Rightarrow> real \<Rightarrow> real \<Rightarrow> real" where
  "calculateCubicFeet lengthMm widthMm heightMm =
     (let lengthInches = mmToInches lengthMm;
          widthInches = mmToInches widthMm;
          heightInches = mmToInches heightMm
      in (lengthInches * widthInches * heightInches) / 1728)"

definition calculateDensity :: "real \<Rightarrow> real \<Rightarrow> real \<Rightarrow> real \<Rightarrow> real" where
  "calculateDensity lengthMm widthMm heightMm weightGrams =
     (if weightGrams \<le> 0 then 0
      else let lengthInches = mmToInches lengthMm;
               widthInches = mmToInches widthMm;
               heightInches = mmToInches heightMm;
               weightPounds = gramsToPounds weightGrams;
               cubicFeet = (lengthInches * widthInches * heightInches) / 1728
           in weightPounds / cubicFeet)"

text \<open>The second copy takes inches and pounds.\<close>

definition calculateCubicFeet_u :: "real \<Rightarrow> real \<Rightarrow> real \<Rightarrow> real" where
  "calculateCubicFeet_u lengthIn widthIn heightIn = (lengthIn * widthIn * heightIn) / 1728"

definition calculateDensity_u :: "real \<Rightarrow> real \<Rightarrow> real \<Rightarrow> real \<Rightarrow> real" where
  "calculateDensity_u lengthIn widthIn heightIn weightLb =
     (if weightLb \<le> 0 then 0 else weightLb / calculateCubicFeet_u lengthIn widthIn heightIn)"

subsection \<open>Freight class by density\<close>

text \<open>
  The loop of \<open>findFreightClassByDensity\<close> over the rows sorted by \<open>sub\<close>: \<open>Some c\<close>
  when an iteration returns the class \<open>c\<close>, \<open>None\<close> when the loop ends. The service
  writes the three tests as one \<open>if ... else if ... else if\<close>.
\<close>

fun classLoop :: "real \<Rightarrow> freight_calculation list \<Rightarrow> real option" where
  "classLoop density [] = None"
| "classLoop density (calc # rest) =
     (let range = densityRange calc in
      if range = ''Less than 1'' \<and> density < 1 then Some (assignedFreightClass calc)
      else if includes_str range ''but less than'' then
        (let parts = split_str range ''but less than'';
             mn = parseFloat (trim (parts ! 0));
             mx = parseFloat (trim (parts ! 1))
         in if ge_num density mn \<and> lt_num density mx then Some (assignedFreightClass calc)
            else classLoop density rest)
      else if range = ''50 or greater'' \<and> 50 \<le> density then Some (assignedFreightClass calc)
      else classLoop density rest)"

text \<open>
  \<open>sorted[sorted.length - 1]?.assignedFreightClass || null\<close>: \<open>null\<close> for no row and
  for a last row of class 0.
\<close>

definition findFreightClassByDensity :: "freight_calculation list \<Rightarrow> real \<Rightarrow> real option" where
  "findFreightClassByDensity calculations density =
     (let sorted = sort_key sub calculations in
      case classLoop density sorted of
        Some c \<Rightarrow> Some c
      | None \<Rightarrow>
          if sorted = [] then None
          else if assignedFreightClass (last sorted) = 0 then None
          else Some (assignedFreightClass (last sorted)))"

text \<open>The second copy writes three separate \<open>if\<close> statements in the loop.\<close>

fun classLoop_u :: "real \<Rightarrow> freight_calculation list \<Rightarrow> real option" where
  "classLoop_u density [] = None"
| "classLoop_u density (calc # rest) =
     (let range = densityRange calc in
      if range = ''Less than 1'' \<and> density < 1 then Some (assignedFreightClass calc)
      else if includes_str range ''but less than''
              \<and> (let parts = split_str range ''but less than'';
                      mn = parseFloat (trim (parts ! 0));
                      mx = parseFloat (trim (parts ! 1))
                  in ge_num density mn \<and> lt_num density mx)
      then Some (assignedFreightClass calc)
      else if range = ''50 or greater'' \<and> 50 \<le> density then Some (assignedFreightClass calc)
      else classLoop_u density rest)"

definition findFreightClassByDensity_u :: "freight_calculation list \<Rightarrow> real \<Rightarrow> real option" where
  "findFreightClassByDensity_u calculations density =
     (let sorted = sort_key sub calculations in
      case classLoop_u density sorted of
        Some c \<Rightarrow> Some c
      | None \<Rightarrow>
          if sorted = [] then None
          else if assignedFreightClass (last sorted) = 0 then None
          else Some (assignedFreightClass (last sorted)))"

subsection \<open>Price rows and weight tiers\<close>

record PricingResult =
  pr_price :: real
  pr_ratePerCwt :: real

text \<open>
  The loop over the rows sorted by breakpoint: \<open>current = sorted[i]\<close>,
  \<open>next = sorted[i + 1]\<close>; the first row with
  \<open>weight >= current.breakpointValue && (!next || weight < next.breakpointValue)\<close>.
\<close>

fun weightLoop :: "real \<Rightarrow> freight_class_pricing list \<Rightarrow> freight_class_pricing option" where
  "weightLoop weight [] = None"
| "weightLoop weight [current] =
     (if toNumber (breakpointValue current) \<le> weight then Some current else None)"
| "weightLoop weight (current # next # rest) =
     (if toNumber (breakpointValue current) \<le> weight
         \<and> weight < toNumber (breakpointValue next)
      then Some current else weightLoop weight (next # rest))"

text \<open>
  \<open>findPriceAndRateByClassAndDistance\<close> of the service, in one piece: the three
  reads of the price table, the weight tier, the price.
\<close>

definition findPriceAndRateByClassAndDistance ::
  "freight_class_pricing list \<Rightarrow> real \<Rightarrow> string \<Rightarrow> real \<Rightarrow> PricingResult option" where
  "findPriceAndRateByClassAndDistance table fc distance' weight =
     (let freightClassInt = Math_round fc;
          pricings1 = filter (\<lambda>p. freightClass p = of_int freightClassInt \<and> distance p = Some distance') table;
          pricings2 =
            (if length pricings1 = 0 \<and> includes_str distance' ''-'' then
               (let rangeStart = trim (split_str distance' ''-'' ! 0);
                    allPricings = filter (\<lambda>p. freightClass p = of_int freightClassInt) table
                in filter (\<lambda>p.
                     let pDistance = (case distance p of None \<Rightarrow> [] | Some s \<Rightarrow> s)
                     in pDistance = distance' \<or> startsWith pDistance rangeStart
                        \<or> pDistance = rangeStart) allPricings)
             else pricings1);
          pricings3 =
            (if length pricings2 = 0
             then filter (\<lambda>p. freightClass p = of_int freightClassInt) table
             else pricings2)
      in if length pricings3 = 0 then None
         else
           (let sorted = sort_key (\<lambda>p. toNumber (breakpointValue p))
                           (filter (\<lambda>p. breakpointValue p \<noteq> None) pricings3);
                selected1 = weightLoop weight sorted;
                selected2 = (if selected1 = None \<and> 0 < length sorted
                             then Some (last sorted) else selected1);
                selected3 = (if selected2 = None
                             then find (\<lambda>p. falsy (breakpointValue p)) pricings3
                             else selected2)
            in case selected3 of
                 None \<Rightarrow> None
               | Some selectedPricing \<Rightarrow>
                   (let ratePerCwt = price selectedPricing;
                        totalPrice = ratePerCwt * (weight / 100)
                    in Some \<lparr>pr_price = totalPrice, pr_ratePerCwt = ratePerCwt\<rparr>)))"

text \<open>The second copy splits the same work in three functions.\<close>

definition findPricingEntries ::
  "freight_class_pricing list \<Rightarrow> real \<Rightarrow> string \<Rightarrow> freight_class_pricing list" where
  "findPricingEntries table fc distance' =
     (let freightClassInt = Math_round fc;
          pricings1 = filter (\<lambda>p. freightClass p = of_int freightClassInt \<and> distance p = Some distance') table;
          pricings2 =
            (if length pricings1 = 0 \<and> includes_str distance' ''-'' then
               (let rangeStart = trim (split_str distance' ''-'' ! 0);
                    allPricings = filter (\<lambda>p. freightClass p = of_int freightClassInt) table
                in filter (\<lambda>p.
                     let pDistance = (case distance p of None \<Rightarrow> [] | Some s \<Rightarrow> s)
                     in pDistance = distance' \<or> startsWith pDistance rangeStart
                        \<or> pDistance = rangeStart) allPricings)
             else pricings1)
      in if length pricings2 = 0
         then filter (\<lambda>p. freightClass p = of_int freightClassInt) table
         else pricings2)"

definition selectPricingByWeight ::
  "freight_class_pricing list \<Rightarrow> real \<Rightarrow> freight_class_pricing option" where
  "selectPricingByWeight pricings weight =
     (let sorted = sort_key (\<lambda>p. toNumber (breakpointValue p))
                     (filter (\<lambda>p. breakpointValue p \<noteq> None) pricings)
      in case weightLoop weight sorted of
           Some current \<Rightarrow> Some current
         | None \<Rightarrow>
             if 0 < length sorted then Some (last sorted)
             else find (\<lambda>p. falsy (breakpointValue p)) pricings)"

definition findPriceAndRateByClassAndDistance_u ::
  "freight_class_pricing list \<Rightarrow> real \<Rightarrow> string \<Rightarrow> real \<Rightarrow> PricingResult option" where
  "findPriceAndRateByClassAndDistance_u table fc distance' weight =
     (let pricings = findPricingEntries table fc distance' in
      if length pricings = 0 then None
      else case selectPricingByWeight pricings weight of
             None \<Rightarrow> None
           | Some selectedPricing \<Rightarrow>
               (let ratePerCwt = price selectedPricing;
                    price' = ratePerCwt * (weight / 100)
                in Some \<lparr>pr_price = price', pr_ratePerCwt = ratePerCwt\<rparr>))"

subsection \<open>Quoting the boxes of a shipment\<close>

record strapi =
  freight_calculations :: "freight_calculation list"
  freight_class_pricings :: "freight_class_pricing list"
  warehouses :: "warehouse list"
  discount_settings :: "discount_setting option"
  medusa_discount_settings :: "discount_setting option"

text \<open>A box of the request: each field is a number or is missing.\<close>

record box =
  box_length :: "real option"
  box_width :: "real option"
  box_height :: "real option"
  box_weight :: "real option"

text \<open>
  The errors the services throw, one constructor for each message. \<open>NoFreightClass\<close>
  carries the density the message prints; \<open>NoPricingFound\<close> carries the computed class,
  the nearest class tried, the distance, the band and the weight; \<open>FailedToGetOrigin\<close>
  is the service's wrapper around an error of \<open>getOriginPostalCode\<close>; \<open>TypeError\<close> is
  the read of a field of a missing object.
\<close>

datatype error =
    MissingDestination
  | NoWarehousesFound
  | FailedToGetOrigin error
  | FailedToCalculateDistance
  | ItemsOrBoxesRequired
  | ItemMissingDimensions
  | BoxMissingDimensions
  | NoFreightClass real
  | NoPricingData
  | NoPricingFound real real real string real
  | TypeError

record box_result =
  b_weightLbs :: real
  b_cubicFeet :: real
  b_densityPcf :: real
  b_freightClass :: real
  b_distanceKm :: real
  b_rateSource :: string
  b_ratePerCwt :: real
  b_currency :: string
  b_price :: real
  b_lengthIn :: real
  b_widthIn :: real
  b_heightIn :: real

record quote =
  q_destination_postalCode :: string
  q_destination_country :: string
  q_chosenWarehouse_id :: int
  q_chosenWarehouse_name :: string
  q_chosenWarehouse_postalCode :: "string option"
  q_distanceKm :: real
  q_boxes :: "box_result list"
  q_subtotal :: real
  q_discountPercent :: real
  q_total :: real
  q_currency :: string

text \<open>\<open>[...new Set(xs)]\<close>: the first occurrence of each value, in order.\<close>

definition newSet :: "'a list \<Rightarrow> 'a list" where
  "newSet xs = rev (remdups (rev xs))"

text \<open>
  The service's search for the nearest class: \<open>nearestClass\<close> and \<open>minDiff\<close> are
  updated when a class is strictly nearer.
\<close>

fun nearestLoop :: "real \<Rightarrow> real \<times> real \<Rightarrow> real list \<Rightarrow> real" where
  "nearestLoop calculated (nearestClass, minDiff) [] = nearestClass"
| "nearestLoop calculated (nearestClass, minDiff) (availableClass # rest) =
     (let diff = \<bar>calculated - availableClass\<bar> in
      if diff < minDiff then nearestLoop calculated (availableClass, diff) rest
      else nearestLoop calculated (nearestClass, minDiff) rest)"

text \<open>
  The body of the service's loop \<open>for (const box of boxes)\<close>: the error thrown, or the
  entry pushed on \<open>boxResults\<close> with the amount added to \<open>subtotal\<close>. The box holds
  millimetres and grams.
\<close>

definition quoteBox :: "strapi \<Rightarrow> real \<Rightarrow> string \<Rightarrow> box \<Rightarrow> error + box_result \<times> real" where
  "quoteBox db distanceKm distanceRange b =
     (if falsy (box_length b) \<or> falsy (box_width b) \<or> falsy (box_height b)
         \<or> falsy (box_weight b)
      then Inl BoxMissingDimensions
      else
        (let lengthInches = mmToInches (toNumber (box_length b));
             widthInches = mmToInches (toNumber (box_width b));
             heightInches = mmToInches (toNumber (box_height b));
             cubicFeet = calculateCubicFeet (toNumber (box_length b))
                           (toNumber (box_width b)) (toNumber (box_height b));
             density = calculateDensity (toNumber (box_length b)) (toNumber (box_width b))
                         (toNumber (box_height b)) (toNumber (box_weight b));
             weightPounds = gramsToPounds (toNumber (box_weight b))
         in case findFreightClassByDensity (freight_calculations db) density of
              None \<Rightarrow> Inl (NoFreightClass (toFixed 2 density))
            | Some calculatedFreightClass \<Rightarrow>
                if calculatedFreightClass = 0 then Inl (NoFreightClass (toFixed 2 density))
                else
                  (let table = freight_class_pricings db;
                       priceResult1 = findPriceAndRateByClassAndDistance table
                                        calculatedFreightClass distanceRange weightPounds;
                       (priceResult2, freightClassUsed2) =
                         (if priceResult1 = None \<and> fractional calculatedFreightClass then
                            (let roundedClass = Math_round calculatedFreightClass;
                                 r = findPriceAndRateByClassAndDistance table
                                       (of_int roundedClass) distanceRange weightPounds
                             in (r, if r \<noteq> None then of_int roundedClass
                                    else calculatedFreightClass))
                          else (priceResult1, calculatedFreightClass));
                       resolved =
                         (case priceResult2 of
                            Some r \<Rightarrow> Inr (r, freightClassUsed2)
                          | None \<Rightarrow>
                              (let availableClasses = sort (newSet (map freightClass table)) in
                               if length availableClasses = 0 then Inl NoPricingData
                               else
                                 (let nearestClass =
                                        nearestLoop calculatedFreightClass
                                          (availableClasses ! 0,
                                           \<bar>calculatedFreightClass - availableClasses ! 0\<bar>)
                                          availableClasses
                                  in case findPriceAndRateByClassAndDistance table nearestClass
                                            distanceRange weightPounds of
                                       None \<Rightarrow>
                                         Inl (NoPricingFound calculatedFreightClass nearestClass
                                                (toFixed 2 distanceKm) distanceRange
                                                (toFixed 2 weightPounds))
                                     | Some r \<Rightarrow> Inr (r, nearestClass))))
                   in case resolved of
                        Inl e \<Rightarrow> Inl e
                      | Inr (priceResult, freightClassUsed) \<Rightarrow>
                          Inr (\<lparr>b_weightLbs = toFixed 2 weightPounds,
                                b_cubicFeet = toFixed 14 cubicFeet,
                                b_densityPcf = toFixed 14 density,
                                b_freightClass = freightClassUsed,
                                b_distanceKm = toFixed 3 distanceKm,
                                b_rateSource = ''STRAPI_TABLE'',
                                b_ratePerCwt = toFixed 1 (pr_ratePerCwt priceResult),
                                b_currency = ''CAD'',
                                b_price = toFixed 2 (pr_price priceResult),
                                b_lengthIn = toFixed 2 lengthInches,
                                b_widthIn = toFixed 2 widthInches,
                                b_heightIn = toFixed 2 heightInches\<rparr>,
                               pr_price priceResult))))"

text \<open>The loop itself: the first error ends it.\<close>

fun quoteBoxes ::
  "(box \<Rightarrow> error + box_result \<times> real) \<Rightarrow> box list \<Rightarrow> box_result list \<times> real
     \<Rightarrow> error + box_result list \<times> real" where
  "quoteBoxes body [] (boxResults, subtotal) = Inr (boxResults, subtotal)"
| "quoteBoxes body (b # boxes) (boxResults, subtotal) =
     (case body b of
        Inl e \<Rightarrow> Inl e
      | Inr (r, p) \<Rightarrow> quoteBoxes body boxes (boxResults @ [r], subtotal + p))"

text \<open>
  After the loop: the discount and the quote. \<open>warehouse\<close> is the first warehouse with
  the origin's postal code.
\<close>

definition assembleQuote ::
  "strapi \<Rightarrow> real \<Rightarrow> string option \<Rightarrow> string \<Rightarrow> string \<Rightarrow> box_result list \<times> real
     \<Rightarrow> quote" where
  "assembleQuote db distanceKm originPostalCode destinationPostalCode destinationCountry res =
     (let warehouses' = filter (\<lambda>w. postalCode w = originPostalCode) (warehouses db);
          boxResults = fst res;
          subtotal = snd res;
          settings = discount_settings db;
          discountPercent =
            (case settings of
               None \<Rightarrow> 0
             | Some st \<Rightarrow>
                 if isDiscountEnabled st \<and> discountPercentage st \<noteq> 0
                 then discountPercentage st else 0);
          discountAmount = subtotal * (discountPercent / 100);
          total = toFixed 3 (subtotal - discountAmount)
      in \<lparr>q_destination_postalCode = destinationPostalCode,
          q_destination_country = destinationCountry,
          q_chosenWarehouse_id =
            (case warehouses' of [] \<Rightarrow> 0 | w # _ \<Rightarrow> documentId w),
          q_chosenWarehouse_name =
            (case warehouses' of
               [] \<Rightarrow> ''Unknown Warehouse''
             | w # _ \<Rightarrow> if name w = [] then ''Unknown Warehouse'' else name w),
          q_chosenWarehouse_postalCode = originPostalCode,
          q_distanceKm = toFixed 3 distanceKm,
          q_boxes = boxResults,
          q_subtotal = toFixed 3 subtotal,
          q_discountPercent = discountPercent,
          q_total = total,
          q_currency = ''CAD''\<rparr>)"

definition calculateShippingForBoxes ::
  "strapi \<Rightarrow> box list \<Rightarrow> real \<Rightarrow> string \<Rightarrow> string option \<Rightarrow> string \<Rightarrow> string
     \<Rightarrow> error + quote" where
  "calculateShippingForBoxes db boxes distanceKm distanceRange originPostalCode
       destinationPostalCode destinationCountry =
     (case quoteBoxes (quoteBox db distanceKm distanceRange) boxes ([], 0) of
        Inl e \<Rightarrow> Inl e
      | Inr res \<Rightarrow>
          Inr (assembleQuote db distanceKm originPostalCode destinationPostalCode
                 destinationCountry res))"

text \<open>
  The second copy: the box holds inches and pounds, the nearest class is found by
  \<open>reduce\<close>, the rest is the same text.
\<close>

definition quoteBox_u :: "strapi \<Rightarrow> real \<Rightarrow> string \<Rightarrow> box \<Rightarrow> error + box_result \<times> real" where
  "quoteBox_u db distanceKm distanceRange b =
     (if falsy (box_length b) \<or> falsy (box_width b) \<or> falsy (box_height b)
         \<or> falsy (box_weight b)
      then Inl BoxMissingDimensions
      else
        (let length' = toNumber (box_length b);
             width = toNumber (box_width b);
             height = toNumber (box_height b);
             weight = toNumber (box_weight b);
             cubicFeet = calculateCubicFeet_u length' width height;
             density = calculateDensity_u length' width height weight
         in case findFreightClassByDensity_u (freight_calculations db) density of
              None \<Rightarrow> Inl (NoFreightClass (toFixed 2 density))
            | Some freightClass' \<Rightarrow>
                if freightClass' = 0 then Inl (NoFreightClass (toFixed 2 density))
                else
                  (let table = freight_class_pricings db;
                       priceResult1 = findPriceAndRateByClassAndDistance_u table
                                        freightClass' distanceRange weight;
                       (priceResult2, freightClassUsed2) =
                         (if priceResult1 = None \<and> fractional freightClass' then
                            (let roundedClass = Math_round freightClass';
                                 r = findPriceAndRateByClassAndDistance_u table
                                       (of_int roundedClass) distanceRange weight
                             in (r, if r \<noteq> None then of_int roundedClass else freightClass'))
                          else (priceResult1, freightClass'));
                       resolved =
                         (case priceResult2 of
                            Some r \<Rightarrow> Inr (r, freightClassUsed2)
                          | None \<Rightarrow>
                              (let availableClasses = sort (newSet (map freightClass table)) in
                               if length availableClasses = 0 then Inl NoPricingData
                               else
                                 (let nearestClass =
                                        foldl (\<lambda>nearest current.
                                                 if \<bar>current - freightClass'\<bar>
                                                      < \<bar>nearest - freightClass'\<bar>
                                                 then current else nearest)
                                          (availableClasses ! 0) availableClasses
                                  in case findPriceAndRateByClassAndDistance_u table nearestClass
                                            distanceRange weight of
                                       None \<Rightarrow>
                                         Inl (NoPricingFound freightClass' nearestClass
                                                (toFixed 2 distanceKm) distanceRange
                                                (toFixed 2 weight))
                                     | Some r \<Rightarrow> Inr (r, nearestClass))))
                   in case resolved of
                        Inl e \<Rightarrow> Inl e
                      | Inr (priceResult, freightClassUsed) \<Rightarrow>
                          Inr (\<lparr>b_weightLbs = toFixed 2 weight,
                                b_cubicFeet = toFixed 14 cubicFeet,
                                b_densityPcf = toFixed 14 density,
                                b_freightClass = freightClassUsed,
                                b_distanceKm = toFixed 3 distanceKm,
                                b_rateSource = ''STRAPI_TABLE'',
                                b_ratePerCwt = toFixed 1 (pr_ratePerCwt priceResult),
                                b_currency = ''CAD'',
                                b_price = toFixed 2 (pr_price priceResult),
                                b_lengthIn = toFixed 2 length',
                                b_widthIn = toFixed 2 width,
                                b_heightIn = toFixed 2 height\<rparr>,
                               pr_price priceResult))))"

definition calculateShippingForBoxes_u ::
  "strapi \<Rightarrow> box list \<Rightarrow> real \<Rightarrow> string \<Rightarrow> string option \<Rightarrow> string \<Rightarrow> string
     \<Rightarrow> error + quote" where
  "calculateShippingForBoxes_u db boxes distanceKm distanceRange originPostalCode
       destinationPostalCode destinationCountry =
     (case quoteBoxes (quoteBox_u db distanceKm distanceRange) boxes ([], 0) of
        Inl e \<Rightarrow> Inl e
      | Inr res \<Rightarrow>
          Inr (assembleQuote db distanceKm originPostalCode destinationPostalCode
                 destinationCountry res))"

subsection \<open>The origin of a shipment\<close>

text \<open>
  \<open>calculateDistance\<close> asks the distance-matrix service. The service is a function
  from the two addresses to the metres of the first element, \<open>None\<close> when the key is
  missing, the request fails, no row comes back or the element's status is not \<open>OK\<close>.
\<close>

type_synonym distance_matrix = "string \<Rightarrow> string \<Rightarrow> real option"

definition calculateDistance :: "distance_matrix \<Rightarrow> string \<Rightarrow> string \<Rightarrow> error + real" where
  "calculateDistance google originAddress destinationAddress =
     (case google originAddress destinationAddress of
        None \<Rightarrow> Inl FailedToCalculateDistance
      | Some distanceMeters \<Rightarrow> Inr (distanceMeters / 1000))"

text \<open>The template \<open>`${postalCode} CA`\<close>; a \<open>null\<close> prints as \<open>null\<close>.\<close>

definition address :: "string option \<Rightarrow> string" where
  "address postalCode' = (case postalCode' of None \<Rightarrow> ''null'' | Some s \<Rightarrow> s) @ '' CA''"

text \<open>
  The search for the closest warehouse: \<open>closestWarehouse\<close> and \<open>minDistance\<close> (\<open>None\<close>
  is the start value \<open>Infinity\<close>) are updated when a warehouse with a postal code is
  strictly closer; a warehouse whose distance cannot be computed is passed over.
\<close>

fun closestLoop ::
  "distance_matrix \<Rightarrow> string \<Rightarrow> warehouse \<times> real option \<Rightarrow> warehouse list \<Rightarrow> warehouse" where
  "closestLoop google destAddress (closestWarehouse, minDistance) [] = closestWarehouse"
| "closestLoop google destAddress (closestWarehouse, minDistance) (w # rest) =
     (if \<not> truthy (postalCode w)
      then closestLoop google destAddress (closestWarehouse, minDistance) rest
      else
        (case calculateDistance google (address (postalCode w)) destAddress of
           Inl e \<Rightarrow> closestLoop google destAddress (closestWarehouse, minDistance) rest
         | Inr distance' \<Rightarrow>
             if (case minDistance of None \<Rightarrow> True | Some m \<Rightarrow> distance' < m)
             then closestLoop google destAddress (w, Some distance') rest
             else closestLoop google destAddress (closestWarehouse, minDistance) rest))"

text \<open>
  \<open>findOne({documentId})\<close> is the first warehouse with that id. A warehouse id is an
  integer or missing (a string id stands for the integer \<open>parseInt\<close> reads from it);
  the id 0 counts as missing (\<open>if (warehouseId)\<close>).
\<close>

definition warehouseById :: "strapi \<Rightarrow> int option \<Rightarrow> warehouse option" where
  "warehouseById db warehouseId =
     (case warehouseId of
        None \<Rightarrow> None
      | Some i \<Rightarrow> if i = 0 then None else find (\<lambda>w. documentId w = i) (warehouses db))"

text \<open>\<open>getOriginPostalCode\<close> of the service; its \<open>catch\<close> wraps the one error.\<close>

definition getOriginPostalCode ::
  "strapi \<Rightarrow> distance_matrix \<Rightarrow> string option \<Rightarrow> string option \<Rightarrow> int option
     \<Rightarrow> error + string option" where
  "getOriginPostalCode db google salesChannelId' destinationPostalCode warehouseId =
     (let byId = warehouseById db warehouseId;
          byChannel = filter (\<lambda>w. salesChannelId w = salesChannelId') (warehouses db);
          allWarehouses = warehouses db
      in if (case byId of None \<Rightarrow> False | Some w \<Rightarrow> truthy (postalCode w))
         then Inr (postalCode (the byId))
         else if truthy salesChannelId' \<and> 0 < length byChannel
         then Inr (postalCode (byChannel ! 0))
         else if truthy destinationPostalCode \<and> 0 < length allWarehouses
         then
           (if length allWarehouses = 1 then Inr (postalCode (allWarehouses ! 0))
            else Inr (postalCode
                        (closestLoop google (address destinationPostalCode)
                           (allWarehouses ! 0, None) allWarehouses)))
         else if 0 < length allWarehouses then Inr (postalCode (allWarehouses ! 0))
         else Inl (FailedToGetOrigin NoWarehousesFound))"

text \<open>The second copy: \<open>findClosestWarehouse\<close> and a postal code required at every step.\<close>

definition findClosestWarehouse :: "strapi \<Rightarrow> distance_matrix \<Rightarrow> string \<Rightarrow> warehouse option" where
  "findClosestWarehouse db google destinationPostalCode =
     (let warehouses' = warehouses db
      in if length warehouses' = 0 then None
         else if length warehouses' = 1 then Some (warehouses' ! 0)
         else Some (closestLoop google (address (Some destinationPostalCode))
                      (warehouses' ! 0, None) warehouses'))"

definition getOriginPostalCode_u ::
  "strapi \<Rightarrow> distance_matrix \<Rightarrow> string option \<Rightarrow> string option \<Rightarrow> int option
     \<Rightarrow> error + string option" where
  "getOriginPostalCode_u db google salesChannelId' destinationPostalCode warehouseId =
     (let byId = warehouseById db warehouseId;
          byChannel = filter (\<lambda>w. salesChannelId w = salesChannelId') (warehouses db);
          closestWarehouse =
            (if truthy destinationPostalCode
             then findClosestWarehouse db google (the destinationPostalCode) else None);
          warehouses' = warehouses db
      in if (case byId of None \<Rightarrow> False | Some w \<Rightarrow> truthy (postalCode w))
         then Inr (postalCode (the byId))
         else if truthy salesChannelId' \<and> 0 < length byChannel
                 \<and> truthy (postalCode (byChannel ! 0))
         then Inr (postalCode (byChannel ! 0))
         else if truthy destinationPostalCode
                 \<and> (case closestWarehouse of None \<Rightarrow> False | Some w \<Rightarrow> truthy (postalCode w))
         then Inr (postalCode (the closestWarehouse))
         else if 0 < length warehouses' \<and> truthy (postalCode (warehouses' ! 0))
         then Inr (postalCode (warehouses' ! 0))
         else Inl NoWarehousesFound)"

subsection \<open>The request and the service's entry point\<close>

record dimensions =
  dim_length :: "real option"
  dim_width :: "real option"
  dim_height :: "real option"
  dim_weight :: "real option"

record item =
  quantity :: "real option"
  own :: dimensions
  variant :: "dimensions option"
  product :: "dimensions option"

record shipping_address =
  postal_code :: "string option"
  country_code :: "string option"

record cart =
  sales_channel_id :: "string option"
  warehouse_id :: "int option"
  items :: "item list option"
  boxes :: "box list option"
  shipping_address :: "shipping_address option"

text \<open>\<open>a || b || c || 0\<close> on numbers that may be missing.\<close>

fun firstTruthy :: "real option list \<Rightarrow> real" where
  "firstTruthy [] = 0"
| "firstTruthy (v # vs) = (if falsy v then firstTruthy vs else toNumber v)"

text \<open>
  The service's loop over the items: the item's own fields come first, then the
  variant's, then the product's; \<open>quantity\<close> copies are pushed.
\<close>

fun itemsLoop :: "item list \<Rightarrow> box list \<Rightarrow> error + box list" where
  "itemsLoop [] boxes' = Inr boxes'"
| "itemsLoop (it # rest) boxes' =
     (let quantity' = (if falsy (quantity it) then 1 else toNumber (quantity it));
          length' = firstTruthy [dim_length (own it), Option.bind (variant it) dim_length,
                                Option.bind (product it) dim_length];
          width' = firstTruthy [dim_width (own it), Option.bind (variant it) dim_width,
                               Option.bind (product it) dim_width];
          height' = firstTruthy [dim_height (own it), Option.bind (variant it) dim_height,
                                Option.bind (product it) dim_height];
          weight' = firstTruthy [dim_weight (own it), Option.bind (variant it) dim_weight,
                                Option.bind (product it) dim_weight]
      in if length' = 0 \<or> width' = 0 \<or> height' = 0 \<or> weight' = 0
         then Inl ItemMissingDimensions
         else itemsLoop rest
                (boxes' @ replicate (nat \<lceil>quantity'\<rceil>)
                   \<lparr>box_length = Some length', box_width = Some width',
                    box_height = Some height', box_weight = Some weight'\<rparr>))"

definition calculateShipping :: "strapi \<Rightarrow> distance_matrix \<Rightarrow> cart \<Rightarrow> error + quote" where
  "calculateShipping db google cart' =
     (case shipping_address cart' of
        None \<Rightarrow> Inl TypeError
      | Some sa \<Rightarrow>
          if \<not> truthy (postal_code sa) then Inl MissingDestination
          else
            (case getOriginPostalCode db google (sales_channel_id cart') (postal_code sa)
                    (warehouse_id cart') of
               Inl e \<Rightarrow> Inl e
             | Inr originPostalCode \<Rightarrow>
                 (case calculateDistance google (address originPostalCode)
                         (address (postal_code sa)) of
                    Inl e \<Rightarrow> Inl e
                  | Inr distanceKm \<Rightarrow>
                      (let distanceRange = mapDistanceToRange distanceKm;
                           destinationCountry =
                             (if truthy (country_code sa) then the (country_code sa) else ''CA'')
                       in if (case boxes cart' of None \<Rightarrow> False | Some bs \<Rightarrow> 0 < length bs)
                          then calculateShippingForBoxes db (the (boxes cart')) distanceKm
                                 distanceRange originPostalCode (the (postal_code sa))
                                 destinationCountry
                          else if (case items cart' of None \<Rightarrow> True | Some its \<Rightarrow> length its = 0)
                          then Inl ItemsOrBoxesRequired
                          else
                            (case itemsLoop (the (items cart')) [] of
                               Inl e \<Rightarrow> Inl e
                             | Inr boxes' \<Rightarrow>
                                 calculateShippingForBoxes db boxes' distanceKm distanceRange
                                   originPostalCode (the (postal_code sa))
                                   destinationCountry)))))"

text \<open>
  The second copy: \<open>convertItemsToBoxes\<close> takes the product's fields, else the
  variant's, else the item's own, as they are.
\<close>

fun convertItemsToBoxes :: "item list \<Rightarrow> box list \<Rightarrow> error + box list" where
  "convertItemsToBoxes [] boxes' = Inr boxes'"
| "convertItemsToBoxes (it # rest) boxes' =
     (let quantity' = (if falsy (quantity it) then 1 else toNumber (quantity it));
          product' = (case product it of
                        Some d \<Rightarrow> d
                      | None \<Rightarrow> (case variant it of Some d \<Rightarrow> d | None \<Rightarrow> own it))
      in if falsy (dim_length product') \<or> falsy (dim_width product')
            \<or> falsy (dim_height product') \<or> falsy (dim_weight product')
         then Inl ItemMissingDimensions
         else convertItemsToBoxes rest
                (boxes' @ replicate (nat \<lceil>quantity'\<rceil>)
                   \<lparr>box_length = dim_length product', box_width = dim_width product',
                    box_height = dim_height product', box_weight = dim_weight product'\<rparr>))"

definition calculateShipping_u :: "strapi \<Rightarrow> distance_matrix \<Rightarrow> cart \<Rightarrow> error + quote" where
  "calculateShipping_u db google cart' =
     (case shipping_address cart' of
        None \<Rightarrow> Inl TypeError
      | Some sa \<Rightarrow>
          if \<not> truthy (postal_code sa) then Inl MissingDestination
          else
            (case getOriginPostalCode_u db google (sales_channel_id cart') (postal_code sa)
                    (warehouse_id cart') of
               Inl e \<Rightarrow> Inl e
             | Inr originPostalCode \<Rightarrow>
                 (case calculateDistance google (address originPostalCode)
                         (address (postal_code sa)) of
                    Inl e \<Rightarrow> Inl e
                  | Inr distanceKm \<Rightarrow>
                      (let distanceRange = mapDistanceToRange_u distanceKm;
                           destinationCountry =
                             (if truthy (country_code sa) then the (country_code sa) else ''CA'')
                       in case (if (case boxes cart' of None \<Rightarrow> False | Some bs \<Rightarrow> 0 < length bs)
                                then Inr (the (boxes cart'))
                                else convertItemsToBoxes
                                       (case items cart' of None \<Rightarrow> [] | Some its \<Rightarrow> its) []) of
                            Inl e \<Rightarrow> Inl e
                          | Inr boxes' \<Rightarrow>
                              if length boxes' = 0 then Inl ItemsOrBoxesRequired
                              else calculateShippingForBoxes_u db boxes' distanceKm distanceRange
                                     originPostalCode (the (postal_code sa))
                                     destinationCountry))))"

subsection \<open>Double precision arithmetic of the external price\<close>

text \<open>
  The price the controllers take from the external service is
  \<open>Math.floor(cents * 1.15) / 100\<close>, and in double precision \<open>100 * 1.15\<close> is
  \<open>114.99999999999999\<close>, so that the floor of the product is not the floor of the exact
  product. For this computation a number is a \<open>jsnum\<close> whose finite values are
  doubles, and every operation gives the exact result rounded to the nearest double: 53
  bits of significand, a tie going to the even significand, the smallest exponent -1022
  (subnormal numbers), and infinity from \<open>2^1024\<close> on. The sign of zero is not
  modelled.

  \<open>log2floor n\<close> is the position of the highest bit of \<open>n\<close>, \<open>pow2 e\<close> is
  \<open>2^e\<close> for an integer \<open>e\<close>, and \<open>binaryExponent a\<close> is for \<open>a > 0\<close> the
  exponent \<open>e\<close> with \<open>2^e \<le> a < 2^(e+1)\<close>.
\<close>

function log2floor :: "nat \<Rightarrow> nat" where
  "log2floor n = (if n < 2 then 0 else Suc (log2floor (n div 2)))"
  by pat_completeness auto
termination
  by (relation "measure id") auto

declare log2floor.simps [simp del]

definition pow2 :: "int \<Rightarrow> real" where
  "pow2 e = (if 0 \<le> e then 2 ^ nat e else 1 / 2 ^ nat (- e))"

definition binaryExponent :: "real \<Rightarrow> int" where
  "binaryExponent a =
     (if 1 \<le> a then int (log2floor (nat \<lfloor>a\<rfloor>))
      else - int (Suc (log2floor (nat \<lceil>1 / a\<rceil> - 1))))"

text \<open>The nearest integer, a tie going to the even one.\<close>

definition roundHalfEven :: "real \<Rightarrow> int" where
  "roundHalfEven x =
     (if x - of_int \<lfloor>x\<rfloor> < 1 / 2 then \<lfloor>x\<rfloor>
      else if 1 / 2 < x - of_int \<lfloor>x\<rfloor> then \<lfloor>x\<rfloor> + 1
      else if even \<lfloor>x\<rfloor> then \<lfloor>x\<rfloor> else \<lfloor>x\<rfloor> + 1)"

text \<open>
  The double nearest to a real number: the number is rounded to a multiple of
  \<open>2^(e-52)\<close>, where \<open>e\<close> is its binary exponent, at least -1022.
\<close>

definition roundToDouble :: "real \<Rightarrow> jsnum" where
  "roundToDouble x =
     (if x = 0 then Num 0
      else (let e = max (binaryExponent \<bar>x\<bar>) (- 1022);
                q = pow2 (e - 52);
                m = of_int (roundHalfEven (\<bar>x\<bar> / q)) * q
            in if pow2 1024 \<le> m then (if x < 0 then NegInf else PosInf)
               else Num (if x < 0 then - m else m)))"

text \<open>The sign of a number that is not not-a-number.\<close>

fun sign_num :: "jsnum \<Rightarrow> int" where
  "sign_num NaN = 0"
| "sign_num (Num a) = (if a < 0 then - 1 else if a = 0 then 0 else 1)"
| "sign_num PosInf = 1"
| "sign_num NegInf = - 1"

text \<open>
  \<open>x * y\<close>: not-a-number when an operand is, or when one is infinite and the other 0;
  infinite with the product of the signs when one operand is infinite.
\<close>

fun mul_num :: "jsnum \<Rightarrow> jsnum \<Rightarrow> jsnum" where
  "mul_num (Num a) (Num b) = roundToDouble (a * b)"
| "mul_num NaN y = NaN"
| "mul_num x NaN = NaN"
| "mul_num x y =
     (if sign_num x * sign_num y = 0 then NaN
      else if 0 < sign_num x * sign_num y then PosInf else NegInf)"

text \<open>\<open>x - y\<close>: the difference of two infinities of one sign is not-a-number.\<close>

fun sub_num :: "jsnum \<Rightarrow> jsnum \<Rightarrow> jsnum" where
  "sub_num (Num a) (Num b) = roundToDouble (a - b)"
| "sub_num NaN y = NaN"
| "sub_num x NaN = NaN"
| "sub_num PosInf PosInf = NaN"
| "sub_num NegInf NegInf = NaN"
| "sub_num PosInf y = PosInf"
| "sub_num NegInf y = NegInf"
| "sub_num (Num a) PosInf = NegInf"
| "sub_num (Num a) NegInf = PosInf"

text \<open>\<open>x / d\<close> for a finite divisor \<open>d > 0\<close>; the code divides by 100 only.\<close>

fun div_num :: "jsnum \<Rightarrow> real \<Rightarrow> jsnum" where
  "div_num (Num a) d = roundToDouble (a / d)"
| "div_num x d = x"

text \<open>\<open>Math.floor(x)\<close> and \<open>Math.max(x, y)\<close>.\<close>

fun Math_floor :: "jsnum \<Rightarrow> jsnum" where
  "Math_floor (Num a) = Num (of_int \<lfloor>a\<rfloor>)"
| "Math_floor x = x"

fun Math_max :: "jsnum \<Rightarrow> jsnum \<Rightarrow> jsnum" where
  "Math_max (Num a) (Num b) = Num (max a b)"
| "Math_max NaN y = NaN"
| "Math_max x NaN = NaN"
| "Math_max PosInf y = PosInf"
| "Math_max x PosInf = PosInf"
| "Math_max NegInf y = y"
| "Math_max x NegInf = x"

text \<open>
  \<open>parseFloat(x.toFixed(f))\<close> for a double: not-a-number and the infinities print as
  \<open>NaN\<close>, \<open>Infinity\<close> and \<open>-Infinity\<close>, which \<open>parseFloat\<close> reads back; a finite number
  prints as the decimal \<open>toFixed f\<close> of its exact value, read back as the nearest double.
\<close>

fun toFixed_num :: "nat \<Rightarrow> jsnum \<Rightarrow> jsnum" where
  "toFixed_num f (Num a) = roundToDouble (toFixed f a)"
| "toFixed_num f x = x"

subsection \<open>The external rate service\<close>

text \<open>
  What the external API answers to the controller's requests: the key from the
  environment, the list of service ids (\<open>None\<close> when the request fails or brings no
  data), whether the rate request is accepted, and the answer to each poll, numbered
  from 1. A rate is \<open>null\<close>, or has no \<open>total\<close> (reading \<open>rate.total.value\<close> throws), or
  has a \<open>total\<close>. Of the \<open>value\<close> of a total, which can be any value or be missing, the
  controllers read two things, and \<open>RateTotal\<close> carries them: whether it is truthy
  (\<open>!rate?.total?.value\<close> in the second controller) and the number
  \<open>Number(rate.total.value)\<close>. A number of cents other than 0 is truthy and reads as
  itself; a missing value is falsy and reads as not-a-number; a string that is no
  numeral is truthy and reads as not-a-number.
\<close>

datatype rate = RateNull | RateNoTotal | RateTotal bool jsnum

datatype poll = PollError | PollPending | PollDone "rate list"

record freightcom =
  FREIGHTCOM_API_KEY :: "string option"
  services :: "string list option"
  rateAccepted :: bool
  rateStatus :: "nat \<Rightarrow> poll"

text \<open>
  The polling timer: each tick counts an attempt and asks for the rates; an error or a
  finished answer ends it, and so does the 30th attempt.
\<close>

function pollRates :: "(nat \<Rightarrow> poll) \<Rightarrow> nat \<Rightarrow> rate list" where
  "pollRates status attempts =
     (case status (attempts + 1) of
        PollError \<Rightarrow> []
      | PollDone ratesArray \<Rightarrow> ratesArray
      | PollPending \<Rightarrow> if 30 \<le> attempts + 1 then [] else pollRates status (attempts + 1))"
  by pat_completeness auto
termination
  by (relation "measure (\<lambda>(status, attempts). 30 - attempts)") auto

declare pollRates.simps [simp del]

text \<open>
  The price after the markup and the external discount:
  \<open>Math.floor(cents * 1.15) / 100\<close>, then \<open>Math.max(0, price - price * (percent / 100))\<close>
  when the external discount is enabled with a percentage, all in double precision; the
  literal \<open>1.15\<close> is the double nearest to it. The result is the pair of \<open>medusaPrice\<close>
  and \<open>medusaDiscountPercent\<close>.
\<close>

definition medusaPriceOf :: "strapi \<Rightarrow> jsnum \<Rightarrow> jsnum \<times> real" where
  "medusaPriceOf db medusaPriceInCents =
     (let medusaPrice =
            div_num (Math_floor (mul_num medusaPriceInCents (roundToDouble 1.15))) 100
      in case medusa_discount_settings db of
           None \<Rightarrow> (medusaPrice, 0)
         | Some st \<Rightarrow>
             if isDiscountEnabled st \<and> discountPercentage st \<noteq> 0
             then (let medusaDiscountPercent = discountPercentage st;
                       discountAmount =
                         mul_num medusaPrice (div_num (Num medusaDiscountPercent) 100)
                   in (Math_max (Num 0) (sub_num medusaPrice discountAmount),
                       medusaDiscountPercent))
             else (medusaPrice, 0))"

text \<open>
  The \<open>try\<close> block of the controller beside the service: \<open>None\<close> when it throws (the
  \<open>catch\<close> only logs), else the price and the discount percentage. The value of the
  total is not tested: whatever it is, \<open>Number\<close> of it is the number of cents.
\<close>

definition medusaRate :: "freightcom \<Rightarrow> strapi \<Rightarrow> (jsnum \<times> real) option" where
  "medusaRate api db =
     (if \<not> truthy (FREIGHTCOM_API_KEY api) then None
      else
        (case services api of
           None \<Rightarrow> None
         | Some availableServices \<Rightarrow>
             if length availableServices = 0 then None
             else if \<not> rateAccepted api then None
             else
               (let rates = pollRates (rateStatus api) 0
                in if length rates = 0 then None
                   else (case rates ! 0 of
                           RateNull \<Rightarrow> None
                         | RateNoTotal \<Rightarrow> None
                         | RateTotal truthyValue medusaPriceInCents \<Rightarrow>
                             Some (medusaPriceOf db medusaPriceInCents)))))"

text \<open>
  The \<open>try\<close> block of the second controller: no list of services is asked for, and a
  rate without a total or with a falsy value of the total (\<open>!rate?.total?.value\<close>) is an
  invalid response.
\<close>

definition medusaRate_u :: "freightcom \<Rightarrow> strapi \<Rightarrow> (jsnum \<times> real) option" where
  "medusaRate_u api db =
     (if \<not> truthy (FREIGHTCOM_API_KEY api) then None
      else if \<not> rateAccepted api then None
      else
        (let rates = pollRates (rateStatus api) 0
         in if length rates = 0 then None
            else (case rates ! 0 of
                    RateNull \<Rightarrow> None
                  | RateNoTotal \<Rightarrow> None
                  | RateTotal truthyValue medusaPriceInCents \<Rightarrow>
                      if \<not> truthyValue then None
                      else Some (medusaPriceOf db medusaPriceInCents))))"

subsection \<open>The controllers\<close>

datatype bad_request =
    CartRequired
  | ItemsOrBoxesArrayRequired
  | BoxMissingFields nat
  | ShippingAddressRequired
  | PostalCodeRequired

record response_body =
  r_destination_postalCode :: string
  r_destination_country :: string
  r_chosenWarehouse_id :: int
  r_chosenWarehouse_name :: string
  r_chosenWarehouse_postalCode :: "string option"
  r_distanceKm :: real
  r_boxes :: "box_result list option"
  r_subtotal :: jsnum
  r_source :: string
  r_discountPercent :: real
  r_total :: jsnum
  r_currency :: string

datatype response = BadRequest bad_request | ServerError error | Ok response_body

text \<open>
  The loop \<open>for (let i = 0; i < cart.boxes.length; i++)\<close> of both controllers: the index
  of the first box with a field that is missing or 0.
\<close>

fun firstBadBox :: "nat \<Rightarrow> box list \<Rightarrow> nat option" where
  "firstBadBox i [] = None"
| "firstBadBox i (b # rest) =
     (if falsy (box_length b) \<or> falsy (box_width b) \<or> falsy (box_height b)
         \<or> falsy (box_weight b)
      then Some i else firstBadBox (i + 1) rest)"

text \<open>
  The two bodies a controller answers with: the service's quote with the source
  \<open>STRAPI_TABLE\<close>, or the external price with the quote's destination, warehouse and
  distance and the source \<open>MEDUSA_API\<close>. The subtotal and the total of a body are
  numbers that can be not-a-number or infinite when they come from the external price.
\<close>

definition strapiBody :: "quote \<Rightarrow> response_body" where
  "strapiBody strapiResult =
     \<lparr>r_destination_postalCode = q_destination_postalCode strapiResult,
      r_destination_country = q_destination_country strapiResult,
      r_chosenWarehouse_id = q_chosenWarehouse_id strapiResult,
      r_chosenWarehouse_name = q_chosenWarehouse_name strapiResult,
      r_chosenWarehouse_postalCode = q_chosenWarehouse_postalCode strapiResult,
      r_distanceKm = q_distanceKm strapiResult,
      r_boxes = Some (q_boxes strapiResult),
      r_subtotal = Num (q_subtotal strapiResult),
      r_source = ''STRAPI_TABLE'',
      r_discountPercent = q_discountPercent strapiResult,
      r_total = Num (q_total strapiResult),
      r_currency = q_currency strapiResult\<rparr>"

definition medusaBody :: "quote \<Rightarrow> jsnum \<Rightarrow> real \<Rightarrow> response_body" where
  "medusaBody strapiResult medusaPrice medusaDiscountPercent =
     \<lparr>r_destination_postalCode = q_destination_postalCode strapiResult,
      r_destination_country = q_destination_country strapiResult,
      r_chosenWarehouse_id = q_chosenWarehouse_id strapiResult,
      r_chosenWarehouse_name = q_chosenWarehouse_name strapiResult,
      r_chosenWarehouse_postalCode = q_chosenWarehouse_postalCode strapiResult,
      r_distanceKm = q_distanceKm strapiResult,
      r_boxes = None,
      r_subtotal = toFixed_num 3 medusaPrice,
      r_source = ''MEDUSA_API'',
      r_discountPercent = medusaDiscountPercent,
      r_total = toFixed_num 3 medusaPrice,
      r_currency = ''CAD''\<rparr>"

text \<open>
  The origin the controller beside the service sends to the external API: the
  warehouse of the given id, else a postal code from a table of sales channels, else the
  service's answer. Only the last can throw.
\<close>

definition SALES_CHANNEL_POSTAL_CODES :: "(string \<times> string) list" where
  "SALES_CHANNEL_POSTAL_CODES =
     [(''sc_01GY1TR8XSSA865FXVJDQR9XCZ'', ''H2K 4P5''),
      (''sc_01H54KV0V84HGG6PZD06T3J8C4'', ''L0L 1P0''),
      (''sc_01H54KTSHXG7TYSRN9XND4HHQB'', ''J3E 0C4'')]"

definition controllerOrigin ::
  "strapi \<Rightarrow> distance_matrix \<Rightarrow> cart \<Rightarrow> string option \<Rightarrow> error + string option" where
  "controllerOrigin db google cart' destinationPostalCode =
     (let channel = (case sales_channel_id cart' of None \<Rightarrow> [] | Some c \<Rightarrow> c)
      in if (case warehouse_id cart' of None \<Rightarrow> False | Some i \<Rightarrow> i \<noteq> 0) then
           (case warehouseById db (warehouse_id cart') of
              Some w \<Rightarrow>
                if truthy (postalCode w) then Inr (postalCode w)
                else (case map_of SALES_CHANNEL_POSTAL_CODES channel of
                        Some pc \<Rightarrow> Inr (Some pc)
                      | None \<Rightarrow> Inr (Some (snd (SALES_CHANNEL_POSTAL_CODES ! 0))))
            | None \<Rightarrow>
                (case map_of SALES_CHANNEL_POSTAL_CODES channel of
                   Some pc \<Rightarrow> Inr (Some pc)
                 | None \<Rightarrow> Inr (Some (snd (SALES_CHANNEL_POSTAL_CODES ! 0)))))
         else if truthy (sales_channel_id cart')
                 \<and> map_of SALES_CHANNEL_POSTAL_CODES channel \<noteq> None
         then Inr (map_of SALES_CHANNEL_POSTAL_CODES channel)
         else getOriginPostalCode db google (sales_channel_id cart') destinationPostalCode
                (warehouse_id cart'))"

text \<open>\<open>calculateShipping\<close> of the controller beside the service.\<close>

definition calculateShipping_controller ::
  "freightcom \<Rightarrow> strapi \<Rightarrow> distance_matrix \<Rightarrow> cart option \<Rightarrow> response" where
  "calculateShipping_controller api db google body =
     (case body of
        None \<Rightarrow> BadRequest CartRequired
      | Some cart' \<Rightarrow>
          if (case items cart' of None \<Rightarrow> True | Some its \<Rightarrow> length its = 0)
             \<and> (case boxes cart' of None \<Rightarrow> True | Some bs \<Rightarrow> length bs = 0)
          then BadRequest ItemsOrBoxesArrayRequired
          else
            (case (case boxes cart' of None \<Rightarrow> None | Some bs \<Rightarrow> firstBadBox 0 bs) of
               Some i \<Rightarrow> BadRequest (BoxMissingFields (i + 1))
             | None \<Rightarrow>
                 (case shipping_address cart' of
                    None \<Rightarrow> BadRequest ShippingAddressRequired
                  | Some sa \<Rightarrow>
                      if \<not> truthy (postal_code sa) then BadRequest PostalCodeRequired
                      else
                        (case controllerOrigin db google cart' (postal_code sa) of
                           Inl e \<Rightarrow> ServerError e
                         | Inr originPostalCode \<Rightarrow>
                             (let medusa = medusaRate api db
                              in case calculateShipping db google cart' of
                                   Inl e \<Rightarrow> ServerError e
                                 | Inr strapiResult \<Rightarrow>
                                     (case medusa of
                                        Some (medusaPrice, medusaDiscountPercent) \<Rightarrow>
                                          Ok (medusaBody strapiResult medusaPrice
                                                medusaDiscountPercent)
                                      | None \<Rightarrow> Ok (strapiBody strapiResult)))))))"

text \<open>\<open>calculateShipping\<close> of the second controller, with the second service.\<close>

definition calculateShipping_controller_u ::
  "freightcom \<Rightarrow> strapi \<Rightarrow> distance_matrix \<Rightarrow> cart option \<Rightarrow> response" where
  "calculateShipping_controller_u api db google body =
     (case body of
        None \<Rightarrow> BadRequest CartRequired
      | Some cart' \<Rightarrow>
          if (case items cart' of None \<Rightarrow> True | Some its \<Rightarrow> length its = 0)
             \<and> (case boxes cart' of None \<Rightarrow> True | Some bs \<Rightarrow> length bs = 0)
          then BadRequest ItemsOrBoxesArrayRequired
          else
            (case (case boxes cart' of None \<Rightarrow> None | Some bs \<Rightarrow> firstBadBox 0 bs) of
               Some i \<Rightarrow> BadRequest (BoxMissingFields (i + 1))
             | None \<Rightarrow>
                 (let destinationPostalCode =
                        (case shipping_address cart' of
                           None \<Rightarrow> None
                         | Some sa \<Rightarrow> postal_code sa)
                  in if \<not> truthy destinationPostalCode then BadRequest PostalCodeRequired
                     else
                       (case getOriginPostalCode_u db google (sales_channel_id cart')
                               destinationPostalCode (warehouse_id cart') of
                          Inl e \<Rightarrow> ServerError e
                        | Inr originPostalCode \<Rightarrow>
                            (let medusa = medusaRate_u api db
                             in case calculateShipping_u db google cart' of
                                  Inl e \<Rightarrow> ServerError e
                                | Inr strapiResult \<Rightarrow>
                                    (case medusa of
                                       Some (medusaPrice, medusaDiscountPercent) \<Rightarrow>
                                         Ok (medusaBody strapiResult medusaPrice
                                               medusaDiscountPercent)
                                     | None \<Rightarrow> Ok (strapiBody strapiResult)))))))"

subsection \<open>A box in the units of the second copy\<close>

text \<open>The box of the service, in millimetres and grams, converted to inches and pounds.\<close>

definition imperial :: "box \<Rightarrow> box" where
  "imperial b =
     \<lparr>box_length = map_option mmToInches (box_length b),
      box_width = map_option mmToInches (box_width b),
      box_height = map_option mmToInches (box_height b),
      box_weight = map_option gramsToPounds (box_weight b)\<rparr>"

subsection \<open>A box with a missing field\<close>

text \<open>A field of the box is absent or is 0: what \<open>!box.length || ...\<close> tests.\<close>

definition missingField :: "box \<Rightarrow> bool" where
  "missingField b =
     (\<exists>v\<in>{box_length b, box_width b, box_height b, box_weight b}. v = None \<or> v = Some 0)"

subsection \<open>The test of a density label, as the code makes it\<close>

text \<open>
  A label matches a density when it is exactly \<open>Less than 1\<close> and the density is below
  1, or contains \<open>but less than\<close> and the density lies between the numbers parsed
  before and after these words, or is exactly \<open>50 or greater\<close> and the density is at
  least 50.
\<close>

definition labelMatches :: "string \<Rightarrow> real \<Rightarrow> bool" where
  "labelMatches label density =
     ((label = ''Less than 1'' \<and> density < 1)
      \<or> (includes_str label ''but less than''
          \<and> ge_num density (parseFloat (trim (split_str label ''but less than'' ! 0)))
          \<and> lt_num density (parseFloat (trim (split_str label ''but less than'' ! 1))))
      \<or> (label = ''50 or greater'' \<and> 50 \<le> density))"

subsection \<open>The nearest warehouse in the specification's words\<close>

text \<open>
  A warehouse is reachable from a destination when it has a postal code and the distance
  lookup for it succeeds; \<open>distanceTo\<close> is the distance then computed, in kilometres.
  \<open>nearestFirst ws r\<close>: \<open>r\<close> is a reachable warehouse of the list \<open>ws\<close>, every
  reachable warehouse before it is strictly farther from the destination and every
  reachable warehouse after it is at least as far.
\<close>

definition reachable :: "distance_matrix \<Rightarrow> string \<Rightarrow> warehouse \<Rightarrow> bool" where
  "reachable google destAddress w =
     (truthy (postalCode w) \<and> google (address (postalCode w)) destAddress \<noteq> None)"

definition distanceTo :: "distance_matrix \<Rightarrow> string \<Rightarrow> warehouse \<Rightarrow> real" where
  "distanceTo google destAddress w =
     (case google (address (postalCode w)) destAddress of None \<Rightarrow> 0 | Some m \<Rightarrow> m / 1000)"

definition nearestFirst :: "distance_matrix \<Rightarrow> string \<Rightarrow> warehouse list \<Rightarrow> warehouse \<Rightarrow> bool" where
  "nearestFirst google destAddress ws r =
     (\<exists>pre post. ws = pre @ r # post \<and> reachable google destAddress r
        \<and> (\<forall>x\<in>set pre. reachable google destAddress x
               \<longrightarrow> distanceTo google destAddress r < distanceTo google destAddress x)
        \<and> (\<forall>x\<in>set post. reachable google destAddress x
               \<longrightarrow> distanceTo google destAddress r \<le> distanceTo google destAddress x))"

subsection \<open>The price tiers in the specification's words\<close>

text \<open>
  Tier 1: the rows of the rounded class whose stored distance is the band. Tier 2: the
  rows of the rounded class whose stored distance is the band, is the band's lower-bound
  token (the text before the first \<open>-\<close>, trimmed) or starts with that token. Tier 3: all
  rows of the rounded class.
\<close>
definition tier1 :: "freight_class_pricing list \<Rightarrow> real \<Rightarrow> string \<Rightarrow> freight_class_pricing list" where
  "tier1 table fc d =
     filter (\<lambda>p. freightClass p = of_int (Math_round fc) \<and> distance p = Some d) table"

definition lowerBoundToken :: "string \<Rightarrow> string" where
  "lowerBoundToken d = trim (hd (split_str d ''-''))"

definition tier2 :: "freight_class_pricing list \<Rightarrow> real \<Rightarrow> string \<Rightarrow> freight_class_pricing list" where
  "tier2 table fc d =
     filter (\<lambda>p. freightClass p = of_int (Math_round fc)
               \<and> (let stored = (case distance p of None \<Rightarrow> [] | Some s \<Rightarrow> s)
                  in stored = d \<or> stored = lowerBoundToken d \<or> prefix (lowerBoundToken d) stored))
       table"

definition tier3 :: "freight_class_pricing list \<Rightarrow> real \<Rightarrow> freight_class_pricing list" where
  "tier3 table fc = filter (\<lambda>p. freightClass p = of_int (Math_round fc)) table"


subsection \<open>Example tables\<close>

text \<open>The classification table of the seed script.\<close>

definition freightCalculations :: "freight_calculation list" where
  "freightCalculations =
     [\<lparr>sub = 1, densityRange = ''Less than 1'', assignedFreightClass = 400\<rparr>,
      \<lparr>sub = 2, densityRange = ''1 but less than 2'', assignedFreightClass = 300\<rparr>,
      \<lparr>sub = 3, densityRange = ''2 but less than 4'', assignedFreightClass = 250\<rparr>,
      \<lparr>sub = 4, densityRange = ''4 but less than 6'', assignedFreightClass = 175\<rparr>,
      \<lparr>sub = 5, densityRange = ''6 but less than 8'', assignedFreightClass = 125\<rparr>,
      \<lparr>sub = 6, densityRange = ''8 but less than 10'', assignedFreightClass = 100\<rparr>,
      \<lparr>sub = 7, densityRange = ''10 but less than 12'', assignedFreightClass = 92.5\<rparr>,
      \<lparr>sub = 8, densityRange = ''12 but less than 15'', assignedFreightClass = 85\<rparr>,
      \<lparr>sub = 9, densityRange = ''15 but less than 22.5'', assignedFreightClass = 70\<rparr>,
      \<lparr>sub = 10, densityRange = ''22.5 but less than 30'', assignedFreightClass = 65\<rparr>,
      \<lparr>sub = 11, densityRange = ''30 but less than 35'', assignedFreightClass = 60\<rparr>,
      \<lparr>sub = 12, densityRange = ''35 but less than 50'', assignedFreightClass = 55\<rparr>,
      \<lparr>sub = 13, densityRange = ''50 or greater'', assignedFreightClass = 50\<rparr>]"

text \<open>A table in the label grammar with bounds other than 1 and 50.\<close>

definition grammarTable :: "freight_calculation list" where
  "grammarTable =
     [\<lparr>sub = 1, densityRange = ''Less than 2'', assignedFreightClass = 400\<rparr>,
      \<lparr>sub = 2, densityRange = ''2 or greater'', assignedFreightClass = 50\<rparr>]"

text \<open>Three weight tiers of one class and band, not in order of breakpoint.\<close>
definition example_tiers :: "freight_class_pricing list" where
  "example_tiers =
     [\<lparr>freightClass = 100, distance = Some ''0-99km'', breakpointValue = Some 500, price = 20\<rparr>,
      \<lparr>freightClass = 100, distance = Some ''0-99km'', breakpointValue = Some 0, price = 30\<rparr>,
      \<lparr>freightClass = 100, distance = Some ''0-99km'', breakpointValue = Some 1000, price = 10\<rparr>]"


text \<open>Rows of class 100 stored under a band, under a bare number and under another band.\<close>
definition example_prices :: "freight_class_pricing list" where
  "example_prices =
     [\<lparr>freightClass = 100, distance = Some ''0'', breakpointValue = None, price = 40\<rparr>,
      \<lparr>freightClass = 100, distance = Some ''0-99km'', breakpointValue = None, price = 30\<rparr>,
      \<lparr>freightClass = 100, distance = Some ''500-599km'', breakpointValue = None, price = 50\<rparr>,
      \<lparr>freightClass = 85, distance = None, breakpointValue = None, price = 60\<rparr>]"


text \<open>
  A price table without a row of class 400, a price table whose only class is 92.5, two
  warehouses, the reference data, and a box of one cubic metre and ten kilograms (class
  400 in the seed table).
\<close>

definition example_rates :: "freight_class_pricing list" where
  "example_rates =
     [\<lparr>freightClass = 500, distance = Some ''200-299km'', breakpointValue = None, price = 80\<rparr>,
      \<lparr>freightClass = 300, distance = Some ''200-299km'', breakpointValue = None, price = 50\<rparr>]"

definition fractional_rates :: "freight_class_pricing list" where
  "fractional_rates =
     [\<lparr>freightClass = 92.5, distance = Some ''200-299km'', breakpointValue = None, price = 70\<rparr>]"

definition example_warehouses :: "warehouse list" where
  "example_warehouses =
     [\<lparr>documentId = 1, name = ''Montreal'', postalCode = Some ''H2K 4P5'', salesChannelId = None\<rparr>,
      \<lparr>documentId = 2, name = ''Barrie'', postalCode = Some ''L0L 1P0'',
        salesChannelId = Some ''sc_2''\<rparr>]"

definition example_db :: strapi where
  "example_db =
     \<lparr>freight_calculations = freightCalculations,
      freight_class_pricings = example_rates,
      warehouses = example_warehouses,
      discount_settings = Some \<lparr>isDiscountEnabled = True, discountPercentage = 10\<rparr>,
      medusa_discount_settings = None\<rparr>"

definition example_box :: box where
  "example_box =
     \<lparr>box_length = Some 1000, box_width = Some 1000, box_height = Some 1000,
      box_weight = Some 10000\<rparr>"

text \<open>
  Distances of 50 km and 30 km from the two example warehouses to one destination, and
  reference data whose only warehouse has no postal code.
\<close>

definition example_google :: distance_matrix where
  "example_google originAddress destinationAddress =
     (if destinationAddress = ''M5V 2T6 CA'' then
        (if originAddress = ''H2K 4P5 CA'' then Some 50000
         else if originAddress = ''L0L 1P0 CA'' then Some 30000
         else None)
      else None)"

definition unaddressed_db :: strapi where
  "unaddressed_db =
     \<lparr>freight_calculations = [], freight_class_pricings = [],
      warehouses = [\<lparr>documentId = 7, name = ''Depot'', postalCode = None,
                     salesChannelId = None\<rparr>],
      discount_settings = None, medusa_discount_settings = None\<rparr>"

text \<open>
  A box with a negative length, a box without width, a pallet in inches and pounds (class
  250 in the seed table, 200 lb), reference data with a discount of 150 percent, an
  external API that answers the third poll with a total of 10000 cents, one that answers
  the first poll with a total of 100 cents, one that answers it with a total without
  value, and a request with one box.
\<close>

definition negative_box :: box where
  "negative_box =
     \<lparr>box_length = Some (- 1000), box_width = Some 1000, box_height = Some 1000,
      box_weight = Some 10000\<rparr>"

definition incomplete_box :: box where
  "incomplete_box =
     \<lparr>box_length = Some 1000, box_width = None, box_height = Some 1000,
      box_weight = Some 10000\<rparr>"

definition pallet_box :: box where
  "pallet_box =
     \<lparr>box_length = Some 48, box_width = Some 40, box_height = Some 48, box_weight = Some 200\<rparr>"

definition overdiscount_db :: strapi where
  "overdiscount_db =
     example_db\<lparr>discount_settings := Some \<lparr>isDiscountEnabled = True, discountPercentage = 150\<rparr>\<rparr>"

definition example_status :: "nat \<Rightarrow> poll" where
  "example_status n =
     (if n < 3 then PollPending else PollDone [RateTotal True (Num 10000)])"

definition example_api :: freightcom where
  "example_api =
     \<lparr>FREIGHTCOM_API_KEY = Some ''key'', services = Some [''freightcom.standard''],
      rateAccepted = True, rateStatus = example_status\<rparr>"

definition immediate_status :: "rate \<Rightarrow> nat \<Rightarrow> poll" where
  "immediate_status r n = PollDone [r]"


definition valueless_api :: freightcom where
  "valueless_api = example_api\<lparr>rateStatus := immediate_status (RateTotal False NaN)\<rparr>"

definition example_cart :: cart where
  "example_cart =
     \<lparr>sales_channel_id = None, warehouse_id = None, items = None,
      boxes = Some [example_box], 
      shipping_address = Some \<lparr>postal_code = Some ''M5V 2T6'', country_code = None\<rparr>\<rparr>"

text \<open>
  A price table with the classes 300 and 92.5, reference data with it, and two boxes of one
  cubic metre: one of 25 kg (class 300 in the seed table) and one of 208 kg (class 85).
\<close>

definition mixed_rates :: "freight_class_pricing list" where
  "mixed_rates =
     [\<lparr>freightClass = 300, distance = Some ''200-299km'', breakpointValue = None, price = 50\<rparr>,
      \<lparr>freightClass = 92.5, distance = Some ''200-299km'', breakpointValue = None, price = 70\<rparr>]"

definition light_box :: box where
  "light_box =
     \<lparr>box_length = Some 1000, box_width = Some 1000, box_height = Some 1000,
      box_weight = Some 25000\<rparr>"

definition dense_box :: box where
  "dense_box =
     \<lparr>box_length = Some 1000, box_width = Some 1000, box_height = Some 1000,
      box_weight = Some 208000\<rparr>"

definition mixed_db :: strapi where
  "mixed_db = example_db\<lparr>freight_class_pricings := mixed_rates\<rparr>"

subsection \<open>Distance bands: results\<close>

lemma mapDistanceToRange_bucket:
  assumes "0 \<le> d" and "d < 1000"
  shows "\<exists>mn mx l. (mn, mx, l) \<in> set ranges \<and> mapDistanceToRange d = l
           \<and> mn \<le> d \<and> d < mn + 100 \<and> mx = mn + 99"
  using assms unfolding mapDistanceToRange_def ranges_def by auto

lemma mapDistanceToRange_top: "mapDistanceToRange d = ''1000+km'' \<longleftrightarrow> 1000 \<le> d"
  unfolding mapDistanceToRange_def by auto

lemma mapDistanceToRange_u_inside:
  "mapDistanceToRange_u d \<noteq> ''1000+km'' \<Longrightarrow>
     \<exists>mn mx. (mn, mx, mapDistanceToRange_u d) \<in> set ranges \<and> mn \<le> d \<and> d < mx"
  unfolding mapDistanceToRange_u_def ranges_def by (auto split: if_splits)

text \<open>
  Claim C2. The distance-banding function returns the band \<open>0-99km\<close> for every distance
  from 0 up to (not including) 100 km, and \<open>1000+km\<close> exactly from 1000 km on. The
  service does so; the second copy compares with the table's \<open>max\<close> of 99 and so leaves
  the distances from 99 up to 100 km to the final \<open>1000+km\<close>.
\<close>

theorem mapDistanceToRange_u_gap:
  "mapDistanceToRange_u 99 = ''1000+km'' \<and> mapDistanceToRange 99 = ''0-99km''"
  by (simp add: mapDistanceToRange_u_def mapDistanceToRange_def ranges_def)


subsection \<open>Weight tiers: results\<close>

lemma weightLoop_Some:
  "sorted (map (\<lambda>p. toNumber (breakpointValue p)) xs) \<Longrightarrow> weightLoop w xs = Some r \<Longrightarrow>
     r \<in> set xs \<and> toNumber (breakpointValue r) \<le> w
     \<and> (\<forall>x\<in>set xs. toNumber (breakpointValue x) \<le> w
            \<longrightarrow> toNumber (breakpointValue x) \<le> toNumber (breakpointValue r))"
proof (induction w xs rule: weightLoop.induct)
  case (1 weight)
  then show ?case by simp
next
  case (2 weight current)
  then show ?case by (simp split: if_splits)
next
  case (3 weight current nxt rest)
  show ?case
  proof (cases "toNumber (breakpointValue current) \<le> weight
                 \<and> weight < toNumber (breakpointValue nxt)")
    case True
    with 3 show ?thesis by fastforce
  next
    case False
    with 3 have rec: "weightLoop weight (nxt # rest) = Some r" by auto
    from 3 have srt: "sorted (map (\<lambda>p. toNumber (breakpointValue p)) (nxt # rest))" by simp
    from "3.IH" False rec srt
    have ih: "r \<in> set (nxt # rest) \<and> toNumber (breakpointValue r) \<le> weight
       \<and> (\<forall>x\<in>set (nxt # rest). toNumber (breakpointValue x) \<le> weight
            \<longrightarrow> toNumber (breakpointValue x) \<le> toNumber (breakpointValue r))" by blast
    from "3.prems"(1) ih have "toNumber (breakpointValue current) \<le> toNumber (breakpointValue r)"
      by auto
    with ih show ?thesis by auto
  qed
qed

lemma weightLoop_None:
  "weightLoop w xs = None \<Longrightarrow> \<forall>x\<in>set xs. w < toNumber (breakpointValue x)"
  by (induction w xs rule: weightLoop.induct) (auto split: if_splits)

lemma sorted_bp:
  "sorted (map (\<lambda>p. toNumber (breakpointValue p))
     (sort_key (\<lambda>p. toNumber (breakpointValue p)) xs))"
  by (rule sorted_sort_key)

lemma selectPricingByWeight_Some:
  assumes "p \<in> set ps" and "breakpointValue p = Some b" and "b \<le> w"
  shows "\<exists>r c. selectPricingByWeight ps w = Some r \<and> r \<in> set ps
           \<and> breakpointValue r = Some c \<and> c \<le> w
           \<and> (\<forall>q\<in>set ps. \<forall>c'. breakpointValue q = Some c' \<and> c' \<le> w \<longrightarrow> c' \<le> c)"
proof -
  let ?k = "\<lambda>p. toNumber (breakpointValue p)"
  let ?s = "sort_key ?k (filter (\<lambda>p. breakpointValue p \<noteq> None) ps)"
  have set_s: "set ?s = {q \<in> set ps. breakpointValue q \<noteq> None}" by auto
  from assms have pin: "p \<in> set ?s" and kp: "?k p \<le> w" by (auto simp: toNumber_def)
  have "weightLoop w ?s \<noteq> None"
  proof
    assume "weightLoop w ?s = None"
    from weightLoop_None [OF this] pin have "w < ?k p" by blast
    with kp show False by simp
  qed
  then obtain r where r: "weightLoop w ?s = Some r" by auto
  from weightLoop_Some [OF sorted_bp r]
  have rin: "r \<in> set ?s" and rle: "?k r \<le> w"
    and rmax: "\<forall>x\<in>set ?s. ?k x \<le> w \<longrightarrow> ?k x \<le> ?k r" by auto
  from rin obtain c where c: "breakpointValue r = Some c" and rps: "r \<in> set ps" by auto
  have "\<forall>q\<in>set ps. \<forall>c'. breakpointValue q = Some c' \<and> c' \<le> w \<longrightarrow> c' \<le> c"
  proof (intro ballI allI impI)
    fix q c' assume q: "q \<in> set ps" and "breakpointValue q = Some c' \<and> c' \<le> w"
    then have "q \<in> set ?s" and "?k q = c'" and "c' \<le> w" by (auto simp: toNumber_def)
    with rmax have "c' \<le> ?k r" by auto
    with c show "c' \<le> c" by (simp add: toNumber_def)
  qed
  moreover from r have "selectPricingByWeight ps w = Some r"
    by (simp add: selectPricingByWeight_def)
  moreover from rle c have "c \<le> w" by (simp add: toNumber_def)
  ultimately show ?thesis using rps c by blast
qed

lemma selectPricingByWeight_catchAll:
  assumes "ps \<noteq> []" and "\<forall>q\<in>set ps. breakpointValue q = None"
  shows "selectPricingByWeight ps w = Some (hd ps)"
proof -
  from assms(2) have "filter (\<lambda>p. breakpointValue p \<noteq> None) ps = []"
    by (simp add: filter_empty_conv)
  moreover from assms obtain x xs where "ps = x # xs" and "breakpointValue x = None"
    by (cases ps) auto
  ultimately show ?thesis by (simp add: selectPricingByWeight_def falsy_def)
qed



lemma weightLoop_mem: "weightLoop w xs = Some r \<Longrightarrow> r \<in> set xs"
  by (induction w xs rule: weightLoop.induct) (auto split: if_splits)

lemma sort_key_Nil_iff: "sort_key f xs = [] \<longleftrightarrow> xs = []"
  by (metis length_0_conv length_sort)

lemma selectPricingByWeight_nonempty:
  assumes "ps \<noteq> []"
  shows "\<exists>r. selectPricingByWeight ps w = Some r \<and> r \<in> set ps"
proof -
  let ?k = "\<lambda>p. toNumber (breakpointValue p)"
  let ?s = "sort_key ?k (filter (\<lambda>p. breakpointValue p \<noteq> None) ps)"
  have set_s: "set ?s \<subseteq> set ps" by auto
  show ?thesis
  proof (cases "weightLoop w ?s")
    case (Some r)
    with weightLoop_mem [OF Some] set_s show ?thesis
      by (auto simp: selectPricingByWeight_def)
  next
    case None
    show ?thesis
    proof (cases "?s = []")
      case False
      then have "last ?s \<in> set ?s" by (rule last_in_set)
      with set_s have "last ?s \<in> set ps" by blast
      with None False show ?thesis by (simp add: selectPricingByWeight_def sort_key_Nil_iff)
    next
      case True
      then have "filter (\<lambda>p. breakpointValue p \<noteq> None) ps = []"
        by (simp only: sort_key_Nil_iff)
      then have allNone: "\<forall>q\<in>set ps. breakpointValue q = None"
        by (simp add: filter_empty_conv)
      from assms obtain x xs where ps: "ps = x # xs" by (cases ps) auto
      with allNone have "find (\<lambda>p. falsy (breakpointValue p)) ps = Some x"
        by (simp add: falsy_def)
      with None True ps show ?thesis by (simp add: selectPricingByWeight_def sort_key_Nil_iff)
    qed
  qed
qed

lemma selected_inline:
  "(let sorted = sort_key (\<lambda>p. toNumber (breakpointValue p))
                           (filter (\<lambda>p. breakpointValue p \<noteq> None) ps);
                selected1 = weightLoop w sorted;
                selected2 = (if selected1 = None \<and> 0 < length sorted
                             then Some (last sorted) else selected1);
                selected3 = (if selected2 = None
                             then find (\<lambda>p. falsy (breakpointValue p)) ps
                             else selected2)
            in selected3) = selectPricingByWeight ps w"
proof (cases "weightLoop w (sort_key (\<lambda>p. toNumber (breakpointValue p))
                           (filter (\<lambda>p. breakpointValue p \<noteq> None) ps))")
  case None
  then show ?thesis by (simp add: selectPricingByWeight_def Let_def sort_key_Nil_iff)
next
  case (Some a)
  then show ?thesis by (simp add: selectPricingByWeight_def Let_def sort_key_Nil_iff)
qed

lemma service_price:
  "findPriceAndRateByClassAndDistance table fc d w = findPriceAndRateByClassAndDistance_u table fc d w"
  by (simp only: findPriceAndRateByClassAndDistance_def findPriceAndRateByClassAndDistance_u_def
      findPricingEntries_def Let_def selected_inline [unfolded Let_def])


text \<open>
  Claim C1. Among the rows a tier returned, the rows with a breakpoint are sorted
  ascending and the selected row is one whose breakpoint is the greatest breakpoint not
  exceeding the weight; when the weight exceeds every breakpoint this is the row of the
  highest breakpoint; when no row has a breakpoint the first row (a row without
  breakpoint) is selected. The service computes its price from the row selected in this
  way. For the breakpoints 0, 500 and 1000 the weights 750, 1000 and 10000 select the
  tiers 500, 1000 and 1000.
\<close>

theorem weight_tier_selection:
  "(p \<in> set ps \<and> breakpointValue p = Some b \<and> b \<le> w \<longrightarrow>
      (\<exists>r c. selectPricingByWeight ps w = Some r \<and> r \<in> set ps
         \<and> breakpointValue r = Some c \<and> c \<le> w
         \<and> (\<forall>q\<in>set ps. \<forall>c'. breakpointValue q = Some c' \<and> c' \<le> w \<longrightarrow> c' \<le> c)))
   \<and> (p \<in> set ps \<and> breakpointValue p = Some b
        \<and> (\<forall>q\<in>set ps. \<forall>c'. breakpointValue q = Some c' \<longrightarrow> c' < w) \<longrightarrow>
      (\<exists>r c. selectPricingByWeight ps w = Some r \<and> r \<in> set ps
         \<and> breakpointValue r = Some c
         \<and> (\<forall>q\<in>set ps. \<forall>c'. breakpointValue q = Some c' \<longrightarrow> c' \<le> c)))
   \<and> (ps \<noteq> [] \<and> (\<forall>q\<in>set ps. breakpointValue q = None) \<longrightarrow>
        selectPricingByWeight ps w = Some (hd ps))
   \<and> findPriceAndRateByClassAndDistance table fc d w =
       (let rows = findPricingEntries table fc d in
        if rows = [] then None
        else map_option (\<lambda>r. \<lparr>pr_price = price r * (w / 100), pr_ratePerCwt = price r\<rparr>)
               (selectPricingByWeight rows w))"
proof (intro conjI impI)
  assume "p \<in> set ps \<and> breakpointValue p = Some b \<and> b \<le> w"
  then show "\<exists>r c. selectPricingByWeight ps w = Some r \<and> r \<in> set ps
         \<and> breakpointValue r = Some c \<and> c \<le> w
         \<and> (\<forall>q\<in>set ps. \<forall>c'. breakpointValue q = Some c' \<and> c' \<le> w \<longrightarrow> c' \<le> c)"
    using selectPricingByWeight_Some by blast
next
  assume a: "p \<in> set ps \<and> breakpointValue p = Some b
        \<and> (\<forall>q\<in>set ps. \<forall>c'. breakpointValue q = Some c' \<longrightarrow> c' < w)"
  then have "b \<le> w" by fastforce
  with a selectPricingByWeight_Some [of p ps b w]
  obtain r c where r: "selectPricingByWeight ps w = Some r" "r \<in> set ps"
      "breakpointValue r = Some c"
      and mx: "\<forall>q\<in>set ps. \<forall>c'. breakpointValue q = Some c' \<and> c' \<le> w \<longrightarrow> c' \<le> c"
    by blast
  have "\<forall>q\<in>set ps. \<forall>c'. breakpointValue q = Some c' \<longrightarrow> c' \<le> c"
  proof (intro ballI allI impI)
    fix q c' assume "q \<in> set ps" and "breakpointValue q = Some c'"
    with a mx show "c' \<le> c" by fastforce
  qed
  with r show "\<exists>r c. selectPricingByWeight ps w = Some r \<and> r \<in> set ps
         \<and> breakpointValue r = Some c
         \<and> (\<forall>q\<in>set ps. \<forall>c'. breakpointValue q = Some c' \<longrightarrow> c' \<le> c)"
    by blast
next
  assume "ps \<noteq> [] \<and> (\<forall>q\<in>set ps. breakpointValue q = None)"
  then show "selectPricingByWeight ps w = Some (hd ps)"
    using selectPricingByWeight_catchAll by blast
next
  show "findPriceAndRateByClassAndDistance table fc d w =
       (let rows = findPricingEntries table fc d in
        if rows = [] then None
        else map_option (\<lambda>r. \<lparr>pr_price = price r * (w / 100), pr_ratePerCwt = price r\<rparr>)
               (selectPricingByWeight rows w))"
    unfolding service_price findPriceAndRateByClassAndDistance_u_def Let_def
    by (simp split: option.splits)
qed

theorem weight_tier_selection_witness:
  "example_tiers ! 0 \<in> set example_tiers
   \<and> breakpointValue (example_tiers ! 0) = Some 500 \<and> (500::real) \<le> 750
   \<and> map_option breakpointValue (selectPricingByWeight example_tiers 750) = Some (Some 500)
   \<and> map_option breakpointValue (selectPricingByWeight example_tiers 1000) = Some (Some 1000)
   \<and> map_option breakpointValue (selectPricingByWeight example_tiers 10000) = Some (Some 1000)"
proof -
  have h: "example_tiers ! 0 \<in> set example_tiers
     \<and> breakpointValue (example_tiers ! 0) = Some 500 \<and> (500::real) \<le> 750"
    by (simp add: example_tiers_def)
  from weight_tier_selection [of "example_tiers ! 0" example_tiers 500 750] h
  obtain r c where r: "selectPricingByWeight example_tiers 750 = Some r"
    "r \<in> set example_tiers" "breakpointValue r = Some c" "c \<le> 750"
    "\<forall>q\<in>set example_tiers. \<forall>c'. breakpointValue q = Some c' \<and> c' \<le> 750 \<longrightarrow> c' \<le> c"
    by blast
  from r(5) h have "500 \<le> c" by blast
  with r(2,3,4) have "c = 500" by (auto simp: example_tiers_def)
  with r have a: "map_option breakpointValue (selectPricingByWeight example_tiers 750)
     = Some (Some 500)" by simp
  have b: "map_option breakpointValue (selectPricingByWeight example_tiers 1000) = Some (Some 1000)"
    by (simp add: selectPricingByWeight_def example_tiers_def toNumber_def)
  have c: "map_option breakpointValue (selectPricingByWeight example_tiers 10000) = Some (Some 1000)"
    by (simp add: selectPricingByWeight_def example_tiers_def toNumber_def)
  from h a b c show ?thesis by blast
qed


subsection \<open>Price tiers: results\<close>

lemma split_from_nonempty: "split_from sep acc s \<noteq> []"
  by (induction sep acc s rule: split_from.induct) auto

lemma split_str_first: "split_str s sep ! 0 = hd (split_str s sep)"
  by (simp add: hd_conv_nth split_str_def split_from_nonempty)

lemma findPricingEntries_tiers:
  "findPricingEntries table fc d =
     (if tier1 table fc d \<noteq> [] then tier1 table fc d
      else if includes_str d ''-'' \<and> tier2 table fc d \<noteq> [] then tier2 table fc d
      else tier3 table fc)"
proof -
  have t2: "filter (\<lambda>p.
                     let pDistance = (case distance p of None \<Rightarrow> [] | Some s \<Rightarrow> s)
                     in pDistance = d \<or> startsWith pDistance (trim (split_str d ''-'' ! 0))
                        \<or> pDistance = trim (split_str d ''-'' ! 0))
              (filter (\<lambda>p. freightClass p = of_int (Math_round fc)) table) = tier2 table fc d"
    unfolding tier2_def lowerBoundToken_def split_str_first startsWith_def Let_def filter_filter
    by (rule filter_cong) auto
  show ?thesis
    unfolding findPricingEntries_def Let_def t2 [unfolded Let_def]
    unfolding tier1_def [symmetric] tier3_def [symmetric]
    by (simp only: length_0_conv split: if_splits) auto
qed


text \<open>
  Claim C4. The rows used for a price are the rows of tier 1 when there are any;
  otherwise, when the band contains \<open>-\<close>, the rows of tier 2 when there are any;
  otherwise the rows of tier 3. With a tier-1 row in the table nothing of tier 2 or 3 is
  used. The service, which reads the table inside its price function, returns what the
  second copy returns from these rows.
\<close>

theorem price_tiers:
  "findPricingEntries table fc d =
     (if tier1 table fc d \<noteq> [] then tier1 table fc d
      else if includes_str d ''-'' \<and> tier2 table fc d \<noteq> [] then tier2 table fc d
      else tier3 table fc)
   \<and> (tier1 table fc d \<noteq> [] \<longrightarrow> findPricingEntries table fc d = tier1 table fc d)
   \<and> findPriceAndRateByClassAndDistance table fc d w
       = findPriceAndRateByClassAndDistance_u table fc d w"
  using findPricingEntries_tiers [of table fc d] service_price [of table fc d w] by simp

theorem price_tiers_witness:
  "tier1 example_prices 100 ''0-99km'' \<noteq> []
   \<and> findPricingEntries example_prices 100 ''0-99km'' = [example_prices ! 1]
   \<and> tier2 example_prices 100 ''0-99km'' = [example_prices ! 0, example_prices ! 1]
   \<and> tier3 example_prices 100 = [example_prices ! 0, example_prices ! 1, example_prices ! 2]"
proof -
  have t1: "tier1 example_prices 100 ''0-99km'' = [example_prices ! 1]"
    by (simp add: tier1_def example_prices_def Math_round_def)
  then have ne: "tier1 example_prices 100 ''0-99km'' \<noteq> []" by simp
  from price_tiers [of example_prices 100 "''0-99km''"] ne t1
  have "findPricingEntries example_prices 100 ''0-99km'' = [example_prices ! 1]" by simp
  moreover have "tier2 example_prices 100 ''0-99km'' = [example_prices ! 0, example_prices ! 1]"
    by (simp add: tier2_def lowerBoundToken_def example_prices_def Math_round_def split_str_def
        trim_def isWhiteSpace_def)
  moreover have "tier3 example_prices 100
      = [example_prices ! 0, example_prices ! 1, example_prices ! 2]"
    by (simp add: tier3_def example_prices_def Math_round_def)
  ultimately show ?thesis using ne by blast
qed



subsection \<open>Freight class by density: results\<close>

text \<open>A label that contains the separator splits in at least two parts, so \<open>parts[1]\<close> exists.\<close>

lemma split_from_length:
  "sep \<noteq> [] \<Longrightarrow> includes_str s sep \<Longrightarrow> 2 \<le> length (split_from sep acc s)"
proof (induction sep acc s rule: split_from.induct)
  case (1 sep acc)
  then show ?case by simp
next
  case (2 sep acc c cs)
  show ?case
  proof (cases "prefix sep (c # cs)")
    case True
    have "split_from sep [] (drop (length sep - 1) cs) \<noteq> []"
      by (rule split_from_nonempty)
    with True 2 show ?thesis by (cases "split_from sep [] (drop (length sep - 1) cs)") auto
  next
    case False
    with 2 show ?thesis by auto
  qed
qed

lemma classLoop_u_eq: "classLoop_u density rows = classLoop density rows"
proof (induction rows)
  case Nil
  then show ?case by simp
next
  case (Cons calc rest)
  have "\<not> includes_str ''50 or greater'' ''but less than''" by simp
  with Cons show ?case by (auto simp: Let_def)
qed

lemma classLoop_find:
  "classLoop density rows
     = map_option assignedFreightClass (find (\<lambda>r. labelMatches (densityRange r) density) rows)"
proof (induction rows)
  case Nil
  then show ?case by simp
next
  case (Cons calc rest)
  have "\<not> includes_str ''50 or greater'' ''but less than''" by simp
  moreover have "\<not> includes_str ''Less than 1'' ''but less than''" by simp
  ultimately show ?case using Cons by (auto simp: Let_def labelMatches_def)
qed


text \<open>
  Claim C3, as amended. \<open>findFreightClassByDensity\<close> goes through the rows sorted
  ascending by \<open>sub\<close> and returns the class of the first row whose label matches, where
  only the literal labels \<open>Less than 1\<close> and \<open>50 or greater\<close> and the labels containing
  \<open>but less than\<close> can match; when no row matches it returns the class of the last row;
  it returns \<open>null\<close> exactly when no row matches and the table is empty or the last
  row's class is 0. Both copies compute the same function.
\<close>

theorem freight_class_by_density:
  "findFreightClassByDensity calculations density =
     (let rows = sort_key sub calculations in
      case find (\<lambda>r. labelMatches (densityRange r) density) rows of
        Some r \<Rightarrow> Some (assignedFreightClass r)
      | None \<Rightarrow>
          if calculations = [] \<or> assignedFreightClass (last rows) = 0 then None
          else Some (assignedFreightClass (last rows)))
   \<and> findFreightClassByDensity_u calculations density
       = findFreightClassByDensity calculations density
   \<and> (findFreightClassByDensity calculations density = None \<longleftrightarrow>
        (\<forall>r\<in>set calculations. \<not> labelMatches (densityRange r) density)
        \<and> (calculations = [] \<or> assignedFreightClass (last (sort_key sub calculations)) = 0))"
proof -
  let ?rows = "sort_key sub calculations"
  let ?f = "find (\<lambda>r. labelMatches (densityRange r) density) ?rows"
  have e: "?rows = [] \<longleftrightarrow> calculations = []" by (rule sort_key_Nil_iff)
  have a: "findFreightClassByDensity calculations density =
     (case ?f of
        Some r \<Rightarrow> Some (assignedFreightClass r)
      | None \<Rightarrow>
          if calculations = [] \<or> assignedFreightClass (last ?rows) = 0 then None
          else Some (assignedFreightClass (last ?rows)))"
    unfolding findFreightClassByDensity_def Let_def classLoop_find e
    by (cases ?f) auto
  have b: "findFreightClassByDensity_u calculations density
       = findFreightClassByDensity calculations density"
    by (simp add: findFreightClassByDensity_u_def findFreightClassByDensity_def classLoop_u_eq)
  have n: "?f = None \<longleftrightarrow> (\<forall>r\<in>set calculations. \<not> labelMatches (densityRange r) density)"
    by (auto simp: find_None_iff)
  have c: "findFreightClassByDensity calculations density = None \<longleftrightarrow>
        (\<forall>r\<in>set calculations. \<not> labelMatches (densityRange r) density)
        \<and> (calculations = [] \<or> assignedFreightClass (last ?rows) = 0)"
    unfolding a n [symmetric] by (cases ?f) auto
  from a b c show ?thesis by (simp add: Let_def)
qed


theorem freight_class_by_density_witness:
  "findFreightClassByDensity freightCalculations 16 = Some 70
   \<and> findFreightClassByDensity_u freightCalculations 16 = Some 70
   \<and> findFreightClassByDensity freightCalculations (1 / 2) = Some 400
   \<and> findFreightClassByDensity freightCalculations 50 = Some 50
   \<and> findFreightClassByDensity [] 16 = None"
proof -
  have a: "findFreightClassByDensity freightCalculations 16 = Some 70" by code_simp
  from freight_class_by_density [of freightCalculations 16, THEN conjunct2, THEN conjunct1] a
  have b: "findFreightClassByDensity_u freightCalculations 16 = Some 70" by simp
  have c: "findFreightClassByDensity freightCalculations (1 / 2) = Some 400" by code_simp
  have d: "findFreightClassByDensity freightCalculations 50 = Some 50" by code_simp
  from freight_class_by_density [of "[]" 16, THEN conjunct2, THEN conjunct2]
  have e: "findFreightClassByDensity [] 16 = None" by simp
  from a b c d e show ?thesis by simp
qed

text \<open>
  The claim as stated fails for a table in the grammar whose bounds are not 1 and 50:
  with the rows \<open>Less than 2\<close> (class 400) and \<open>2 or greater\<close> (class 50) the density 1
  lies in the first row's interval, and both copies return the last row's class 50.
\<close>

theorem freight_class_grammar_counterexample:
  "findFreightClassByDensity grammarTable 1 = Some 50
   \<and> findFreightClassByDensity_u grammarTable 1 = Some 50"
  by (simp add: grammarTable_def findFreightClassByDensity_def findFreightClassByDensity_u_def)



subsection \<open>Evaluation of the examples\<close>

lemmas js_defs = split_str_def trim_def isWhiteSpace_def startsWith_def parseFloat_def
  unsignedLiteral_def isDigit_def digitsValue_def exponentPart_def scale10_def Math_round_def
  toNumber_def falsy_def truthy_def fractional_def newSet_def

lemmas quote_defs = calculateShippingForBoxes_def calculateShippingForBoxes_u_def
  assembleQuote_def quoteBox_def quoteBox_u_def findFreightClassByDensity_def
  findFreightClassByDensity_u_def findPriceAndRateByClassAndDistance_def
  findPriceAndRateByClassAndDistance_u_def findPricingEntries_def selectPricingByWeight_def
  calculateDensity_def calculateCubicFeet_def calculateDensity_u_def calculateCubicFeet_u_def
  mmToInches_def gramsToPounds_def toFixed_def

lemmas example_defs = example_db_def example_box_def example_rates_def example_warehouses_def
  freightCalculations_def

subsection \<open>Nearest class: results\<close>

lemma nearestLoop_min:
  "sorted (n0 # xs) \<Longrightarrow>
     nearestLoop c (n0, \<bar>c - n0\<bar>) xs \<in> set (n0 # xs)
     \<and> (\<forall>a\<in>set (n0 # xs).
            \<bar>c - nearestLoop c (n0, \<bar>c - n0\<bar>) xs\<bar> \<le> \<bar>c - a\<bar>
            \<and> (\<bar>c - a\<bar> = \<bar>c - nearestLoop c (n0, \<bar>c - n0\<bar>) xs\<bar>
                 \<longrightarrow> nearestLoop c (n0, \<bar>c - n0\<bar>) xs \<le> a))"
proof (induction xs arbitrary: n0)
  case Nil
  then show ?case by simp
next
  case (Cons x xs)
  show ?case
  proof (cases "\<bar>c - x\<bar> < \<bar>c - n0\<bar>")
    case True
    from Cons.prems have "sorted (x # xs)" by simp
    from Cons.IH [OF this] True show ?thesis by (auto simp: Let_def)
  next
    case False
    from Cons.prems have s: "sorted (n0 # xs)" and le: "n0 \<le> x" by auto
    from Cons.IH [OF s] False le show ?thesis by (auto simp: Let_def)
  qed
qed

lemma foldl_nearest:
  "foldl (\<lambda>nearest current. if \<bar>current - c\<bar> < \<bar>nearest - c\<bar> then current else nearest) n0 xs
     = nearestLoop c (n0, \<bar>c - n0\<bar>) xs"
  by (induction xs arbitrary: n0) (auto simp: Let_def abs_minus_commute)

lemma set_newSet: "set (newSet xs) = set xs"
  by (simp add: newSet_def)

lemma Math_round_of_int: "Math_round (of_int n) = n"
  by (simp add: Math_round_def)

lemma price_depends_on_rounded_class:
  "findPriceAndRateByClassAndDistance table (of_int (Math_round fc)) d w
     = findPriceAndRateByClassAndDistance table fc d w"
  by (simp only: findPriceAndRateByClassAndDistance_def Math_round_of_int)

lemma nearest_available:
  fixes c :: real
  assumes "table \<noteq> []"
    and av: "av = sort (newSet (map freightClass table))"
    and n: "n = nearestLoop c (av ! 0, \<bar>c - av ! 0\<bar>) av"
  shows "n \<in> freightClass ` set table
     \<and> (\<forall>a\<in>freightClass ` set table.
            \<bar>c - n\<bar> \<le> \<bar>c - a\<bar> \<and> (\<bar>c - a\<bar> = \<bar>c - n\<bar> \<longrightarrow> n \<le> a))"
proof -
  have setav: "set av = freightClass ` set table" by (simp add: av set_newSet)
  with assms(1) have ne: "av \<noteq> []" by auto
  then have hd: "av ! 0 = hd av" by (simp add: hd_conv_nth)
  have "sorted av" by (simp add: av)
  with ne have "sorted (hd av # av)" by (cases av) auto
  from nearestLoop_min [OF this, of c] ne
  have "n \<in> set av \<and> (\<forall>a\<in>set av.
            \<bar>c - n\<bar> \<le> \<bar>c - a\<bar> \<and> (\<bar>c - a\<bar> = \<bar>c - n\<bar> \<longrightarrow> n \<le> a))"
    unfolding n hd by (cases av) auto
  with setav show ?thesis by simp
qed

lemma falsy_inches: "falsy (map_option mmToInches v) = falsy v"
  by (cases v) (simp_all add: falsy_def mmToInches_def)

lemma falsy_pounds: "falsy (map_option gramsToPounds v) = falsy v"
  by (cases v) (simp_all add: falsy_def gramsToPounds_def)

lemma toNumber_inches: "toNumber (map_option mmToInches v) = mmToInches (toNumber v)"
  by (cases v) (simp_all add: toNumber_def mmToInches_def)

lemma toNumber_pounds: "toNumber (map_option gramsToPounds v) = gramsToPounds (toNumber v)"
  by (cases v) (simp_all add: toNumber_def gramsToPounds_def)

lemma cubicFeet_inches:
  "calculateCubicFeet_u (mmToInches l) (mmToInches w) (mmToInches h) = calculateCubicFeet l w h"
  by (simp add: calculateCubicFeet_u_def calculateCubicFeet_def)

lemma density_imperial:
  "calculateDensity_u (mmToInches l) (mmToInches w) (mmToInches h) (gramsToPounds g)
     = calculateDensity l w h g"
proof -
  have "gramsToPounds g \<le> 0 \<longleftrightarrow> g \<le> 0"
    by (simp add: gramsToPounds_def mult_le_0_iff)
  then show ?thesis
    by (simp add: calculateDensity_u_def calculateDensity_def calculateCubicFeet_u_def Let_def)
qed

lemma class_u: "findFreightClassByDensity_u t d = findFreightClassByDensity t d"
  by (simp add: findFreightClassByDensity_u_def findFreightClassByDensity_def classLoop_u_eq)

lemma quoteBox_imperial: "quoteBox_u db km r (imperial b) = quoteBox db km r b"
  unfolding quoteBox_u_def quoteBox_def Let_def
  by (simp only: imperial_def box.simps falsy_inches falsy_pounds toNumber_inches toNumber_pounds
      cubicFeet_inches density_imperial class_u service_price [symmetric] foldl_nearest)

lemma quoteBox_noprice:
  assumes "\<not> (falsy (box_length b) \<or> falsy (box_width b) \<or> falsy (box_height b)
              \<or> falsy (box_weight b))"
    and "findFreightClassByDensity (freight_calculations db)
           (calculateDensity (toNumber (box_length b)) (toNumber (box_width b))
              (toNumber (box_height b)) (toNumber (box_weight b))) = Some c"
    and "c \<noteq> 0"
    and "findPriceAndRateByClassAndDistance (freight_class_pricings db) c band
           (gramsToPounds (toNumber (box_weight b))) = None"
  shows "quoteBox db km band b =
     (let table = freight_class_pricings db;
          wp = gramsToPounds (toNumber (box_weight b));
          av = sort (newSet (map freightClass table))
      in if av = [] then Inl NoPricingData
         else let n = nearestLoop c (av ! 0, \<bar>c - av ! 0\<bar>) av
              in case findPriceAndRateByClassAndDistance table n band wp of
                   None \<Rightarrow> Inl (NoPricingFound c n (toFixed 2 km) band (toFixed 2 wp))
                 | Some r \<Rightarrow>
                     Inr (\<lparr>b_weightLbs = toFixed 2 wp,
                           b_cubicFeet = toFixed 14 (calculateCubicFeet (toNumber (box_length b))
                              (toNumber (box_width b)) (toNumber (box_height b))),
                           b_densityPcf = toFixed 14 (calculateDensity (toNumber (box_length b))
                              (toNumber (box_width b)) (toNumber (box_height b))
                              (toNumber (box_weight b))),
                           b_freightClass = n,
                           b_distanceKm = toFixed 3 km,
                           b_rateSource = ''STRAPI_TABLE'',
                           b_ratePerCwt = toFixed 1 (pr_ratePerCwt r),
                           b_currency = ''CAD'',
                           b_price = toFixed 2 (pr_price r),
                           b_lengthIn = toFixed 2 (mmToInches (toNumber (box_length b))),
                           b_widthIn = toFixed 2 (mmToInches (toNumber (box_width b))),
                           b_heightIn = toFixed 2 (mmToInches (toNumber (box_height b)))\<rparr>,
                          pr_price r))"
  unfolding quoteBox_def using assms
  by (simp add: Let_def price_depends_on_rounded_class split: option.splits)

lemma quoteBoxes_first_error:
  "(\<forall>x\<in>set pre. body x = Inl e \<or> (\<exists>r. body x = Inr r)) \<Longrightarrow> body b = Inl e \<Longrightarrow>
     quoteBoxes body (pre @ b # post) acc = Inl e"
proof (induction pre arbitrary: acc)
  case Nil
  then show ?case by (cases acc) simp
next
  case (Cons a pre)
  from Cons.prems have "body a = Inl e \<or> (\<exists>r. body a = Inr r)" by simp
  then show ?case
  proof
    assume "body a = Inl e"
    then show ?thesis by (cases acc) simp
  next
    assume "\<exists>r. body a = Inr r"
    then obtain r p where r: "body a = Inr (r, p)" by auto
    from Cons.prems have "\<forall>x\<in>set pre. body x = Inl e \<or> (\<exists>r. body x = Inr r)" by simp
    from Cons.IH [OF this Cons.prems(2)] r show ?thesis by (cases acc) simp
  qed
qed

lemma quoteBoxes_error:
  "b \<in> set bs \<Longrightarrow> (\<exists>e. body b = Inl e) \<Longrightarrow> \<exists>e. quoteBoxes body bs acc = Inl e"
proof (induction bs arbitrary: acc)
  case Nil
  then show ?case by simp
next
  case (Cons a bs)
  then show ?case by (cases acc; cases "body a") (auto split: prod.splits)
qed

lemma shipment_first_error:
  assumes "\<forall>x\<in>set pre. quoteBox db km band x = Inl e \<or> (\<exists>r. quoteBox db km band x = Inr r)"
    and "quoteBox db km band b = Inl e"
  shows "calculateShippingForBoxes db (pre @ b # post) km band origin dest country = Inl e"
  by (simp add: calculateShippingForBoxes_def
      quoteBoxes_first_error [of pre "quoteBox db km band" e b, OF assms])

lemma shipment_first_error_u:
  assumes "\<forall>x\<in>set pre. quoteBox_u db km band x = Inl e \<or> (\<exists>r. quoteBox_u db km band x = Inr r)"
    and "quoteBox_u db km band b = Inl e"
  shows "calculateShippingForBoxes_u db (pre @ b # post) km band origin dest country = Inl e"
  by (simp add: calculateShippingForBoxes_u_def
      quoteBoxes_first_error [of pre "quoteBox_u db km band" e b, OF assms])

lemma shipment_some_error:
  assumes "b \<in> set bs" and "quoteBox db km band b = Inl e"
  shows "\<exists>e. calculateShippingForBoxes db bs km band origin dest country = Inl e"
proof -
  from assms(2) have "\<exists>e. quoteBox db km band b = Inl e" by blast
  from quoteBoxes_error [of b bs "quoteBox db km band" "([], 0)", OF assms(1) this]
  show ?thesis by (auto simp: calculateShippingForBoxes_def)
qed

lemma shipment_some_error_u:
  assumes "b \<in> set bs" and "quoteBox_u db km band b = Inl e"
  shows "\<exists>e. calculateShippingForBoxes_u db bs km band origin dest country = Inl e"
proof -
  from assms(2) have "\<exists>e. quoteBox_u db km band b = Inl e" by blast
  from quoteBoxes_error [of b bs "quoteBox_u db km band" "([], 0)", OF assms(1) this]
  show ?thesis by (auto simp: calculateShippingForBoxes_u_def)
qed

lemma no_price_in_empty_table:
  "findPriceAndRateByClassAndDistance [] fc d w = None"
  by (simp add: findPriceAndRateByClassAndDistance_def)

lemma quoteBox_empty_table:
  assumes "freight_class_pricings db = []"
  shows "\<exists>e. quoteBox db km band x = Inl e" and "\<exists>e. quoteBox_u db km band x = Inl e"
  using assms
  by (auto simp: quoteBox_def quoteBox_u_def Let_def service_price [symmetric]
      no_price_in_empty_table newSet_def split: option.splits)

lemma empty_table_shipment:
  assumes "freight_class_pricings db = []" and "bs \<noteq> []"
  shows "\<exists>e. calculateShippingForBoxes db bs km band origin dest country = Inl e"
    and "\<exists>e. calculateShippingForBoxes_u db bs km band origin dest country = Inl e"
proof -
  from assms(2) have h: "hd bs \<in> set bs" by simp
  from quoteBox_empty_table(1) [OF assms(1), of km band "hd bs"] obtain e
    where "quoteBox db km band (hd bs) = Inl e" by blast
  from shipment_some_error [OF h this]
  show "\<exists>e. calculateShippingForBoxes db bs km band origin dest country = Inl e" .
  from quoteBox_empty_table(2) [OF assms(1), of km band "hd bs"] obtain e
    where "quoteBox_u db km band (hd bs) = Inl e" by blast
  from shipment_some_error_u [OF h this]
  show "\<exists>e. calculateShippingForBoxes_u db bs km band origin dest country = Inl e" .
qed

lemma av_Nil_iff: "sort (newSet (map freightClass t)) = [] \<longleftrightarrow> t = []"
  by (simp add: sort_key_Nil_iff newSet_def)

lemma quoteBox_noprice_cases:
  assumes "\<not> (falsy (box_length b) \<or> falsy (box_width b) \<or> falsy (box_height b)
              \<or> falsy (box_weight b))"
    and "findFreightClassByDensity (freight_calculations db)
           (calculateDensity (toNumber (box_length b)) (toNumber (box_width b))
              (toNumber (box_height b)) (toNumber (box_weight b))) = Some c"
    and "c \<noteq> 0"
    and "findPriceAndRateByClassAndDistance (freight_class_pricings db) c band
           (gramsToPounds (toNumber (box_weight b))) = None"
  shows "freight_class_pricings db = [] \<Longrightarrow> quoteBox db km band b = Inl NoPricingData"
    and "freight_class_pricings db \<noteq> [] \<Longrightarrow>
           av = sort (newSet (map freightClass (freight_class_pricings db))) \<Longrightarrow>
           n = nearestLoop c (av ! 0, \<bar>c - av ! 0\<bar>) av \<Longrightarrow>
           findPriceAndRateByClassAndDistance (freight_class_pricings db) n band
             (gramsToPounds (toNumber (box_weight b))) = None \<Longrightarrow>
           quoteBox db km band b
             = Inl (NoPricingFound c n (toFixed 2 km) band
                      (toFixed 2 (gramsToPounds (toNumber (box_weight b)))))"
    and "freight_class_pricings db \<noteq> [] \<Longrightarrow>
           av = sort (newSet (map freightClass (freight_class_pricings db))) \<Longrightarrow>
           n = nearestLoop c (av ! 0, \<bar>c - av ! 0\<bar>) av \<Longrightarrow>
           findPriceAndRateByClassAndDistance (freight_class_pricings db) n band
             (gramsToPounds (toNumber (box_weight b))) = Some r \<Longrightarrow>
           \<exists>res. quoteBox db km band b = Inr (res, pr_price r)
              \<and> b_freightClass res = n
              \<and> b_ratePerCwt res = toFixed 1 (pr_ratePerCwt r)
              \<and> b_price res = toFixed 2 (pr_price r)"
proof -
  let ?t = "freight_class_pricings db"
  note q = quoteBox_noprice [OF assms, of km, unfolded Let_def]
  {
    assume "?t = []"
    then have "(sort (newSet (map freightClass ?t)) = []) = True"
      using av_Nil_iff [of ?t] by blast
    then show "quoteBox db km band b = Inl NoPricingData"
      by (simp only: q if_True)
  }
  {
    assume ne: "?t \<noteq> []"
      and av: "av = sort (newSet (map freightClass ?t))"
      and n: "n = nearestLoop c (av ! 0, \<bar>c - av ! 0\<bar>) av"
    from ne have f: "(sort (newSet (map freightClass ?t)) = []) = False"
      using av_Nil_iff [of ?t] by blast
    note q' = q [unfolded f if_False, folded av, folded n]
    {
      assume "findPriceAndRateByClassAndDistance ?t n band
             (gramsToPounds (toNumber (box_weight b))) = None"
      then show "quoteBox db km band b
             = Inl (NoPricingFound c n (toFixed 2 km) band
                      (toFixed 2 (gramsToPounds (toNumber (box_weight b)))))"
        by (simp only: q' option.case)
    }
    {
      assume "findPriceAndRateByClassAndDistance ?t n band
             (gramsToPounds (toNumber (box_weight b))) = Some r"
      then have "quoteBox db km band b = Inr (\<lparr>b_weightLbs = toFixed 2 (gramsToPounds (toNumber (box_weight b))),
                           b_cubicFeet = toFixed 14 (calculateCubicFeet (toNumber (box_length b))
                              (toNumber (box_width b)) (toNumber (box_height b))),
                           b_densityPcf = toFixed 14 (calculateDensity (toNumber (box_length b))
                              (toNumber (box_width b)) (toNumber (box_height b))
                              (toNumber (box_weight b))),
                           b_freightClass = n,
                           b_distanceKm = toFixed 3 km,
                           b_rateSource = ''STRAPI_TABLE'',
                           b_ratePerCwt = toFixed 1 (pr_ratePerCwt r),
                           b_currency = ''CAD'',
                           b_price = toFixed 2 (pr_price r),
                           b_lengthIn = toFixed 2 (mmToInches (toNumber (box_length b))),
                           b_widthIn = toFixed 2 (mmToInches (toNumber (box_width b))),
                           b_heightIn = toFixed 2 (mmToInches (toNumber (box_height b)))\<rparr>,
                          pr_price r)"
        by (simp only: q' option.case)
      then show "\<exists>res. quoteBox db km band b = Inr (res, pr_price r)
              \<and> b_freightClass res = n
              \<and> b_ratePerCwt res = toFixed 1 (pr_ratePerCwt r)
              \<and> b_price res = toFixed 2 (pr_price r)"
        by simp
    }
  }
qed

lemma example_box_valid:
  "\<not> (falsy (box_length example_box) \<or> falsy (box_width example_box)
       \<or> falsy (box_height example_box) \<or> falsy (box_weight example_box))"
  by (simp add: example_box_def falsy_def)

lemma example_box_class:
  "findFreightClassByDensity freightCalculations
     (calculateDensity (toNumber (box_length example_box)) (toNumber (box_width example_box))
        (toNumber (box_height example_box)) (toNumber (box_weight example_box))) = Some 400"
  by (simp add: example_box_def toNumber_def calculateDensity_def mmToInches_def gramsToPounds_def
       findFreightClassByDensity_def freightCalculations_def)

lemma example_no_price:
  "findPriceAndRateByClassAndDistance example_rates 400 ''200-299km''
     (gramsToPounds (toNumber (box_weight example_box))) = None"
  by (simp add: findPriceAndRateByClassAndDistance_def example_rates_def Math_round_def
      split_str_def trim_def isWhiteSpace_def startsWith_def)

lemma light_box_quoted:
  "\<exists>r. quoteBox mixed_db 250 ''200-299km'' light_box = Inr r"
proof -
  have "\<not> isl (quoteBox mixed_db 250 ''200-299km'' light_box)"
    by (simp add: mixed_db_def mixed_rates_def light_box_def quote_defs example_defs js_defs
        Let_def)
  then show ?thesis by (cases "quoteBox mixed_db 250 ''200-299km'' light_box") auto
qed

lemma dense_box_valid:
  "\<not> (falsy (box_length dense_box) \<or> falsy (box_width dense_box)
       \<or> falsy (box_height dense_box) \<or> falsy (box_weight dense_box))"
  by (simp add: dense_box_def falsy_def)

lemma dense_box_class:
  "findFreightClassByDensity freightCalculations
     (calculateDensity (toNumber (box_length dense_box)) (toNumber (box_width dense_box))
        (toNumber (box_height dense_box)) (toNumber (box_weight dense_box))) = Some 85"
  by (simp add: dense_box_def quote_defs example_defs js_defs Let_def)

lemma dense_box_no_price:
  "findPriceAndRateByClassAndDistance mixed_rates 85 ''200-299km'' w = None"
  "findPriceAndRateByClassAndDistance mixed_rates 92.5 ''200-299km'' w = None"
  by (simp_all add: findPriceAndRateByClassAndDistance_def mixed_rates_def Math_round_def
      split_str_def trim_def isWhiteSpace_def startsWith_def)

text \<open>
  Claim C5. For a box that passes the check of its fields and gets a class \<open>c\<close>, when
  the price lookup for \<open>c\<close> gives nothing (the retry with the rounded class reads the
  same rows, see \<open>price_depends_on_rounded_class\<close>): with an empty price table the box
  fails with the no-pricing-data error, so does a shipment that begins with it, and every
  shipment that is not empty fails; otherwise the lookup is repeated with a class \<open>n\<close>
  of the table at minimum absolute difference from \<open>c\<close>, the lowest such class on a
  tie, and the box is quoted at class \<open>n\<close>, or, when that lookup gives nothing
  either, the box fails with the error that names \<open>c\<close>, \<open>n\<close>, the distance, the
  band and the weight; then a shipment whose boxes before this one are quoted fails with
  that error wherever the box stands, and no shipment that holds the box is quoted. The
  second copy does the same on boxes in inches and pounds.
\<close>

theorem nearest_class_fallback:
  assumes "\<not> (falsy (box_length b) \<or> falsy (box_width b) \<or> falsy (box_height b)
              \<or> falsy (box_weight b))"
    and "findFreightClassByDensity (freight_calculations db)
           (calculateDensity (toNumber (box_length b)) (toNumber (box_width b))
              (toNumber (box_height b)) (toNumber (box_weight b))) = Some c"
    and "c \<noteq> 0"
    and "findPriceAndRateByClassAndDistance (freight_class_pricings db) c band
           (gramsToPounds (toNumber (box_weight b))) = None"
  shows "(freight_class_pricings db = [] \<longrightarrow>
            quoteBox db km band b = Inl NoPricingData
            \<and> calculateShippingForBoxes db (b # post) km band origin dest country
                = Inl NoPricingData
            \<and> calculateShippingForBoxes_u db (imperial b # post') km band origin dest country
                = Inl NoPricingData
            \<and> (shipment \<noteq> [] \<longrightarrow>
                 (\<exists>e. calculateShippingForBoxes db shipment km band origin dest country = Inl e))
            \<and> (shipment' \<noteq> [] \<longrightarrow>
                 (\<exists>e. calculateShippingForBoxes_u db shipment' km band origin dest country
                        = Inl e)))
    \<and> (freight_class_pricings db \<noteq> [] \<longrightarrow>
         (\<exists>n. n \<in> freightClass ` set (freight_class_pricings db)
            \<and> (\<forall>a\<in>freightClass ` set (freight_class_pricings db).
                   \<bar>c - n\<bar> \<le> \<bar>c - a\<bar> \<and> (\<bar>c - a\<bar> = \<bar>c - n\<bar> \<longrightarrow> n \<le> a))
            \<and> ((findPriceAndRateByClassAndDistance (freight_class_pricings db) n band
                    (gramsToPounds (toNumber (box_weight b))) = None
                  \<and> quoteBox db km band b
                      = Inl (NoPricingFound c n (toFixed 2 km) band
                               (toFixed 2 (gramsToPounds (toNumber (box_weight b)))))
                  \<and> ((\<forall>x\<in>set pre. \<exists>r. quoteBox db km band x = Inr r) \<longrightarrow>
                       calculateShippingForBoxes db (pre @ b # post) km band origin dest country
                         = Inl (NoPricingFound c n (toFixed 2 km) band
                                  (toFixed 2 (gramsToPounds (toNumber (box_weight b))))))
                  \<and> ((\<forall>x\<in>set pre'. \<exists>r. quoteBox_u db km band x = Inr r) \<longrightarrow>
                       calculateShippingForBoxes_u db (pre' @ imperial b # post') km band origin
                           dest country
                         = Inl (NoPricingFound c n (toFixed 2 km) band
                                  (toFixed 2 (gramsToPounds (toNumber (box_weight b))))))
                  \<and> (b \<in> set shipment \<longrightarrow>
                       (\<exists>e. calculateShippingForBoxes db shipment km band origin dest country
                              = Inl e))
                  \<and> (imperial b \<in> set shipment' \<longrightarrow>
                       (\<exists>e. calculateShippingForBoxes_u db shipment' km band origin dest country
                              = Inl e)))
                 \<or> (\<exists>r res. findPriceAndRateByClassAndDistance (freight_class_pricings db) n
                                band (gramsToPounds (toNumber (box_weight b))) = Some r
                       \<and> quoteBox db km band b = Inr (res, pr_price r)
                       \<and> b_freightClass res = n
                       \<and> b_ratePerCwt res = toFixed 1 (pr_ratePerCwt r)
                       \<and> b_price res = toFixed 2 (pr_price r)))))
    \<and> quoteBox_u db km band (imperial b) = quoteBox db km band b"
proof -
  note cs = quoteBox_noprice_cases [OF assms, where km = km]
  let ?t = "freight_class_pricings db"
  let ?av = "sort (newSet (map freightClass ?t))"
  let ?n = "nearestLoop c (?av ! 0, \<bar>c - ?av ! 0\<bar>) ?av"
  let ?wp = "gramsToPounds (toNumber (box_weight b))"
  let ?ship = "\<lambda>bs. calculateShippingForBoxes db bs km band origin dest country"
  let ?ship_u = "\<lambda>bs. calculateShippingForBoxes_u db bs km band origin dest country"
  have u: "quoteBox_u db km band (imperial b) = quoteBox db km band b"
    by (rule quoteBox_imperial)
  have first: "?t = [] \<longrightarrow>
            quoteBox db km band b = Inl NoPricingData
            \<and> ?ship (b # post) = Inl NoPricingData
            \<and> ?ship_u (imperial b # post') = Inl NoPricingData
            \<and> (shipment \<noteq> [] \<longrightarrow> (\<exists>e. ?ship shipment = Inl e))
            \<and> (shipment' \<noteq> [] \<longrightarrow> (\<exists>e. ?ship_u shipment' = Inl e))"
  proof
    assume e: "?t = []"
    from cs(1) [OF e] have q: "quoteBox db km band b = Inl NoPricingData" .
    with u have qu: "quoteBox_u db km band (imperial b) = Inl NoPricingData" by simp
    have a1: "?ship (b # post) = Inl NoPricingData"
      using shipment_first_error [of "[]", OF _ q] by simp
    have a2: "?ship_u (imperial b # post') = Inl NoPricingData"
      using shipment_first_error_u [of "[]", OF _ qu] by simp
    have a3: "shipment \<noteq> [] \<longrightarrow> (\<exists>e. ?ship shipment = Inl e)"
      using empty_table_shipment(1) [OF e] by blast
    have a4: "shipment' \<noteq> [] \<longrightarrow> (\<exists>e. ?ship_u shipment' = Inl e)"
      using empty_table_shipment(2) [OF e] by blast
    from q a1 a2 a3 a4 show "quoteBox db km band b = Inl NoPricingData
            \<and> ?ship (b # post) = Inl NoPricingData
            \<and> ?ship_u (imperial b # post') = Inl NoPricingData
            \<and> (shipment \<noteq> [] \<longrightarrow> (\<exists>e. ?ship shipment = Inl e))
            \<and> (shipment' \<noteq> [] \<longrightarrow> (\<exists>e. ?ship_u shipment' = Inl e))"
      by (intro conjI)
  qed
  have second: "?t \<noteq> [] \<longrightarrow>
         (\<exists>n. n \<in> freightClass ` set ?t
            \<and> (\<forall>a\<in>freightClass ` set ?t.
                   \<bar>c - n\<bar> \<le> \<bar>c - a\<bar> \<and> (\<bar>c - a\<bar> = \<bar>c - n\<bar> \<longrightarrow> n \<le> a))
            \<and> ((findPriceAndRateByClassAndDistance ?t n band ?wp = None
                  \<and> quoteBox db km band b
                      = Inl (NoPricingFound c n (toFixed 2 km) band (toFixed 2 ?wp))
                  \<and> ((\<forall>x\<in>set pre. \<exists>r. quoteBox db km band x = Inr r) \<longrightarrow>
                       ?ship (pre @ b # post)
                         = Inl (NoPricingFound c n (toFixed 2 km) band (toFixed 2 ?wp)))
                  \<and> ((\<forall>x\<in>set pre'. \<exists>r. quoteBox_u db km band x = Inr r) \<longrightarrow>
                       ?ship_u (pre' @ imperial b # post')
                         = Inl (NoPricingFound c n (toFixed 2 km) band (toFixed 2 ?wp)))
                  \<and> (b \<in> set shipment \<longrightarrow> (\<exists>e. ?ship shipment = Inl e))
                  \<and> (imperial b \<in> set shipment' \<longrightarrow> (\<exists>e. ?ship_u shipment' = Inl e)))
                 \<or> (\<exists>r res. findPriceAndRateByClassAndDistance ?t n
                                band ?wp = Some r
                       \<and> quoteBox db km band b = Inr (res, pr_price r)
                       \<and> b_freightClass res = n
                       \<and> b_ratePerCwt res = toFixed 1 (pr_ratePerCwt r)
                       \<and> b_price res = toFixed 2 (pr_price r))))"
  proof
    assume ne: "?t \<noteq> []"
    from nearest_available [OF ne refl refl, of c]
    have nmin: "?n \<in> freightClass ` set ?t
       \<and> (\<forall>a\<in>freightClass ` set ?t.
            \<bar>c - ?n\<bar> \<le> \<bar>c - a\<bar> \<and> (\<bar>c - a\<bar> = \<bar>c - ?n\<bar> \<longrightarrow> ?n \<le> a))" .
    let ?E = "NoPricingFound c ?n (toFixed 2 km) band (toFixed 2 ?wp)"
    have alt: "(findPriceAndRateByClassAndDistance ?t ?n band ?wp = None
                  \<and> quoteBox db km band b = Inl ?E
                  \<and> ((\<forall>x\<in>set pre. \<exists>r. quoteBox db km band x = Inr r) \<longrightarrow>
                       ?ship (pre @ b # post) = Inl ?E)
                  \<and> ((\<forall>x\<in>set pre'. \<exists>r. quoteBox_u db km band x = Inr r) \<longrightarrow>
                       ?ship_u (pre' @ imperial b # post') = Inl ?E)
                  \<and> (b \<in> set shipment \<longrightarrow> (\<exists>e. ?ship shipment = Inl e))
                  \<and> (imperial b \<in> set shipment' \<longrightarrow> (\<exists>e. ?ship_u shipment' = Inl e)))
                 \<or> (\<exists>r res. findPriceAndRateByClassAndDistance ?t ?n band ?wp = Some r
                       \<and> quoteBox db km band b = Inr (res, pr_price r)
                       \<and> b_freightClass res = ?n
                       \<and> b_ratePerCwt res = toFixed 1 (pr_ratePerCwt r)
                       \<and> b_price res = toFixed 2 (pr_price r))"
    proof (cases "findPriceAndRateByClassAndDistance ?t ?n band ?wp")
      case None
      from cs(2) [OF ne refl refl None]
      have q: "quoteBox db km band b = Inl ?E" .
      with u have qu: "quoteBox_u db km band (imperial b) = Inl ?E" by simp
      have s1: "(\<forall>x\<in>set pre. \<exists>r. quoteBox db km band x = Inr r) \<longrightarrow>
                       ?ship (pre @ b # post) = Inl ?E"
      proof
        assume "\<forall>x\<in>set pre. \<exists>r. quoteBox db km band x = Inr r"
        then have "\<forall>x\<in>set pre. quoteBox db km band x = Inl ?E
            \<or> (\<exists>r. quoteBox db km band x = Inr r)" by blast
        from shipment_first_error [OF this q] show "?ship (pre @ b # post) = Inl ?E" .
      qed
      have s2: "(\<forall>x\<in>set pre'. \<exists>r. quoteBox_u db km band x = Inr r) \<longrightarrow>
                       ?ship_u (pre' @ imperial b # post') = Inl ?E"
      proof
        assume "\<forall>x\<in>set pre'. \<exists>r. quoteBox_u db km band x = Inr r"
        then have "\<forall>x\<in>set pre'. quoteBox_u db km band x = Inl ?E
            \<or> (\<exists>r. quoteBox_u db km band x = Inr r)" by blast
        from shipment_first_error_u [OF this qu]
        show "?ship_u (pre' @ imperial b # post') = Inl ?E" .
      qed
      have s3: "b \<in> set shipment \<longrightarrow> (\<exists>e. ?ship shipment = Inl e)"
        using shipment_some_error [OF _ q] by blast
      have s4: "imperial b \<in> set shipment' \<longrightarrow> (\<exists>e. ?ship_u shipment' = Inl e)"
        using shipment_some_error_u [OF _ qu] by blast
      from None q s1 s2 s3 s4 show ?thesis by (intro disjI1 conjI)
    next
      case (Some r)
      from cs(3) [OF ne refl refl Some] Some show ?thesis by blast
    qed
    with nmin show "\<exists>n. n \<in> freightClass ` set ?t
            \<and> (\<forall>a\<in>freightClass ` set ?t.
                   \<bar>c - n\<bar> \<le> \<bar>c - a\<bar> \<and> (\<bar>c - a\<bar> = \<bar>c - n\<bar> \<longrightarrow> n \<le> a))
            \<and> ((findPriceAndRateByClassAndDistance ?t n band ?wp = None
                  \<and> quoteBox db km band b
                      = Inl (NoPricingFound c n (toFixed 2 km) band (toFixed 2 ?wp))
                  \<and> ((\<forall>x\<in>set pre. \<exists>r. quoteBox db km band x = Inr r) \<longrightarrow>
                       ?ship (pre @ b # post)
                         = Inl (NoPricingFound c n (toFixed 2 km) band (toFixed 2 ?wp)))
                  \<and> ((\<forall>x\<in>set pre'. \<exists>r. quoteBox_u db km band x = Inr r) \<longrightarrow>
                       ?ship_u (pre' @ imperial b # post')
                         = Inl (NoPricingFound c n (toFixed 2 km) band (toFixed 2 ?wp)))
                  \<and> (b \<in> set shipment \<longrightarrow> (\<exists>e. ?ship shipment = Inl e))
                  \<and> (imperial b \<in> set shipment' \<longrightarrow> (\<exists>e. ?ship_u shipment' = Inl e)))
                 \<or> (\<exists>r res. findPriceAndRateByClassAndDistance ?t n
                                band ?wp = Some r
                       \<and> quoteBox db km band b = Inr (res, pr_price r)
                       \<and> b_freightClass res = n
                       \<and> b_ratePerCwt res = toFixed 1 (pr_ratePerCwt r)
                       \<and> b_price res = toFixed 2 (pr_price r)))"
      by (intro exI [of _ ?n] conjI) (elim conjE, assumption)+
  qed
  from first second u show ?thesis by (intro conjI)
qed


theorem nearest_class_fallback_witness:
  "(\<exists>res p. quoteBox example_db 250 ''200-299km'' example_box = Inr (res, p)
       \<and> b_freightClass res = 300)
   \<and> calculateShippingForBoxes (example_db\<lparr>freight_class_pricings := []\<rparr>)
        [example_box, light_box] 250 ''200-299km'' (Some ''H2K 4P5'') ''M5V 2T6'' ''CA''
        = Inl NoPricingData
   \<and> calculateShippingForBoxes_u (example_db\<lparr>freight_class_pricings := []\<rparr>)
        [imperial example_box, imperial light_box] 250 ''200-299km'' (Some ''H2K 4P5'')
        ''M5V 2T6'' ''CA'' = Inl NoPricingData
   \<and> (\<exists>km w. quoteBox (example_db\<lparr>freight_class_pricings := fractional_rates\<rparr>) 250
         ''200-299km'' example_box = Inl (NoPricingFound 400 92.5 km ''200-299km'' w))
   \<and> calculateShippingForBoxes mixed_db [light_box, dense_box, example_box] 250 ''200-299km''
        (Some ''H2K 4P5'') ''M5V 2T6'' ''CA''
        = Inl (NoPricingFound 85 92.5 250 ''200-299km'' 458.56)
   \<and> calculateShippingForBoxes_u mixed_db
        [imperial light_box, imperial dense_box, imperial example_box] 250 ''200-299km''
        (Some ''H2K 4P5'') ''M5V 2T6'' ''CA''
        = Inl (NoPricingFound 85 92.5 250 ''200-299km'' 458.56)"
proof -
  let ?wp = "gramsToPounds (toNumber (box_weight example_box))"
  let ?wd = "gramsToPounds (toNumber (box_weight dense_box))"
  let ?b = "''200-299km''"
  let ?o = "Some ''H2K 4P5''"
  have nz: "(400::real) \<noteq> 0" by simp
  have cls: "findFreightClassByDensity (freight_calculations (example_db\<lparr>freight_class_pricings := t\<rparr>))
     (calculateDensity (toNumber (box_length example_box)) (toNumber (box_width example_box))
        (toNumber (box_height example_box)) (toNumber (box_weight example_box))) = Some 400" for t
    unfolding example_db_def strapi.simps by (rule example_box_class)
  have tbl: "freight_class_pricings (example_db\<lparr>freight_class_pricings := t\<rparr>) = t" for t
    by simp
  have db: "example_db\<lparr>freight_class_pricings := example_rates\<rparr> = example_db"
    by (simp add: example_db_def)
  have t: "freight_class_pricings example_db = example_rates"
    by (simp add: example_db_def)
  have np1: "findPriceAndRateByClassAndDistance
      (freight_class_pricings (example_db\<lparr>freight_class_pricings := example_rates\<rparr>)) 400 ?b ?wp
      = None"
    unfolding tbl by (rule example_no_price)
  have ne1: "freight_class_pricings (example_db\<lparr>freight_class_pricings := example_rates\<rparr>) \<noteq> []"
    unfolding tbl by (simp add: example_rates_def)
  note f1 = nearest_class_fallback [OF example_box_valid cls nz np1,
      where km = 250 and pre = "[]" and post = "[]" and pre' = "[]" and post' = "[]"
        and shipment = "[]" and shipment' = "[]" and origin = None and dest = "[]"
        and country = "[]",
      THEN conjunct2, THEN conjunct1, THEN mp, OF ne1, unfolded tbl db t]
  have p300: "findPriceAndRateByClassAndDistance example_rates 300 ?b ?wp \<noteq> None"
    by (simp add: findPriceAndRateByClassAndDistance_def example_rates_def Math_round_def
        falsy_def)
  have n300: "n = 300" if "n \<in> freightClass ` set example_rates"
    and "\<forall>a\<in>freightClass ` set example_rates.
            \<bar>400 - n\<bar> \<le> \<bar>400 - a\<bar> \<and> (\<bar>400 - a\<bar> = \<bar>400 - n\<bar> \<longrightarrow> n \<le> a)" for n :: real
  proof -
    from that(1) have "n = 500 \<or> n = 300" by (simp add: example_rates_def)
    moreover from that(2) have "\<bar>400 - n\<bar> = 100 \<longrightarrow> n \<le> 300" by (simp add: example_rates_def)
    ultimately show ?thesis by auto
  qed
  from f1 have a: "\<exists>res p. quoteBox example_db 250 ?b example_box = Inr (res, p)
       \<and> b_freightClass res = 300"
  proof (elim exE conjE disjE)
    fix n
    assume "n \<in> freightClass ` set example_rates"
      and "\<forall>a\<in>freightClass ` set example_rates.
            \<bar>400 - n\<bar> \<le> \<bar>400 - a\<bar> \<and> (\<bar>400 - a\<bar> = \<bar>400 - n\<bar> \<longrightarrow> n \<le> a)"
      and "findPriceAndRateByClassAndDistance example_rates n ?b ?wp = None"
    with n300 [of n] p300 show ?thesis by simp
  next
    fix n res and r :: PricingResult
    assume "n \<in> freightClass ` set example_rates"
      and "\<forall>a\<in>freightClass ` set example_rates.
            \<bar>400 - n\<bar> \<le> \<bar>400 - a\<bar> \<and> (\<bar>400 - a\<bar> = \<bar>400 - n\<bar> \<longrightarrow> n \<le> a)"
      and "quoteBox example_db 250 ?b example_box = Inr (res, pr_price r)"
      and "b_freightClass res = n"
    with n300 [of n] show ?thesis by simp
  qed
  have np2: "findPriceAndRateByClassAndDistance
      (freight_class_pricings (example_db\<lparr>freight_class_pricings := []\<rparr>)) 400 ?b ?wp = None"
    unfolding tbl by (simp add: findPriceAndRateByClassAndDistance_def)
  note f2 = nearest_class_fallback [OF example_box_valid cls nz np2,
      where km = 250 and post = "[light_box]" and post' = "[imperial light_box]"
        and origin = ?o and dest = "''M5V 2T6''" and country = "''CA''",
      THEN conjunct1, THEN mp, OF tbl]
  note b1 = f2 [THEN conjunct2, THEN conjunct1]
  note b2 = f2 [THEN conjunct2, THEN conjunct2, THEN conjunct1]
  have np3: "findPriceAndRateByClassAndDistance
      (freight_class_pricings (example_db\<lparr>freight_class_pricings := fractional_rates\<rparr>)) 400
      ?b ?wp = None"
    unfolding tbl
    by (simp add: findPriceAndRateByClassAndDistance_def fractional_rates_def Math_round_def
      split_str_def trim_def isWhiteSpace_def startsWith_def)
  have ne3: "freight_class_pricings (example_db\<lparr>freight_class_pricings := fractional_rates\<rparr>)
      \<noteq> []"
    unfolding tbl by (simp add: fractional_rates_def)
  note f3 = nearest_class_fallback [OF example_box_valid cls nz np3,
      where km = 250 and pre = "[]" and post = "[]" and pre' = "[]" and post' = "[]"
        and shipment = "[]" and shipment' = "[]" and origin = None and dest = "[]"
        and country = "[]",
      THEN conjunct2, THEN conjunct1, THEN mp, OF ne3, unfolded tbl]
  have p925: "findPriceAndRateByClassAndDistance fractional_rates 92.5 ?b ?wp = None"
    by (simp add: findPriceAndRateByClassAndDistance_def fractional_rates_def Math_round_def
      split_str_def trim_def isWhiteSpace_def startsWith_def)
  have m925: "m = 92.5" if "m \<in> freightClass ` set fractional_rates" for m :: real
    using that by (simp add: fractional_rates_def)
  from f3 have c: "\<exists>km w. quoteBox (example_db\<lparr>freight_class_pricings := fractional_rates\<rparr>)
      250 ?b example_box = Inl (NoPricingFound 400 92.5 km ?b w)"
  proof (elim exE conjE disjE)
    fix m
    assume min: "m \<in> freightClass ` set fractional_rates"
      and q: "quoteBox (example_db\<lparr>freight_class_pricings := fractional_rates\<rparr>) 250 ?b example_box
             = Inl (NoPricingFound 400 m (toFixed 2 250) ?b (toFixed 2 ?wp))"
    from q [unfolded m925 [OF min]] show ?thesis by blast
  next
    fix m res and r :: PricingResult
    assume min: "m \<in> freightClass ` set fractional_rates"
      and some: "findPriceAndRateByClassAndDistance fractional_rates m ?b ?wp = Some r"
    from some [unfolded m925 [OF min]] p925 show ?thesis by simp
  qed
  have mt: "freight_class_pricings mixed_db = mixed_rates" by (simp add: mixed_db_def)
  have cls4: "findFreightClassByDensity (freight_calculations mixed_db)
     (calculateDensity (toNumber (box_length dense_box)) (toNumber (box_width dense_box))
        (toNumber (box_height dense_box)) (toNumber (box_weight dense_box))) = Some 85"
    unfolding mixed_db_def example_db_def strapi.simps by (rule dense_box_class)
  have nz4: "(85::real) \<noteq> 0" by simp
  have np4: "findPriceAndRateByClassAndDistance (freight_class_pricings mixed_db) 85 ?b ?wd = None"
    unfolding mt by (rule dense_box_no_price)
  have ne4: "freight_class_pricings mixed_db \<noteq> []" unfolding mt by (simp add: mixed_rates_def)
  have pre4: "\<forall>x\<in>set [light_box]. \<exists>r. quoteBox mixed_db 250 ?b x = Inr r"
    using light_box_quoted by simp
  have pre4u: "\<forall>x\<in>set [imperial light_box]. \<exists>r. quoteBox_u mixed_db 250 ?b x = Inr r"
    using light_box_quoted by (simp add: quoteBox_imperial)
  note f4 = nearest_class_fallback [OF dense_box_valid cls4 nz4 np4,
      where km = 250 and pre = "[light_box]" and post = "[example_box]"
        and pre' = "[imperial light_box]" and post' = "[imperial example_box]"
        and shipment = "[]" and shipment' = "[]"
        and origin = ?o and dest = "''M5V 2T6''" and country = "''CA''",
      THEN conjunct2, THEN conjunct1, THEN mp, OF ne4, unfolded mt]
  let ?E = "\<lambda>k. NoPricingFound 85 k (toFixed 2 250) ?b (toFixed 2 ?wd)"
  have k925: "k = 92.5" if "k \<in> freightClass ` set mixed_rates"
    and "\<forall>a\<in>freightClass ` set mixed_rates.
            \<bar>85 - k\<bar> \<le> \<bar>85 - a\<bar> \<and> (\<bar>85 - a\<bar> = \<bar>85 - k\<bar> \<longrightarrow> k \<le> a)" for k :: real
  proof -
    from that(1) have "k = 300 \<or> k = 92.5" by (simp add: mixed_rates_def)
    moreover from that(2) have "\<bar>85 - k\<bar> \<le> \<bar>85 - 92.5\<bar>" by (simp add: mixed_rates_def)
    ultimately show ?thesis by auto
  qed
  from f4 have de: "calculateShippingForBoxes mixed_db
        ([light_box] @ dense_box # [example_box]) 250 ?b ?o ''M5V 2T6'' ''CA'' = Inl (?E 92.5)
      \<and> calculateShippingForBoxes_u mixed_db
        ([imperial light_box] @ imperial dense_box # [imperial example_box])
        250 ?b ?o ''M5V 2T6'' ''CA'' = Inl (?E 92.5)"
  proof (elim exE conjE disjE)
    fix k
    assume kin: "k \<in> freightClass ` set mixed_rates"
      and kmin: "\<forall>a\<in>freightClass ` set mixed_rates.
            \<bar>85 - k\<bar> \<le> \<bar>85 - a\<bar> \<and> (\<bar>85 - a\<bar> = \<bar>85 - k\<bar> \<longrightarrow> k \<le> a)"
      and i1: "(\<forall>x\<in>set [light_box]. \<exists>r. quoteBox mixed_db 250 ?b x = Inr r) \<longrightarrow>
             calculateShippingForBoxes mixed_db ([light_box] @ dense_box # [example_box])
               250 ?b ?o ''M5V 2T6'' ''CA'' = Inl (?E k)"
      and i2: "(\<forall>x\<in>set [imperial light_box]. \<exists>r. quoteBox_u mixed_db 250 ?b x = Inr r) \<longrightarrow>
             calculateShippingForBoxes_u mixed_db
               ([imperial light_box] @ imperial dense_box # [imperial example_box])
               250 ?b ?o ''M5V 2T6'' ''CA'' = Inl (?E k)"
    from i1 [THEN mp, OF pre4] i2 [THEN mp, OF pre4u]
    show ?thesis unfolding k925 [OF kin kmin] by (rule conjI)
  next
    fix k res and r :: PricingResult
    assume kin: "k \<in> freightClass ` set mixed_rates"
      and kmin: "\<forall>a\<in>freightClass ` set mixed_rates.
            \<bar>85 - k\<bar> \<le> \<bar>85 - a\<bar> \<and> (\<bar>85 - a\<bar> = \<bar>85 - k\<bar> \<longrightarrow> k \<le> a)"
      and some: "findPriceAndRateByClassAndDistance mixed_rates k ?b ?wd = Some r"
    from some [unfolded k925 [OF kin kmin]] dense_box_no_price(2) [of ?wd]
    show ?thesis by simp
  qed
  have ev: "?E 92.5 = NoPricingFound 85 92.5 250 ?b 458.56"
    by (simp add: toFixed_def dense_box_def toNumber_def gramsToPounds_def)
  from de [unfolded ev] have d: "calculateShippingForBoxes mixed_db [light_box, dense_box, example_box] 250 ?b
        ?o ''M5V 2T6'' ''CA'' = Inl (NoPricingFound 85 92.5 250 ?b 458.56)"
    and e: "calculateShippingForBoxes_u mixed_db
        [imperial light_box, imperial dense_box, imperial example_box] 250 ?b ?o ''M5V 2T6''
        ''CA'' = Inl (NoPricingFound 85 92.5 250 ?b 458.56)"
    by simp_all
  from a b1 b2 c d e show ?thesis by (intro conjI)
qed


subsection \<open>Origin of a shipment: results\<close>

lemma closestLoop_step_unreachable:
  "\<not> reachable g dA w \<Longrightarrow> closestLoop g dA (cl, m) (w # rest) = closestLoop g dA (cl, m) rest"
  by (auto simp: reachable_def calculateDistance_def split: option.splits)

lemma closestLoop_step_closer:
  "reachable g dA w \<Longrightarrow> (case m of None \<Rightarrow> True | Some mv \<Rightarrow> distanceTo g dA w < mv) \<Longrightarrow>
     closestLoop g dA (cl, m) (w # rest) = closestLoop g dA (w, Some (distanceTo g dA w)) rest"
  by (auto simp: reachable_def distanceTo_def calculateDistance_def split: option.splits)

lemma closestLoop_step_farther:
  "reachable g dA w \<Longrightarrow> m = Some mv \<Longrightarrow> mv \<le> distanceTo g dA w \<Longrightarrow>
     closestLoop g dA (cl, m) (w # rest) = closestLoop g dA (cl, m) rest"
  by (auto simp: reachable_def distanceTo_def calculateDistance_def split: option.splits)

lemma closestLoop_inv:
  "(closestLoop g dA (cl, m) ws = cl
      \<and> (\<forall>x\<in>set ws. reachable g dA x
            \<longrightarrow> (case m of None \<Rightarrow> False | Some mv \<Rightarrow> mv \<le> distanceTo g dA x)))
   \<or> (nearestFirst g dA ws (closestLoop g dA (cl, m) ws)
       \<and> (case m of None \<Rightarrow> True
           | Some mv \<Rightarrow> distanceTo g dA (closestLoop g dA (cl, m) ws) < mv))"
proof (induction ws arbitrary: cl m)
  case Nil
  then show ?case by simp
next
  case (Cons w rest)
  show ?case
  proof (cases "reachable g dA w")
    case False
    note st = closestLoop_step_unreachable [OF False]
    from Cons [of cl m] show ?thesis
    proof
      assume "closestLoop g dA (cl, m) rest = cl
      \<and> (\<forall>x\<in>set rest. reachable g dA x
            \<longrightarrow> (case m of None \<Rightarrow> False | Some mv \<Rightarrow> mv \<le> distanceTo g dA x))"
      with False show ?thesis unfolding st by auto
    next
      assume a: "nearestFirst g dA rest (closestLoop g dA (cl, m) rest)
       \<and> (case m of None \<Rightarrow> True
           | Some mv \<Rightarrow> distanceTo g dA (closestLoop g dA (cl, m) rest) < mv)"
      then obtain pre post where "rest = pre @ closestLoop g dA (cl, m) rest # post"
        and "reachable g dA (closestLoop g dA (cl, m) rest)"
        and "\<forall>x\<in>set pre. reachable g dA x
               \<longrightarrow> distanceTo g dA (closestLoop g dA (cl, m) rest) < distanceTo g dA x"
        and "\<forall>x\<in>set post. reachable g dA x
               \<longrightarrow> distanceTo g dA (closestLoop g dA (cl, m) rest) \<le> distanceTo g dA x"
        unfolding nearestFirst_def by blast
      with False have "nearestFirst g dA (w # rest) (closestLoop g dA (cl, m) rest)"
        unfolding nearestFirst_def
        by (intro exI [of _ "w # pre"] exI [of _ post]) auto
      with a show ?thesis unfolding st by blast
    qed
  next
    case True
    show ?thesis
    proof (cases "case m of None \<Rightarrow> True | Some mv \<Rightarrow> distanceTo g dA w < mv")
      case closer: True
      note st = closestLoop_step_closer [OF True closer]
      let ?r = "closestLoop g dA (w, Some (distanceTo g dA w)) rest"
      from Cons [of w "Some (distanceTo g dA w)"] show ?thesis
      proof
        assume a: "?r = w \<and> (\<forall>x\<in>set rest. reachable g dA x
            \<longrightarrow> (case Some (distanceTo g dA w) of None \<Rightarrow> False
                 | Some mv \<Rightarrow> mv \<le> distanceTo g dA x))"
        with True have nf: "nearestFirst g dA (w # rest) ?r"
          unfolding nearestFirst_def
          by (intro exI [of _ "[]"] exI [of _ rest]) auto
        from a have rw: "?r = w" by blast
        from closer have "case m of None \<Rightarrow> True | Some mv \<Rightarrow> distanceTo g dA ?r < mv"
          unfolding rw .
        with nf show ?thesis unfolding st by blast
      next
        assume a: "nearestFirst g dA rest ?r
          \<and> (case Some (distanceTo g dA w) of None \<Rightarrow> True
             | Some mv \<Rightarrow> distanceTo g dA ?r < mv)"
        then obtain pre post where "rest = pre @ ?r # post"
          and "reachable g dA ?r"
          and "\<forall>x\<in>set pre. reachable g dA x \<longrightarrow> distanceTo g dA ?r < distanceTo g dA x"
          and "\<forall>x\<in>set post. reachable g dA x \<longrightarrow> distanceTo g dA ?r \<le> distanceTo g dA x"
          unfolding nearestFirst_def by blast
        with a have nf: "nearestFirst g dA (w # rest) ?r"
          unfolding nearestFirst_def
          by (intro exI [of _ "w # pre"] exI [of _ post]) auto
        from a closer have "case m of None \<Rightarrow> True | Some mv \<Rightarrow> distanceTo g dA ?r < mv"
          by (cases m) auto
        with nf show ?thesis unfolding st by blast
      qed
    next
      case False
      then obtain mv where m: "m = Some mv" and le: "mv \<le> distanceTo g dA w"
        by (cases m) auto
      note st = closestLoop_step_farther [OF True m le]
      let ?r = "closestLoop g dA (cl, m) rest"
      from Cons [of cl m] show ?thesis
      proof
        assume "?r = cl \<and> (\<forall>x\<in>set rest. reachable g dA x
            \<longrightarrow> (case m of None \<Rightarrow> False | Some mv \<Rightarrow> mv \<le> distanceTo g dA x))"
        with m le show ?thesis unfolding st by auto
      next
        assume a: "nearestFirst g dA rest ?r
          \<and> (case m of None \<Rightarrow> True | Some mv \<Rightarrow> distanceTo g dA ?r < mv)"
        then obtain pre post where "rest = pre @ ?r # post"
          and "reachable g dA ?r"
          and "\<forall>x\<in>set pre. reachable g dA x \<longrightarrow> distanceTo g dA ?r < distanceTo g dA x"
          and "\<forall>x\<in>set post. reachable g dA x \<longrightarrow> distanceTo g dA ?r \<le> distanceTo g dA x"
          unfolding nearestFirst_def by blast
        with a m le have "nearestFirst g dA (w # rest) ?r"
          unfolding nearestFirst_def
          by (intro exI [of _ "w # pre"] exI [of _ post]) auto
        with a show ?thesis unfolding st by blast
      qed
    qed
  qed
qed

lemma closestLoop_start:
  "(if \<exists>x\<in>set ws. reachable g dA x
    then nearestFirst g dA ws (closestLoop g dA (w0, None) ws)
    else closestLoop g dA (w0, None) ws = w0)"
proof -
  have nf: "nearestFirst g dA ws r \<Longrightarrow> \<exists>x\<in>set ws. reachable g dA x" for r
    unfolding nearestFirst_def by auto
  from closestLoop_inv [of g dA w0 None ws] nf show ?thesis by auto
qed

lemma origin_by_id:
  "warehouseById db wid = Some w \<Longrightarrow> truthy (postalCode w) \<Longrightarrow>
     getOriginPostalCode db g sc dest wid = Inr (postalCode w)
     \<and> getOriginPostalCode_u db g sc dest wid = Inr (postalCode w)"
  by (simp add: getOriginPostalCode_def getOriginPostalCode_u_def Let_def)

lemma no_id:
  "(\<forall>w. warehouseById db wid = Some w \<longrightarrow> \<not> truthy (postalCode w)) \<Longrightarrow>
     \<not> (case warehouseById db wid of None \<Rightarrow> False | Some w \<Rightarrow> truthy (postalCode w))"
  by (cases "warehouseById db wid") auto

lemma origin_service_rest:
  assumes "\<forall>w. warehouseById db wid = Some w \<longrightarrow> \<not> truthy (postalCode w)"
  shows "getOriginPostalCode db g sc dest wid =
     (let byChannel = filter (\<lambda>w. salesChannelId w = sc) (warehouses db);
          ws = warehouses db
      in if truthy sc \<and> byChannel \<noteq> [] then Inr (postalCode (hd byChannel))
         else if ws = [] then Inl (FailedToGetOrigin NoWarehousesFound)
         else if truthy dest \<and> length ws \<noteq> 1
         then Inr (postalCode (closestLoop g (address dest) (hd ws, None) ws))
         else Inr (postalCode (hd ws)))"
  using no_id [OF assms]
  by (simp add: getOriginPostalCode_def Let_def hd_conv_nth)

lemma closest_single:
  "(if \<exists>x\<in>set [w]. reachable g dA x then nearestFirst g dA [w] w else w = hd [w])"
proof (cases "reachable g dA w")
  case True
  then have "nearestFirst g dA [w] w"
    unfolding nearestFirst_def by (intro exI [of _ "[]"]) simp
  with True show ?thesis by simp
next
  case False
  then show ?thesis by simp
qed

lemma origin_service_closest:
  assumes "\<forall>w. warehouseById db wid = Some w \<longrightarrow> \<not> truthy (postalCode w)"
    and "\<not> (truthy sc \<and> filter (\<lambda>w. salesChannelId w = sc) (warehouses db) \<noteq> [])"
    and "truthy dest" and "warehouses db \<noteq> []"
  shows "\<exists>r. getOriginPostalCode db g sc dest wid = Inr (postalCode r)
           \<and> (if \<exists>x\<in>set (warehouses db). reachable g (address dest) x
               then nearestFirst g (address dest) (warehouses db) r
               else r = hd (warehouses db))"
proof (cases "length (warehouses db) = 1")
  case True
  then obtain w where w: "warehouses db = [w]" by (cases "warehouses db") auto
  from assms have "getOriginPostalCode db g sc dest wid = Inr (postalCode (hd (warehouses db)))"
    unfolding origin_service_rest [OF assms(1)] using True by (auto simp: Let_def)
  with closest_single [of w g "address dest"] show ?thesis unfolding w by auto
next
  case False
  from assms have "getOriginPostalCode db g sc dest wid
      = Inr (postalCode (closestLoop g (address dest) (hd (warehouses db), None) (warehouses db)))"
    unfolding origin_service_rest [OF assms(1)] using False by (auto simp: Let_def)
  with closestLoop_start [of "warehouses db" g "address dest" "hd (warehouses db)"]
  show ?thesis by blast
qed

lemma origin_copy_rest:
  assumes "\<forall>w. warehouseById db wid = Some w \<longrightarrow> \<not> truthy (postalCode w)"
  shows "getOriginPostalCode_u db g sc dest wid =
     (let byChannel = filter (\<lambda>w. salesChannelId w = sc) (warehouses db);
          ws = warehouses db;
          closest = (if length ws = 1 then hd ws
                     else closestLoop g (address dest) (hd ws, None) ws)
      in if truthy sc \<and> byChannel \<noteq> [] \<and> truthy (postalCode (hd byChannel))
         then Inr (postalCode (hd byChannel))
         else if truthy dest \<and> ws \<noteq> [] \<and> truthy (postalCode closest)
         then Inr (postalCode closest)
         else if ws \<noteq> [] \<and> truthy (postalCode (hd ws)) then Inr (postalCode (hd ws))
         else Inl NoWarehousesFound)"
proof -
  have a: "truthy dest \<Longrightarrow> address (Some (the dest)) = address dest"
    by (cases dest) (auto simp: truthy_def)
  show ?thesis
    using no_id [OF assms] a
    by (auto simp: getOriginPostalCode_u_def findClosestWarehouse_def Let_def hd_conv_nth)
qed

lemma origin_copy_closest:
  assumes "\<forall>w. warehouseById db wid = Some w \<longrightarrow> \<not> truthy (postalCode w)"
    and "\<not> (truthy sc \<and> filter (\<lambda>w. salesChannelId w = sc) (warehouses db) \<noteq> []
             \<and> truthy (postalCode (hd (filter (\<lambda>w. salesChannelId w = sc) (warehouses db)))))"
    and "truthy dest" and "warehouses db \<noteq> []"
  shows "if \<exists>x\<in>set (warehouses db). reachable g (address dest) x
         then \<exists>r. nearestFirst g (address dest) (warehouses db) r
                \<and> getOriginPostalCode_u db g sc dest wid = Inr (postalCode r)
         else getOriginPostalCode_u db g sc dest wid
                = (if truthy (postalCode (hd (warehouses db)))
                   then Inr (postalCode (hd (warehouses db))) else Inl NoWarehousesFound)"
proof -
  let ?ws = "warehouses db"
  let ?c = "if length ?ws = 1 then hd ?ws else closestLoop g (address dest) (hd ?ws, None) ?ws"
  have c: "if \<exists>x\<in>set ?ws. reachable g (address dest) x
           then nearestFirst g (address dest) ?ws ?c else ?c = hd ?ws"
  proof (cases "length ?ws = 1")
    case True
    then obtain w where w: "?ws = [w]" by (cases ?ws) auto
    from closest_single [of w g "address dest"] show ?thesis unfolding w by simp
  next
    case False
    with closestLoop_start [of ?ws g "address dest" "hd ?ws"] show ?thesis by simp
  qed
  have r: "getOriginPostalCode_u db g sc dest wid =
      (if truthy (postalCode ?c) then Inr (postalCode ?c)
       else if truthy (postalCode (hd ?ws)) then Inr (postalCode (hd ?ws))
       else Inl NoWarehousesFound)"
    unfolding origin_copy_rest [OF assms(1)] Let_def using assms(2,3,4) by auto
  show ?thesis
  proof (cases "\<exists>x\<in>set ?ws. reachable g (address dest) x")
    case True
    with c have nf: "nearestFirst g (address dest) ?ws ?c" by simp
    then have "truthy (postalCode ?c)" unfolding nearestFirst_def reachable_def by blast
    with r have "getOriginPostalCode_u db g sc dest wid = Inr (postalCode ?c)" by simp
    with nf True show ?thesis by auto
  next
    case False
    with c have "?c = hd ?ws" by simp
    with r False show ?thesis by auto
  qed
qed

lemma origin_error_iff:
  "(\<exists>e. getOriginPostalCode db g sc dest wid = Inl e) \<longleftrightarrow> warehouses db = []"
proof (cases "case warehouseById db wid of None \<Rightarrow> False | Some w \<Rightarrow> truthy (postalCode w)")
  case True
  then obtain w where w: "warehouseById db wid = Some w" "truthy (postalCode w)"
    by (cases "warehouseById db wid") auto
  then have "warehouses db \<noteq> []"
    by (auto simp: warehouseById_def split: option.splits if_splits)
  with origin_by_id [OF w] show ?thesis by auto
next
  case False
  then have n: "\<forall>w. warehouseById db wid = Some w \<longrightarrow> \<not> truthy (postalCode w)" by auto
  have "filter (\<lambda>w. salesChannelId w = sc) (warehouses db) \<noteq> [] \<Longrightarrow> warehouses db \<noteq> []"
    by auto
  then show ?thesis unfolding origin_service_rest [OF n] Let_def by auto
qed

lemma origin_copy_truthy:
  "getOriginPostalCode_u db g sc dest wid = Inr pc \<Longrightarrow> truthy pc"
  by (auto simp: getOriginPostalCode_u_def Let_def split: if_splits option.splits)

lemma origin_empty:
  "warehouses db = [] \<Longrightarrow>
     getOriginPostalCode db g sc dest wid = Inl (FailedToGetOrigin NoWarehousesFound)
     \<and> getOriginPostalCode_u db g sc dest wid = Inl NoWarehousesFound"
  by (auto simp: getOriginPostalCode_def getOriginPostalCode_u_def findClosestWarehouse_def
      warehouseById_def Let_def split: option.splits)

lemma example_nearest:
  "nearestFirst example_google (address (Some ''M5V 2T6'')) (warehouses example_db) r
     \<Longrightarrow> postalCode r = Some ''L0L 1P0''"
  unfolding nearestFirst_def
  by (auto simp: example_db_def example_warehouses_def Cons_eq_append_conv
      reachable_def distanceTo_def example_google_def address_def truthy_def)

text \<open>
  Claim C7, as amended. Step 1: a warehouse found by the given id and having a postal
  code gives the origin. Otherwise, in the service: step 2, the first warehouse of the
  sales channel; step 3, with a destination, the first reachable warehouse at minimum
  distance (a warehouse whose lookup fails is passed over), or the first warehouse of
  the list when none is reachable; step 4, without a destination, the first warehouse
  of the list; an error exactly when there is no warehouse at all. The second copy
  takes a step's warehouse only when it has a postal code and otherwise goes on to the
  next step, so that it returns a postal code that is present or fails, also when
  warehouses exist.
\<close>

theorem origin_priority_chain:
  "(\<forall>w. warehouseById db wid = Some w \<and> truthy (postalCode w) \<longrightarrow>
        getOriginPostalCode db g sc dest wid = Inr (postalCode w)
        \<and> getOriginPostalCode_u db g sc dest wid = Inr (postalCode w))
   \<and> ((\<forall>w. warehouseById db wid = Some w \<longrightarrow> \<not> truthy (postalCode w)) \<longrightarrow>
        (truthy sc \<and> filter (\<lambda>w. salesChannelId w = sc) (warehouses db) \<noteq> [] \<longrightarrow>
           getOriginPostalCode db g sc dest wid
             = Inr (postalCode (hd (filter (\<lambda>w. salesChannelId w = sc) (warehouses db)))))
        \<and> (\<not> (truthy sc \<and> filter (\<lambda>w. salesChannelId w = sc) (warehouses db) \<noteq> [])
            \<and> truthy dest \<and> warehouses db \<noteq> [] \<longrightarrow>
             (\<exists>r. getOriginPostalCode db g sc dest wid = Inr (postalCode r)
                \<and> (if \<exists>x\<in>set (warehouses db). reachable g (address dest) x
                    then nearestFirst g (address dest) (warehouses db) r
                    else r = hd (warehouses db))))
        \<and> (\<not> (truthy sc \<and> filter (\<lambda>w. salesChannelId w = sc) (warehouses db) \<noteq> [])
            \<and> \<not> truthy dest \<and> warehouses db \<noteq> [] \<longrightarrow>
             getOriginPostalCode db g sc dest wid = Inr (postalCode (hd (warehouses db))))
        \<and> (truthy sc \<and> filter (\<lambda>w. salesChannelId w = sc) (warehouses db) \<noteq> []
            \<and> truthy (postalCode (hd (filter (\<lambda>w. salesChannelId w = sc) (warehouses db))))
            \<longrightarrow> getOriginPostalCode_u db g sc dest wid
                 = Inr (postalCode (hd (filter (\<lambda>w. salesChannelId w = sc) (warehouses db)))))
        \<and> (\<not> (truthy sc \<and> filter (\<lambda>w. salesChannelId w = sc) (warehouses db) \<noteq> []
                \<and> truthy (postalCode (hd (filter (\<lambda>w. salesChannelId w = sc)
                                            (warehouses db)))))
            \<and> truthy dest \<and> warehouses db \<noteq> [] \<longrightarrow>
             (if \<exists>x\<in>set (warehouses db). reachable g (address dest) x
              then \<exists>r. nearestFirst g (address dest) (warehouses db) r
                     \<and> getOriginPostalCode_u db g sc dest wid = Inr (postalCode r)
              else getOriginPostalCode_u db g sc dest wid
                     = (if truthy (postalCode (hd (warehouses db)))
                        then Inr (postalCode (hd (warehouses db)))
                        else Inl NoWarehousesFound)))
        \<and> (\<not> (truthy sc \<and> filter (\<lambda>w. salesChannelId w = sc) (warehouses db) \<noteq> []
                \<and> truthy (postalCode (hd (filter (\<lambda>w. salesChannelId w = sc)
                                            (warehouses db)))))
            \<and> \<not> truthy dest \<longrightarrow>
             getOriginPostalCode_u db g sc dest wid
               = (if warehouses db \<noteq> [] \<and> truthy (postalCode (hd (warehouses db)))
                  then Inr (postalCode (hd (warehouses db)))
                  else Inl NoWarehousesFound)))
   \<and> ((\<exists>e. getOriginPostalCode db g sc dest wid = Inl e) \<longleftrightarrow> warehouses db = [])
   \<and> (warehouses db = [] \<longrightarrow>
        getOriginPostalCode db g sc dest wid = Inl (FailedToGetOrigin NoWarehousesFound)
        \<and> getOriginPostalCode_u db g sc dest wid = Inl NoWarehousesFound)
   \<and> (\<forall>pc. getOriginPostalCode_u db g sc dest wid = Inr pc \<longrightarrow> truthy pc)"
proof (intro conjI impI allI)
  fix w assume "warehouseById db wid = Some w \<and> truthy (postalCode w)"
  then show "getOriginPostalCode db g sc dest wid = Inr (postalCode w)"
    and "getOriginPostalCode_u db g sc dest wid = Inr (postalCode w)"
    using origin_by_id by blast+
next
  assume n: "\<forall>w. warehouseById db wid = Some w \<longrightarrow> \<not> truthy (postalCode w)"
  note s = origin_service_rest [OF n, unfolded Let_def]
  note u = origin_copy_rest [OF n, unfolded Let_def]
  {
    assume "truthy sc \<and> filter (\<lambda>w. salesChannelId w = sc) (warehouses db) \<noteq> []"
    then show "getOriginPostalCode db g sc dest wid
             = Inr (postalCode (hd (filter (\<lambda>w. salesChannelId w = sc) (warehouses db))))"
      unfolding s by simp
  }
  {
    assume "\<not> (truthy sc \<and> filter (\<lambda>w. salesChannelId w = sc) (warehouses db) \<noteq> [])
            \<and> truthy dest \<and> warehouses db \<noteq> []"
    then show "\<exists>r. getOriginPostalCode db g sc dest wid = Inr (postalCode r)
                \<and> (if \<exists>x\<in>set (warehouses db). reachable g (address dest) x
                    then nearestFirst g (address dest) (warehouses db) r
                    else r = hd (warehouses db))"
      using origin_service_closest [OF n] by blast
  }
  {
    assume "\<not> (truthy sc \<and> filter (\<lambda>w. salesChannelId w = sc) (warehouses db) \<noteq> [])
            \<and> \<not> truthy dest \<and> warehouses db \<noteq> []"
    then show "getOriginPostalCode db g sc dest wid = Inr (postalCode (hd (warehouses db)))"
      unfolding s by auto
  }
  {
    assume "truthy sc \<and> filter (\<lambda>w. salesChannelId w = sc) (warehouses db) \<noteq> []
            \<and> truthy (postalCode (hd (filter (\<lambda>w. salesChannelId w = sc) (warehouses db))))"
    then show "getOriginPostalCode_u db g sc dest wid
                 = Inr (postalCode (hd (filter (\<lambda>w. salesChannelId w = sc) (warehouses db))))"
      unfolding u by simp
  }
  {
    assume "\<not> (truthy sc \<and> filter (\<lambda>w. salesChannelId w = sc) (warehouses db) \<noteq> []
                \<and> truthy (postalCode (hd (filter (\<lambda>w. salesChannelId w = sc)
                                            (warehouses db)))))
            \<and> truthy dest \<and> warehouses db \<noteq> []"
    then show "if \<exists>x\<in>set (warehouses db). reachable g (address dest) x
              then \<exists>r. nearestFirst g (address dest) (warehouses db) r
                     \<and> getOriginPostalCode_u db g sc dest wid = Inr (postalCode r)
              else getOriginPostalCode_u db g sc dest wid
                     = (if truthy (postalCode (hd (warehouses db)))
                        then Inr (postalCode (hd (warehouses db)))
                        else Inl NoWarehousesFound)"
      using origin_copy_closest [OF n] by blast
  }
  {
    assume "\<not> (truthy sc \<and> filter (\<lambda>w. salesChannelId w = sc) (warehouses db) \<noteq> []
                \<and> truthy (postalCode (hd (filter (\<lambda>w. salesChannelId w = sc)
                                            (warehouses db)))))
            \<and> \<not> truthy dest"
    then show "getOriginPostalCode_u db g sc dest wid
               = (if warehouses db \<noteq> [] \<and> truthy (postalCode (hd (warehouses db)))
                  then Inr (postalCode (hd (warehouses db)))
                  else Inl NoWarehousesFound)"
      unfolding u by auto
  }
next
  show "(\<exists>e. getOriginPostalCode db g sc dest wid = Inl e) \<longleftrightarrow> warehouses db = []"
    by (rule origin_error_iff)
next
  assume "warehouses db = []"
  then show "getOriginPostalCode db g sc dest wid = Inl (FailedToGetOrigin NoWarehousesFound)"
    and "getOriginPostalCode_u db g sc dest wid = Inl NoWarehousesFound"
    using origin_empty by blast+
next
  fix pc assume "getOriginPostalCode_u db g sc dest wid = Inr pc"
  then show "truthy pc" by (rule origin_copy_truthy)
qed

theorem origin_priority_chain_witness:
  "getOriginPostalCode example_db example_google None (Some ''M5V 2T6'') None
     = Inr (Some ''L0L 1P0'')
   \<and> getOriginPostalCode_u example_db example_google None (Some ''M5V 2T6'') None
     = Inr (Some ''L0L 1P0'')
   \<and> getOriginPostalCode example_db example_google None (Some ''M5V 2T6'') (Some 1)
     = Inr (Some ''H2K 4P5'')
   \<and> getOriginPostalCode example_db example_google (Some ''sc_2'') None None
     = Inr (Some ''L0L 1P0'')
   \<and> getOriginPostalCode example_db example_google None None None = Inr (Some ''H2K 4P5'')"
proof -
  let ?dest = "Some ''M5V 2T6''"
  have ws: "warehouses example_db \<noteq> []" by (simp add: example_db_def example_warehouses_def)
  have noid: "\<forall>w. warehouseById example_db None = Some w \<longrightarrow> \<not> truthy (postalCode w)"
    by (simp add: warehouseById_def)
  have nosc: "\<not> (truthy None \<and> filter (\<lambda>w. salesChannelId w = None) (warehouses example_db) \<noteq> [])"
    by (simp add: truthy_def)
  have noscu: "\<not> (truthy None \<and> filter (\<lambda>w. salesChannelId w = None) (warehouses example_db) \<noteq> []
      \<and> truthy (postalCode (hd (filter (\<lambda>w. salesChannelId w = None) (warehouses example_db)))))"
    by (simp add: truthy_def)
  have dest: "truthy ?dest" by (simp add: truthy_def)
  have reach: "\<exists>x\<in>set (warehouses example_db). reachable example_google (address ?dest) x"
    by (simp add: example_db_def example_warehouses_def reachable_def example_google_def
        address_def truthy_def)
  note chain = origin_priority_chain [of example_db _ example_google None _, THEN conjunct2,
      THEN conjunct1, THEN mp]
  from chain [of None ?dest, OF noid, THEN conjunct2, THEN conjunct1, THEN mp] nosc dest ws reach
  obtain r where "getOriginPostalCode example_db example_google None ?dest None
      = Inr (postalCode r)"
    and "nearestFirst example_google (address ?dest) (warehouses example_db) r"
    by auto
  with example_nearest have a: "getOriginPostalCode example_db example_google None ?dest None
     = Inr (Some ''L0L 1P0'')" by simp
  from chain [of None ?dest, OF noid, THEN conjunct2, THEN conjunct2, THEN conjunct2,
      THEN conjunct2, THEN conjunct1, THEN mp] noscu dest ws reach
  obtain r' where "getOriginPostalCode_u example_db example_google None ?dest None
      = Inr (postalCode r')"
    and "nearestFirst example_google (address ?dest) (warehouses example_db) r'"
    by auto
  with example_nearest have b: "getOriginPostalCode_u example_db example_google None ?dest None
     = Inr (Some ''L0L 1P0'')" by simp
  have byid: "warehouseById example_db (Some 1) = Some (example_warehouses ! 0)
      \<and> truthy (postalCode (example_warehouses ! 0))"
    by (simp add: warehouseById_def example_db_def example_warehouses_def truthy_def)
  from origin_priority_chain [of example_db "Some 1" example_google None ?dest, THEN conjunct1,
      rule_format, OF byid]
  have c: "getOriginPostalCode example_db example_google None ?dest (Some 1)
     = Inr (Some ''H2K 4P5'')" by (simp add: example_warehouses_def)
  have sc: "truthy (Some ''sc_2'')
      \<and> filter (\<lambda>w. salesChannelId w = Some ''sc_2'') (warehouses example_db) \<noteq> []"
    by (simp add: truthy_def example_db_def example_warehouses_def)
  from origin_priority_chain [of example_db None example_google "Some ''sc_2''" None,
      THEN conjunct2, THEN conjunct1, THEN mp, OF noid, THEN conjunct1, THEN mp, OF sc]
  have d: "getOriginPostalCode example_db example_google (Some ''sc_2'') None None
     = Inr (Some ''L0L 1P0'')" by (simp add: example_db_def example_warehouses_def)
  have nodest: "\<not> (truthy None \<and> filter (\<lambda>w. salesChannelId w = None) (warehouses example_db) \<noteq> [])
      \<and> \<not> truthy None \<and> warehouses example_db \<noteq> []"
    using ws by (simp add: truthy_def)
  from origin_priority_chain [of example_db None example_google None None,
      THEN conjunct2, THEN conjunct1, THEN mp, OF noid, THEN conjunct2, THEN conjunct2,
      THEN conjunct1, THEN mp, OF nodest]
  have e: "getOriginPostalCode example_db example_google None None None
     = Inr (Some ''H2K 4P5'')" by (simp add: example_db_def example_warehouses_def)
  from a b c d e show ?thesis by blast
qed

text \<open>
  The claim's fifth step fails on the second copy: with a single warehouse that has no
  postal code the copy raises the no-warehouses error; the service returns that
  warehouse's absent postal code.
\<close>

theorem origin_error_counterexample:
  "getOriginPostalCode_u unaddressed_db example_google None (Some ''M5V 2T6'') None
     = Inl NoWarehousesFound
   \<and> warehouses unaddressed_db \<noteq> []
   \<and> getOriginPostalCode unaddressed_db example_google None (Some ''M5V 2T6'') None = Inr None"
  by (simp add: getOriginPostalCode_u_def getOriginPostalCode_def unaddressed_db_def
      findClosestWarehouse_def warehouseById_def truthy_def)


subsection \<open>Subtotal and discount: results\<close>

lemma quoteBoxes_sum:
  "quoteBoxes body bs (rs, s) = Inr (rs', s') \<Longrightarrow>
     rs' = rs @ map (\<lambda>b. fst (projr (body b))) bs
     \<and> s' = s + sum_list (map (\<lambda>b. snd (projr (body b))) bs)
     \<and> (\<forall>b\<in>set bs. \<exists>r p. body b = Inr (r, p))"
proof (induction bs arbitrary: rs s)
  case Nil
  then show ?case by simp
next
  case (Cons b bs)
  from Cons.prems obtain r p where b: "body b = Inr (r, p)"
    by (cases "body b") (auto split: prod.splits)
  with Cons.prems have "quoteBoxes body bs (rs @ [r], s + p) = Inr (rs', s')" by simp
  from Cons.IH [OF this] b show ?case by simp
qed

lemma quote_totals:
  assumes "calculateShippingForBoxes db bs km band origin dest country = Inr q"
  shows "q_subtotal q = toFixed 3 (sum_list (map (\<lambda>b. snd (projr (quoteBox db km band b))) bs))
     \<and> q_total q =
         toFixed 3
           (sum_list (map (\<lambda>b. snd (projr (quoteBox db km band b))) bs)
            - sum_list (map (\<lambda>b. snd (projr (quoteBox db km band b))) bs)
              * (q_discountPercent q / 100))
     \<and> q_discountPercent q =
         (case discount_settings db of
            None \<Rightarrow> 0
          | Some st \<Rightarrow> if isDiscountEnabled st \<and> discountPercentage st \<noteq> 0
                       then discountPercentage st else 0)
     \<and> map b_price (q_boxes q)
         = map (\<lambda>b. toFixed 2 (snd (projr (quoteBox db km band b)))) bs"
proof -
  from assms obtain rs s where l: "quoteBoxes (quoteBox db km band) bs ([], 0) = Inr (rs, s)"
    and q: "q = assembleQuote db km origin dest country (rs, s)"
    by (auto simp: calculateShippingForBoxes_def split: sum.splits)
  from quoteBoxes_sum [OF l]
  have rs: "rs = map (\<lambda>b. fst (projr (quoteBox db km band b))) bs"
    and s: "s = sum_list (map (\<lambda>b. snd (projr (quoteBox db km band b))) bs)"
    and ok: "\<forall>b\<in>set bs. \<exists>r p. quoteBox db km band b = Inr (r, p)" by auto
  have "b_price (fst (projr (quoteBox db km band b)))
      = toFixed 2 (snd (projr (quoteBox db km band b)))" if "b \<in> set bs" for b
  proof -
    from ok that obtain r p where rp: "quoteBox db km band b = Inr (r, p)" by blast
    then have "b_price r = toFixed 2 p"
      unfolding quoteBox_def Let_def
      by (auto split: if_splits option.splits sum.splits prod.splits)
    with rp show ?thesis by simp
  qed
  then have "map b_price rs = map (\<lambda>b. toFixed 2 (snd (projr (quoteBox db km band b)))) bs"
    unfolding rs by simp
  with s show ?thesis unfolding q by (simp add: assembleQuote_def Let_def)
qed

lemma discount_in_range:
  fixes s p :: real
  assumes "0 \<le> s" and "0 \<le> p" and "p \<le> 100"
  shows "s - s * (p / 100) = max 0 (s * (1 - p / 100))"
proof -
  have "s - s * (p / 100) = s * (1 - p / 100)" by (simp add: algebra_simps)
  moreover from assms have "0 \<le> s * (1 - p / 100)" by simp
  ultimately show ?thesis by simp
qed

lemma discount_ten_percent:
  "map_sum id (\<lambda>q. (q_subtotal q, q_discountPercent q, q_total q))
     (calculateShippingForBoxes_u example_db [pallet_box] 250 ''200-299km''
        (Some ''H2K 4P5'') ''M5V 2T6'' ''CA'') = Inr (100, 10, 90)"
  by (simp add: pallet_box_def quote_defs example_defs js_defs Let_def)

lemma overdiscount_quotes:
  "map_sum id (\<lambda>q. (q_subtotal q, q_discountPercent q, q_total q))
     (calculateShippingForBoxes_u overdiscount_db [pallet_box] 250 ''200-299km''
        (Some ''H2K 4P5'') ''M5V 2T6'' ''CA'') = Inr (100, 150, - 50)"
  "map_sum id (\<lambda>q. (q_subtotal q, q_discountPercent q, q_total q))
     (calculateShippingForBoxes overdiscount_db [example_box] 250 ''200-299km''
        (Some ''H2K 4P5'') ''M5V 2T6'' ''CA'') = Inr (11.023, 150, - 5.512)"
  by (simp_all add: overdiscount_db_def pallet_box_def quote_defs example_defs js_defs Let_def)

lemma map_sum_triple:
  "map_sum id (\<lambda>q. (f q, g q, h q)) x = Inr (a, b, c) \<Longrightarrow>
     map_sum id f x = Inr a \<and> map_sum id g x = Inr b \<and> map_sum id h x = Inr c"
  by (cases x) auto

text \<open>
  Claim C6. The subtotal is the sum of the unrounded prices of the boxes, and the total
  is the subtotal less the discount, both rounded to three decimals in the quote only
  (\<open>quote_totals\<close>); with a percentage between 0 and 100 and a subtotal that is not
  negative this is the total of the claim (\<open>discount_in_range\<close>), and a subtotal of
  100 at 10 percent gives 90 (\<open>discount_ten_percent\<close>). The total is not clamped at 0:
  with a discount of 150 percent a subtotal of 100 gives the total -50 in the second
  copy, and the service gives -5.512 for a subtotal of 11.023.
\<close>

theorem discount_not_clamped:
  "map_sum id q_subtotal
     (calculateShippingForBoxes_u overdiscount_db [pallet_box] 250 ''200-299km''
        (Some ''H2K 4P5'') ''M5V 2T6'' ''CA'') = Inr 100
   \<and> map_sum id q_discountPercent
     (calculateShippingForBoxes_u overdiscount_db [pallet_box] 250 ''200-299km''
        (Some ''H2K 4P5'') ''M5V 2T6'' ''CA'') = Inr 150
   \<and> map_sum id q_total
     (calculateShippingForBoxes_u overdiscount_db [pallet_box] 250 ''200-299km''
        (Some ''H2K 4P5'') ''M5V 2T6'' ''CA'') = Inr (- 50)
   \<and> map_sum id q_subtotal
     (calculateShippingForBoxes overdiscount_db [example_box] 250 ''200-299km''
        (Some ''H2K 4P5'') ''M5V 2T6'' ''CA'') = Inr 11.023
   \<and> map_sum id q_total
     (calculateShippingForBoxes overdiscount_db [example_box] 250 ''200-299km''
        (Some ''H2K 4P5'') ''M5V 2T6'' ''CA'') = Inr (- 5.512)"
  using map_sum_triple [OF overdiscount_quotes(1)] map_sum_triple [OF overdiscount_quotes(2)]
  by blast

subsection \<open>Boxes in other units: results\<close>






subsection \<open>Validation of boxes: results\<close>

lemma firstBadBox_spec:
  "firstBadBox k bs = Some i \<Longrightarrow>
     k \<le> i \<and> i - k < length bs \<and> missingField (bs ! (i - k))
     \<and> (\<forall>j<i - k. \<not> missingField (bs ! j))"
proof (induction bs arbitrary: k)
  case Nil
  then show ?case by simp
next
  case (Cons b bs)
  show ?case
  proof (cases "missingField b")
    case True
    with Cons.prems show ?thesis by (auto simp: missingField_def falsy_def split: option.splits)
  next
    case False
    with Cons.prems have r: "firstBadBox (k + 1) bs = Some i"
      by (auto simp: missingField_def falsy_def split: option.splits if_splits)
    from Cons.IH [OF r] have k: "k + 1 \<le> i" and l: "i - (k + 1) < length bs"
      and m: "missingField (bs ! (i - (k + 1)))"
      and n: "\<forall>j<i - (k + 1). \<not> missingField (bs ! j)" by auto
    from k have e: "i - k = Suc (i - (k + 1))" by simp
    have "\<forall>j<i - k. \<not> missingField ((b # bs) ! j)"
    proof (intro allI impI)
      fix j assume "j < i - k"
      with n False e show "\<not> missingField ((b # bs) ! j)" by (cases j) auto
    qed
    with k l m e show ?thesis by simp
  qed
qed

lemma firstBadBox_None:
  "firstBadBox k bs = None \<longleftrightarrow> (\<forall>b\<in>set bs. \<not> missingField b)"
  by (induction bs arbitrary: k)
     (auto simp: missingField_def falsy_def split: option.splits)

lemma missing_quote:
  "missingField b \<Longrightarrow>
     quoteBox db km band b = Inl BoxMissingDimensions
     \<and> quoteBox_u db km band b = Inl BoxMissingDimensions"
  by (auto simp: missingField_def quoteBox_def quoteBox_u_def falsy_def split: option.splits)

lemma controller_bad_box:
  assumes "boxes cart' = Some bs" and "firstBadBox 0 bs = Some i"
  shows "calculateShipping_controller api db g (Some cart') = BadRequest (BoxMissingFields (i + 1))"
    and "calculateShipping_controller_u api db g (Some cart') = BadRequest (BoxMissingFields (i + 1))"
proof -
  from assms(2) have "bs \<noteq> []" by (cases bs) auto
  with assms show
    "calculateShipping_controller api db g (Some cart') = BadRequest (BoxMissingFields (i + 1))"
    "calculateShipping_controller_u api db g (Some cart') = BadRequest (BoxMissingFields (i + 1))"
    by (simp_all add: calculateShipping_controller_def calculateShipping_controller_u_def)
qed

text \<open>
  Claim C9, as amended. Both controllers answer a request whose boxes include one with a
  field that is absent or 0 with a bad request that names the position (counted from 1)
  of the first such box; the services' own check fails such a box, and with it the whole
  shipment, with an error that names no position, so that the box never contributes a
  quote and an absent field is not read as 0. A field that is present and not 0 passes,
  also when it is negative.
\<close>

theorem box_validation:
  "(boxes cart' = Some bs \<and> firstBadBox 0 bs = Some i \<longrightarrow>
      i < length bs \<and> missingField (bs ! i) \<and> (\<forall>j<i. \<not> missingField (bs ! j))
      \<and> calculateShipping_controller api db g (Some cart')
          = BadRequest (BoxMissingFields (i + 1))
      \<and> calculateShipping_controller_u api db g (Some cart')
          = BadRequest (BoxMissingFields (i + 1)))
   \<and> (firstBadBox 0 bs = None \<longleftrightarrow> (\<forall>b\<in>set bs. \<not> missingField b))
   \<and> (missingField b \<longrightarrow>
        quoteBox db km band b = Inl BoxMissingDimensions
        \<and> quoteBox_u db km band b = Inl BoxMissingDimensions)
   \<and> (b \<in> set bs \<and> missingField b \<longrightarrow>
        (\<exists>e. calculateShippingForBoxes db bs km band origin dest country = Inl e)
        \<and> (\<exists>e. calculateShippingForBoxes_u db bs km band origin dest country = Inl e))"
proof (intro conjI impI)
  assume a: "boxes cart' = Some bs \<and> firstBadBox 0 bs = Some i"
  with firstBadBox_spec [of 0 bs i]
  show "i < length bs" and "missingField (bs ! i)" and "\<forall>j<i. \<not> missingField (bs ! j)"
    by auto
  from a controller_bad_box [of cart' bs i]
  show "calculateShipping_controller api db g (Some cart')
          = BadRequest (BoxMissingFields (i + 1))"
    and "calculateShipping_controller_u api db g (Some cart')
          = BadRequest (BoxMissingFields (i + 1))"
    by blast+
next
  show "firstBadBox 0 bs = None \<longleftrightarrow> (\<forall>b\<in>set bs. \<not> missingField b)"
    by (rule firstBadBox_None)
next
  assume "missingField b"
  then show "quoteBox db km band b = Inl BoxMissingDimensions"
    and "quoteBox_u db km band b = Inl BoxMissingDimensions"
    using missing_quote by blast+
next
  assume a: "b \<in> set bs \<and> missingField b"
  then have "\<exists>e. quoteBox db km band b = Inl e" and "\<exists>e. quoteBox_u db km band b = Inl e"
    using missing_quote by blast+
  with a quoteBoxes_error [of b bs]
  have "\<exists>e. quoteBoxes (quoteBox db km band) bs ([], 0) = Inl e"
    and "\<exists>e. quoteBoxes (quoteBox_u db km band) bs ([], 0) = Inl e" by blast+
  then show "\<exists>e. calculateShippingForBoxes db bs km band origin dest country = Inl e"
    and "\<exists>e. calculateShippingForBoxes_u db bs km band origin dest country = Inl e"
    by (auto simp: calculateShippingForBoxes_def calculateShippingForBoxes_u_def)
qed

theorem box_validation_witness:
  "firstBadBox 0 [example_box, incomplete_box] = Some 1
   \<and> calculateShipping_controller example_api example_db example_google
        (Some (example_cart\<lparr>boxes := Some [example_box, incomplete_box]\<rparr>))
      = BadRequest (BoxMissingFields 2)
   \<and> calculateShipping_controller_u example_api example_db example_google
        (Some (example_cart\<lparr>boxes := Some [example_box, incomplete_box]\<rparr>))
      = BadRequest (BoxMissingFields 2)
   \<and> missingField incomplete_box
   \<and> quoteBox example_db 250 ''200-299km'' incomplete_box = Inl BoxMissingDimensions
   \<and> calculateShippingForBoxes example_db [example_box, incomplete_box] 250 ''200-299km''
        (Some ''H2K 4P5'') ''M5V 2T6'' ''CA'' = Inl BoxMissingDimensions"
proof -
  let ?bs = "[example_box, incomplete_box]"
  let ?cart = "example_cart\<lparr>boxes := Some ?bs\<rparr>"
  have f: "boxes ?cart = Some ?bs \<and> firstBadBox 0 ?bs = Some 1"
    by (simp add: example_box_def incomplete_box_def falsy_def)
  from box_validation [of ?cart ?bs 1 example_api example_db example_google, THEN conjunct1,
      THEN mp, OF f]
  have a: "calculateShipping_controller example_api example_db example_google (Some ?cart)
      = BadRequest (BoxMissingFields 2)
    \<and> calculateShipping_controller_u example_api example_db example_google (Some ?cart)
      = BadRequest (BoxMissingFields 2)" by simp
  have m: "missingField incomplete_box" by (simp add: missingField_def incomplete_box_def)
  from box_validation [of _ _ _ _ example_db _ incomplete_box 250 "''200-299km''",
      THEN conjunct2, THEN conjunct2, THEN conjunct1, THEN mp, OF m]
  have b: "quoteBox example_db 250 ''200-299km'' incomplete_box = Inl BoxMissingDimensions"
    by simp
  have c: "calculateShippingForBoxes example_db [example_box, incomplete_box] 250 ''200-299km''
        (Some ''H2K 4P5'') ''M5V 2T6'' ''CA'' = Inl BoxMissingDimensions"
    by (simp add: quote_defs example_defs js_defs incomplete_box_def Let_def)
  from f a m b c show ?thesis by simp
qed

text \<open>
  The claim's "positive" fails: a box with the length -1000 passes the controller's
  check and is quoted by the service, with a length of -39.37 inches.
\<close>

theorem negative_box_counterexample:
  "firstBadBox 0 [negative_box] = None
   \<and> map_sum id (map b_lengthIn \<circ> q_boxes)
       (calculateShippingForBoxes example_db [negative_box] 250 ''200-299km''
          (Some ''H2K 4P5'') ''M5V 2T6'' ''CA'') = Inr [- 39.37]"
  by (simp add: quote_defs example_defs js_defs negative_box_def Let_def)


subsection \<open>Double precision arithmetic: results\<close>

lemma log2floor_bounds: "0 < n \<Longrightarrow> 2 ^ log2floor n \<le> n \<and> n < 2 ^ Suc (log2floor n)"
proof (induction n rule: log2floor.induct)
  case (1 n)
  show ?case
  proof (cases "n < 2")
    case True
    with "1.prems" show ?thesis by (simp add: log2floor.simps [of n])
  next
    case False
    then have "0 < n div 2" by simp
    with "1.IH" False have ih: "2 ^ log2floor (n div 2) \<le> n div 2"
      "n div 2 < 2 ^ Suc (log2floor (n div 2))" by simp_all
    from False have e: "log2floor n = Suc (log2floor (n div 2))"
      by (simp add: log2floor.simps [of n])
    from ih show ?thesis unfolding e by (simp; linarith)
  qed
qed

lemma log2floor_bounds_real:
  assumes "0 < n"
  shows "(2::real) ^ log2floor n \<le> real n \<and> real n + 1 \<le> 2 ^ Suc (log2floor n)"
proof -
  from log2floor_bounds [OF assms] have a: "2 ^ log2floor n \<le> n"
    and b: "Suc n \<le> 2 ^ Suc (log2floor n)" by simp_all
  from a have "real (2 ^ log2floor n) \<le> real n" by (simp only: of_nat_le_iff)
  moreover from b have "real (Suc n) \<le> real (2 ^ Suc (log2floor n))"
    by (simp only: of_nat_le_iff)
  ultimately show ?thesis by simp
qed

text \<open>The binary exponent of a positive number is the exponent of its binade.\<close>

lemma binaryExponent_bounds:
  assumes "0 < a"
  shows "pow2 (binaryExponent a) \<le> a \<and> a < pow2 (binaryExponent a + 1)"
proof (cases "1 \<le> a")
  case True
  let ?n = "nat \<lfloor>a\<rfloor>"
  from True have n: "0 < ?n" by simp
  from True have na: "real ?n \<le> a" "a < real ?n + 1" by linarith+
  from log2floor_bounds_real [OF n] have "(2::real) ^ log2floor ?n \<le> real ?n"
    "real ?n + 1 \<le> 2 ^ Suc (log2floor ?n)" by blast+
  with na have "(2::real) ^ log2floor ?n \<le> a" "a < 2 ^ Suc (log2floor ?n)" by linarith+
  with True show ?thesis by (simp add: binaryExponent_def pow2_def nat_add_distrib)
next
  case False
  let ?m = "nat \<lceil>1 / a\<rceil>"
  let ?k = "log2floor (?m - 1)"
  from False assms have y: "1 < 1 / a" by simp
  then have m: "0 < ?m - 1" by linarith
  from y have ym: "1 / a \<le> real ?m" "real ?m - 1 < 1 / a" by linarith+
  from log2floor_bounds_real [OF m] have "(2::real) ^ ?k \<le> real (?m - 1)"
    "real (?m - 1) + 1 \<le> 2 ^ Suc ?k" by blast+
  moreover from m have "real (?m - 1) = real ?m - 1" by linarith
  ultimately have "(2::real) ^ ?k \<le> real ?m - 1" "real ?m \<le> 2 ^ Suc ?k"
    by linarith+
  with ym have b: "(2::real) ^ ?k < 1 / a" "1 / a \<le> 2 ^ Suc ?k" by linarith+
  from b(2) assms have lo: "1 / 2 ^ Suc ?k \<le> a"
    by (simp add: field_simps)
  from b(1) assms have hi: "a < 1 / 2 ^ ?k"
    by (simp add: field_simps)
  have e: "binaryExponent a = - int (Suc ?k)" using False by (simp add: binaryExponent_def)
  have p1: "pow2 (- int (Suc ?k)) = 1 / 2 ^ Suc ?k" by (simp add: pow2_def nat_add_distrib)
  have p2: "pow2 (- int (Suc ?k) + 1) = 1 / 2 ^ ?k"
    by (cases "?k") (simp_all add: pow2_def nat_add_distrib)
  from lo hi show ?thesis unfolding e p1 p2 by simp
qed

lemma roundHalfEven_of_int: "roundHalfEven (of_int n) = n"
  by (simp add: roundHalfEven_def)

text \<open>An integer up to \<open>2^53\<close> in absolute value is a double.\<close>

lemma roundToDouble_of_int:
  assumes "\<bar>n\<bar> \<le> 2 ^ 53"
  shows "roundToDouble (of_int n) = Num (of_int n)"
proof (cases "n = 0")
  case True
  then show ?thesis by (simp add: roundToDouble_def)
next
  case False
  let ?a = "\<bar>of_int n :: real\<bar>"
  let ?k = "log2floor (nat \<bar>n\<bar>)"
  from False have a1: "1 \<le> ?a"
    by (metis abs_ge_zero abs_zero int_one_le_iff_zero_less of_int_1_le_iff of_int_abs
        order_less_le zero_less_abs_iff)
  have fl: "nat \<lfloor>?a\<rfloor> = nat \<bar>n\<bar>" by (metis floor_of_int of_int_abs)
  from a1 have e: "binaryExponent ?a = int ?k" by (simp only: binaryExponent_def fl if_True)
  from False have pos: "0 < nat \<bar>n\<bar>" by simp
  from log2floor_bounds [OF pos] have "2 ^ ?k \<le> nat \<bar>n\<bar>" by simp
  then have kn: "(2::int) ^ ?k \<le> \<bar>n\<bar>"
    by (metis le_nat_iff numeral_power_eq_of_nat_cancel_iff of_nat_le_iff of_nat_power
        zero_le_numeral zero_le_power abs_ge_zero of_nat_numeral)
  with assms have h: "(2::int) ^ ?k \<le> 2 ^ 53" by linarith
  have k53: "?k \<le> 53" by (rule power_le_imp_le_exp [OF _ h]) simp
  have "\<exists>j. ?a / pow2 (int ?k - 52) = of_int j"
  proof (cases "?k \<le> 52")
    case True
    then have "pow2 (int ?k - 52) = 1 / 2 ^ (52 - ?k)"
      by (cases "?k = 52") (simp_all add: pow2_def nat_diff_distrib')
    then have "?a / pow2 (int ?k - 52) = of_int (\<bar>n\<bar> * 2 ^ (52 - ?k))" by simp
    then show ?thesis by blast
  next
    case False
    with k53 have k: "?k = 53" by simp
    with kn assms have "\<bar>n\<bar> = 2 ^ 53" by simp
    then have "?a = 2 ^ 53" by (metis of_int_abs of_int_numeral of_int_power)
    moreover from k have "pow2 (int ?k - 52) = 2" by (simp add: pow2_def)
    ultimately have "?a / pow2 (int ?k - 52) = of_int (2 ^ 52)" by simp
    then show ?thesis by blast
  qed
  then obtain j where j: "?a / pow2 (int ?k - 52) = of_int j" by blast
  have qpos: "0 < pow2 (int ?k - 52)" by (simp add: pow2_def)
  from j qpos
  have m: "of_int (roundHalfEven (?a / pow2 (int ?k - 52))) * pow2 (int ?k - 52) = ?a"
    by (simp add: roundHalfEven_of_int field_simps)
  from assms have "?a \<le> 2 ^ 53"
    by (metis of_int_abs of_int_le_iff of_int_numeral of_int_power)
  then have small: "\<not> pow2 1024 \<le> ?a" by (simp add: pow2_def)
  have mx: "max (int ?k) (- 1022) = int ?k" by simp
  from False have nz: "(of_int n :: real) \<noteq> 0" by simp
  show ?thesis
    unfolding roundToDouble_def Let_def e mx m using nz small by (simp add: abs_if)
qed














subsection \<open>External rate and fallback: results\<close>



lemma immediate_poll: "pollRates (immediate_status r) 0 = [r]"
  by (subst pollRates.simps) (simp add: immediate_status_def)



lemma valueless_rate: "medusaRate valueless_api db = Some (medusaPriceOf db NaN)"
  "medusaRate_u valueless_api db = None"
  by (simp_all add: medusaRate_def medusaRate_u_def immediate_poll valueless_api_def
      example_api_def truthy_def)






lemma controller_response:
  assumes "\<not> ((case items c of None \<Rightarrow> True | Some its \<Rightarrow> length its = 0)
              \<and> (case boxes c of None \<Rightarrow> True | Some bs \<Rightarrow> length bs = 0))"
    and "(case boxes c of None \<Rightarrow> None | Some bs \<Rightarrow> firstBadBox 0 bs) = None"
    and "shipping_address c = Some sa" and "truthy (postal_code sa)"
  shows "controllerOrigin db g c (postal_code sa) = Inr o1 \<Longrightarrow>
           calculateShipping_controller api db g (Some c) =
             (case calculateShipping db g c of
                Inl e \<Rightarrow> ServerError e
              | Inr q \<Rightarrow> (case medusaRate api db of
                           None \<Rightarrow> Ok (strapiBody q)
                         | Some (p, pct) \<Rightarrow> Ok (medusaBody q p pct)))"
    and "getOriginPostalCode_u db g (sales_channel_id c) (postal_code sa) (warehouse_id c)
           = Inr o2 \<Longrightarrow>
         calculateShipping_controller_u api db g (Some c) =
             (case calculateShipping_u db g c of
                Inl e \<Rightarrow> ServerError e
              | Inr q \<Rightarrow> (case medusaRate_u api db of
                           None \<Rightarrow> Ok (strapiBody q)
                         | Some (p, pct) \<Rightarrow> Ok (medusaBody q p pct)))"
  using assms
  by (simp_all add: calculateShipping_controller_def calculateShipping_controller_u_def Let_def
        split: sum.splits option.splits)

lemmas request_defs = calculateShipping_def calculateShipping_u_def controllerOrigin_def
  getOriginPostalCode_def getOriginPostalCode_u_def findClosestWarehouse_def warehouseById_def
  calculateDistance_def address_def mapDistanceToRange_def mapDistanceToRange_u_def ranges_def
  SALES_CHANNEL_POSTAL_CODES_def example_google_def example_cart_def

lemma example_local:
  "\<exists>q. calculateShipping example_db example_google example_cart = Inr q
       \<and> q_total q = 9.921 \<and> q_chosenWarehouse_name q = ''Barrie''"
  by (simp add: request_defs quote_defs example_defs js_defs Let_def)





text \<open>
  The controller beside the service does not test the value of the total: for a total
  without value it answers with the source \<open>MEDUSA_API\<close> and a price that is
  not-a-number, where the second controller falls back to the service's quote.
\<close>

lemma valueless_total:
  "\<exists>q. calculateShipping_controller valueless_api example_db example_google
         (Some example_cart) = Ok (medusaBody q NaN 0)
       \<and> r_source (medusaBody q NaN 0) = ''MEDUSA_API''
       \<and> r_total (medusaBody q NaN 0) = NaN"
proof -
  let ?sa = "\<lparr>postal_code = Some ''M5V 2T6'', country_code = None\<rparr>"
  have v1: "\<not> ((case items example_cart of None \<Rightarrow> True | Some its \<Rightarrow> length its = 0)
              \<and> (case boxes example_cart of None \<Rightarrow> True | Some bs \<Rightarrow> length bs = 0))"
    by (simp add: example_cart_def)
  have v2: "(case boxes example_cart of None \<Rightarrow> None | Some bs \<Rightarrow> firstBadBox 0 bs) = None"
    by (simp add: example_cart_def example_box_def falsy_def)
  have v3: "shipping_address example_cart = Some ?sa" by (simp add: example_cart_def)
  have v4: "truthy (postal_code ?sa)" by (simp add: truthy_def)
  have o: "controllerOrigin example_db example_google example_cart (postal_code ?sa)
      = Inr (Some ''L0L 1P0'')"
    by (simp add: request_defs example_defs truthy_def)
  have p: "medusaRate valueless_api example_db = Some (NaN, 0)"
    unfolding valueless_rate by (simp add: medusaPriceOf_def example_db_def)
  from example_local obtain q
    where q: "calculateShipping example_db example_google example_cart = Inr q" by blast
  from controller_response(1) [OF v1 v2 v3 v4 o, of valueless_api]
  have "calculateShipping_controller valueless_api example_db example_google
         (Some example_cart) = Ok (medusaBody q NaN 0)"
    unfolding q p by simp
  then show ?thesis by (auto simp: medusaBody_def)
qed

end
